theory Spec2Isabelle
  imports Main "HOL-Library.AList"
begin

section \<open>Texts\<close>

text \<open>
  The program works on JavaScript strings.  A text is modelled as a \<^typ>\<open>string\<close> of
  ASCII characters: white space is TAB, LF, VT, FF, CR and SPACE, the line terminators
  are LF and CR, and only the letters A-Z and a-z have a case.  Characters beyond ASCII
  are carried along unchanged.  An absent value (\<open>undefined\<close>) is \<^const>\<open>None\<close>.
\<close>

definition isSpace :: "char \<Rightarrow> bool" where
  "isSpace c = (c \<in> set [CHR 0x09, CHR 0x0A, CHR 0x0B, CHR 0x0C, CHR 0x0D, CHR '' ''])"

definition isLT :: "char \<Rightarrow> bool" where
  "isLT c = (c = CHR 0x0A \<or> c = CHR 0x0D)"

definition isDigit :: "char \<Rightarrow> bool" where
  "isDigit c = (c \<in> set ''0123456789'')"

definition isUpper :: "char \<Rightarrow> bool" where
  "isUpper c = (c \<in> set ''ABCDEFGHIJKLMNOPQRSTUVWXYZ'')"

definition isLower :: "char \<Rightarrow> bool" where
  "isLower c = (c \<in> set ''abcdefghijklmnopqrstuvwxyz'')"

definition isAlnum :: "char \<Rightarrow> bool" where
  "isAlnum c = (isUpper c \<or> isLower c \<or> isDigit c)"

text \<open>The class \<open>\w\<close>.\<close>

definition isWord :: "char \<Rightarrow> bool" where
  "isWord c = (isAlnum c \<or> c = CHR ''_'')"

definition toLowerChar :: "char \<Rightarrow> char" where
  "toLowerChar c =
     (if isUpper c
      then (case c of Char b0 b1 b2 b3 b4 b5 b6 b7 \<Rightarrow> Char b0 b1 b2 b3 b4 True b6 b7)
      else c)"

definition toUpperChar :: "char \<Rightarrow> char" where
  "toUpperChar c =
     (if isLower c
      then (case c of Char b0 b1 b2 b3 b4 b5 b6 b7 \<Rightarrow> Char b0 b1 b2 b3 b4 False b6 b7)
      else c)"

definition toLowerCase :: "string \<Rightarrow> string" where
  "toLowerCase s = map toLowerChar s"

definition toUpperCase :: "string \<Rightarrow> string" where
  "toUpperCase s = map toUpperChar s"

definition trim :: "string \<Rightarrow> string" where
  "trim s = rev (dropWhile isSpace (rev (dropWhile isSpace s)))"

text \<open>\<open>xs.join(sep)\<close>.\<close>

fun join :: "string \<Rightarrow> string list \<Rightarrow> string" where
  "join sep [] = []"
| "join sep [x] = x"
| "join sep (x # y # ys) = x @ sep @ join sep (y # ys)"

text \<open>\<open>s.split(c)\<close> for a one-character separator: the empty text gives one empty piece.\<close>

fun splitOn :: "char \<Rightarrow> string \<Rightarrow> string list" where
  "splitOn d [] = [[]]"
| "splitOn d (c # cs) =
     (if c = d then [] # splitOn d cs
      else (case splitOn d cs of [] \<Rightarrow> [[c]] | p # ps \<Rightarrow> (c # p) # ps))"

text \<open>
  \<open>s.split(/\s+/)\<close>: every maximal run of white space is one separator; a run at the
  start or the end leaves an empty piece there.
\<close>

fun splitWsAux :: "bool \<Rightarrow> string \<Rightarrow> string \<Rightarrow> string list" where
  "splitWsAux inRun cur [] = [rev cur]"
| "splitWsAux inRun cur (c # cs) =
     (if isSpace c
      then (if inRun then splitWsAux True cur cs else rev cur # splitWsAux True [] cs)
      else splitWsAux False (c # cur) cs)"

definition splitWs :: "string \<Rightarrow> string list" where
  "splitWs s = splitWsAux False [] s"

text \<open>\<open>s.startsWith(p)\<close>, \<open>s.endsWith(p)\<close> and \<open>s.includes(p)\<close>.\<close>

definition startsWith :: "string \<Rightarrow> string \<Rightarrow> bool" where
  "startsWith s p = (take (length p) s = p)"

definition endsWith :: "string \<Rightarrow> string \<Rightarrow> bool" where
  "endsWith s p = (length p \<le> length s \<and> drop (length s - length p) s = p)"

fun includesStr :: "string \<Rightarrow> string \<Rightarrow> bool" where
  "includesStr [] p = (p = [])"
| "includesStr (c # cs) p = (startsWith (c # cs) p \<or> includesStr cs p)"

text \<open>Truthiness of a text, of an optional text, and \<open>a || b\<close> on them.\<close>

definition truthy :: "string option \<Rightarrow> bool" where
  "truthy v = (case v of None \<Rightarrow> False | Some s \<Rightarrow> s \<noteq> [])"

definition orElse :: "string option \<Rightarrow> string \<Rightarrow> string" where
  "orElse v d = (case v of None \<Rightarrow> d | Some s \<Rightarrow> if s = [] then d else s)"

text \<open>A value interpolated in a template literal: \<open>undefined\<close> prints as that word.\<close>

definition shown :: "string option \<Rightarrow> string" where
  "shown v = (case v of None \<Rightarrow> ''undefined'' | Some s \<Rightarrow> s)"

section \<open>Text normalisers (utils.ts)\<close>

text \<open>\<open>toId\<close>: lower-case, then delete every run of characters outside \<open>[a-z0-9]\<close>.\<close>

definition toId :: "string option \<Rightarrow> string" where
  "toId text =
     (if \<not> truthy text then []
      else filter (\<lambda>c. isLower c \<or> isDigit c) (toLowerCase (the text)))"

definition toIconId :: "string option \<Rightarrow> string" where
  "toIconId text =
     (if \<not> truthy text then []
      else filter (\<lambda>c. isLower c \<or> isDigit c \<or> c = CHR ''-'') (toLowerCase (the text)))"

record HPStatus =
  hs_raw :: string
  hs_hp :: "string option"
  hs_status :: "string option"
  hs_fainted :: bool

definition parseHPStatus :: "string \<Rightarrow> HPStatus" where
  "parseHPStatus raw =
     (let tokens = filter (\<lambda>t. t \<noteq> []) (splitWs (trim raw)) in
      case tokens of
        [] \<Rightarrow> \<lparr>hs_raw = raw, hs_hp = None, hs_status = None, hs_fainted = False\<rparr>
      | hpToken # extra \<Rightarrow>
          (let fainted = (''fnt'' \<in> set extra \<or> (hpToken = ''0'' \<and> extra = []));
               statusTokens = filter (\<lambda>token. token \<noteq> ''fnt'') extra;
               hp = (if CHR ''/'' \<in> set hpToken then Some hpToken
                     else if hpToken = ''0'' \<and> fainted then Some ''0/100''
                     else None)
           in \<lparr>hs_raw = raw, hs_hp = hp,
               hs_status = (if statusTokens \<noteq> [] then Some (join '' '' statusTokens) else None),
               hs_fainted = fainted\<rparr>))"

text \<open>\<open>hp.match(/^(\d+)\/100$/)\<close>: the digits in front of \<open>/100\<close>, when the text has that shape.\<close>

definition percentMatch :: "string \<Rightarrow> string option" where
  "percentMatch h =
     (let ds = takeWhile isDigit h in
      if ds \<noteq> [] \<and> dropWhile isDigit h = ''/100'' then Some ds else None)"

definition formatHPStatus :: "HPStatus \<Rightarrow> string" where
  "formatHPStatus v =
     (if hs_fainted v then ''KO''
      else
        (let parts1 = (if truthy (hs_hp v)
                       then (case percentMatch (the (hs_hp v)) of
                               Some ds \<Rightarrow> [ds @ ''%'']
                             | None \<Rightarrow> [the (hs_hp v)])
                       else []);
             parts2 = (if truthy (hs_status v)
                       then parts1 @ [toUpperCase (the (hs_status v))] else parts1);
             joined = join '' '' parts2
         in if joined \<noteq> [] then joined else hs_raw v))"

definition prettifyMove :: "string \<Rightarrow> string" where
  "prettifyMove move =
     join '' '' (map (\<lambda>chunk. case chunk of [] \<Rightarrow> [] | c # cs \<Rightarrow> toUpperCase [c] @ cs)
                     (splitOn (CHR '' '') move))"

text \<open>
  \<open>segment.match(/^\[(.+?)\]\s*(.*)$/)\<close>.  The tag is the shortest non-empty run
  without a line terminator that is closed by a bracket after which, white space
  skipped, no line terminator is left; the second group is that remainder.
\<close>

fun bracketScan :: "string \<Rightarrow> string \<Rightarrow> (string \<times> string) option" where
  "bracketScan tagRev [] = None"
| "bracketScan tagRev (c # cs) =
     (if c = CHR '']'' \<and> tagRev \<noteq> [] \<and> \<not> list_ex isLT (dropWhile isSpace cs)
      then Some (rev tagRev, dropWhile isSpace cs)
      else if isLT c then None
      else bracketScan (c # tagRev) cs)"

definition bracketMatch :: "string \<Rightarrow> (string \<times> string) option" where
  "bracketMatch segment =
     (case segment of [] \<Rightarrow> None
      | c # cs \<Rightarrow> if c = CHR ''['' then bracketScan [] cs else None)"

text \<open>\<open>s.replace(/^(ability|item|move):\s*/i, '')\<close>.\<close>

definition stripSourcePrefix :: "string \<Rightarrow> string" where
  "stripSourcePrefix s =
     (if toLowerCase (take 8 s) = ''ability:'' then dropWhile isSpace (drop 8 s)
      else if toLowerCase (take 5 s) = ''item:'' then dropWhile isSpace (drop 5 s)
      else if toLowerCase (take 5 s) = ''move:'' then dropWhile isSpace (drop 5 s)
      else s)"

definition simplifyBracketText :: "string \<Rightarrow> string" where
  "simplifyBracketText segment =
     (if segment = [] then []
      else case bracketMatch segment of
        None \<Rightarrow> trim segment
      | Some (tag, rest) \<Rightarrow>
          (let cleanRest = trim rest in
           if tag = ''from'' then (if cleanRest = [] then [] else stripSourcePrefix cleanRest)
           else if tag = ''of'' then []
           else if tag = ''msg'' then cleanRest
           else if tag = ''sid'' then (if cleanRest \<noteq> [] then ''side '' @ cleanRest else [])
           else if tag = ''wisher''
             then (if cleanRest \<noteq> [] then ''Wish from '' @ cleanRest else ''Wish'')
           else if tag = ''spread'' then []
           else if tag = ''move'' then cleanRest
           else if cleanRest \<noteq> [] then cleanRest else tag))"

section \<open>Numbers\<close>

text \<open>
  \<open>Number(x)\<close> is modelled on what the protocol writes: an absent field and a text that
  cannot start a numeric literal give \<open>NaN\<close>, a blank text gives 0, and an optionally signed
  run of at most fifteen digits gives that integer.  Every other numeric text (fractions,
  exponents, radix prefixes, \<open>Infinity\<close>, longer integers) needs binary floating point
  and is reported as \<open>OutsideModel\<close>.
\<close>

datatype error = MissingLog | TypeError | SyntaxError | OutsideModel

datatype jsnum = JInt int | JNaN

definition bindE :: "error + 'a \<Rightarrow> ('a \<Rightarrow> error + 'b) \<Rightarrow> error + 'b" where
  "bindE m f = (case m of Inl e \<Rightarrow> Inl e | Inr x \<Rightarrow> f x)"

definition digitVal :: "char \<Rightarrow> int" where
  "digitVal c = int (length (takeWhile (\<lambda>d. d \<noteq> c) ''0123456789''))"

definition digitsVal :: "string \<Rightarrow> int" where
  "digitsVal ds = foldl (\<lambda>a d. 10 * a + digitVal d) 0 ds"

definition jsNumber :: "string option \<Rightarrow> error + jsnum" where
  "jsNumber v =
     (case v of
        None \<Rightarrow> Inr JNaN
      | Some s \<Rightarrow>
          (case trim s of
             [] \<Rightarrow> Inr (JInt 0)
           | c # cs \<Rightarrow>
               (let ds = (if c = CHR ''+'' \<or> c = CHR ''-'' then cs else c # cs) in
                if ds \<noteq> [] \<and> list_all isDigit ds \<and> length ds \<le> 15
                then Inr (JInt (if c = CHR ''-'' then - digitsVal ds else digitsVal ds))
                else if c \<in> set ''0123456789+-.I'' then Inl OutsideModel
                else Inr JNaN)))"

text \<open>\<open>a === b\<close> on numbers: \<open>NaN\<close> equals nothing.\<close>

definition strictEq :: "jsnum \<Rightarrow> jsnum \<Rightarrow> bool" where
  "strictEq a b = (case (a, b) of (JInt x, JInt y) \<Rightarrow> x = y | _ \<Rightarrow> False)"

fun showNat :: "nat \<Rightarrow> string" where
  "showNat n =
     (if n < 10 then [''0123456789'' ! n]
      else showNat (n div 10) @ [''0123456789'' ! (n mod 10)])"

definition showNum :: "jsnum \<Rightarrow> string" where
  "showNum x =
     (case x of JNaN \<Rightarrow> ''NaN''
      | JInt i \<Rightarrow> if i < 0 then CHR ''-'' # showNat (nat (- i)) else showNat (nat i))"

section \<open>Icons (pokemonIcons.ts)\<close>

definition ICON_BASE_URL :: string where
  "ICON_BASE_URL = ''https://play.pokemonshowdown.com/sprites/gen5''"

definition DEFAULT_ICON_ID :: string where
  "DEFAULT_ICON_ID = ''pokeball''"

definition IMAGE_RULES :: "string list" where
  "IMAGE_RULES = [''display:inline-block'', ''vertical-align:middle'', ''width:24px'',
                  ''height:24px'', ''margin-right:4px'', ''image-rendering:pixelated'']"

definition getPokemonIconUrl :: "string option \<Rightarrow> string" where
  "getPokemonIconUrl rawId =
     (let iconId = (case rawId of None \<Rightarrow> DEFAULT_ICON_ID
                    | Some r \<Rightarrow> if r \<noteq> [] \<and> trim r \<noteq> [] then trim r else DEFAULT_ICON_ID)
      in ICON_BASE_URL @ ''/'' @ iconId @ ''.png'')"

text \<open>\<open>s.replace(/c/g, r)\<close> for a single character \<open>c\<close>.\<close>

definition replaceChar :: "char \<Rightarrow> string \<Rightarrow> string \<Rightarrow> string" where
  "replaceChar c r s = concat (map (\<lambda>x. if x = c then r else [x]) s)"

definition escapeAltText :: "string \<Rightarrow> string" where
  "escapeAltText text = replaceChar (CHR 0x22) ''&quot;'' text"

definition renderPokemonIcon :: "string option \<Rightarrow> string \<Rightarrow> string" where
  "renderPokemonIcon rawId alt =
     (let safeAlt = escapeAltText alt; src = getPokemonIconUrl rawId in
      ''<img src='' @ [CHR 0x22] @ src @ [CHR 0x22] @ '' alt='' @ [CHR 0x22] @ safeAlt @ [CHR 0x22]
        @ '' width='' @ [CHR 0x22] @ ''24'' @ [CHR 0x22]
        @ '' height='' @ [CHR 0x22] @ ''24'' @ [CHR 0x22]
        @ '' style='' @ [CHR 0x22] @ join '';'' IMAGE_RULES @ [CHR 0x22] @ '' />'')"

section \<open>The data model (parser.ts)\<close>

text \<open>
  Turn and action objects are created once, stored in the \<open>turns\<close> array or in a turn's
  \<open>actions\<close> array at the moment of creation, and never removed; so the position in the
  array is the object's address.  \<open>currentTurn\<close> is an index into \<open>turns\<close>, and
  \<open>currentAction\<close> is a pair of a turn index and an index into that turn's actions.
  The registry maps a ref to its \<open>PokemonState\<close> object; a JavaScript \<open>Map\<close> keeps
  insertion order, as the association list does.  A \<open>Set\<close> is a list without duplicates.
\<close>

datatype side = P1 | P2

definition sideName :: "side \<Rightarrow> string" where
  "sideName sd = (case sd of P1 \<Rightarrow> ''p1'' | P2 \<Rightarrow> ''p2'')"

record DualFormat =
  d_html :: string
  d_text :: string

type_synonym DetailEntry = DualFormat

record LeadEntry =
  le_side :: side
  le_html :: string
  le_text :: string

record PlayerMap =
  pm_p1 :: string
  pm_p2 :: string
  pm_other :: "(string \<times> string) list"

record PokemonState =
  mon_ref :: string
  mon_side :: side
  mon_nickname :: "string option"
  mon_species :: string
  mon_iconId :: string
  mon_lastDisplayHP :: "string option"
  mon_status :: "string option"
  mon_fainted :: "bool option"

datatype ActionType = Move | Switch | Cant | Note

record ActionSummary =
  a_type :: ActionType
  a_actorRef :: "string option"
  a_actorName :: "string option"
  a_actorSpecies :: "string option"
  a_actorIconId :: "string option"
  a_side :: "side option"
  a_verb :: string
  a_targetRefs :: "string list option"
  a_targetNames :: "string list option"
  a_targetSpecies :: "string list option"
  a_details :: "DetailEntry list"
  a_fromIconId :: "string option"
  a_fromName :: "string option"

record TurnSummary =
  t_turn :: jsnum
  t_label :: "string option"
  t_headerEvents :: "string list"
  t_actions :: "ActionSummary list"
  t_endEvents :: "DetailEntry list"
  t_leadEntries :: "LeadEntry list"

record Teams =
  tm_p1 :: "string list"
  tm_p2 :: "string list"
  tm_p1Set :: "string list"
  tm_p2Set :: "string list"

record SideConditions =
  sc_p1 :: "string list"
  sc_p2 :: "string list"

record Boost =
  b_ref :: string
  b_stat :: string
  b_amount :: jsnum
  b_direction :: string

record PendingAbilityBoost =
  pab_ref :: string
  pab_ability :: "string option"
  pab_boosts :: "Boost list"

record ActivePositions =
  ap_p1a :: "string option"
  ap_p1b :: "string option"
  ap_p2a :: "string option"
  ap_p2b :: "string option"

record ParseContext =
  players :: PlayerMap
  formatName :: "string option"
  turns :: "TurnSummary list"
  currentTurn :: nat
  currentAction :: "(nat \<times> nat) option"
  pokemon :: "(string \<times> PokemonState) list"
  teams :: Teams
  winner :: "string option"
  loser :: "string option"
  resultNote :: "string option"
  leadPhase :: bool
  faintedThisTurn :: "string list"
  currentWeather :: "string option"
  sideConditions :: SideConditions
  pendingAbilityBoost :: "PendingAbilityBoost option"
  recentMoves :: "(string \<times> string) list"
  pendingSwitchAbility :: "(string \<times> string \<times> string) option"
  activePositions :: ActivePositions
  pendingFieldEnds :: "string list"
  pendingProtects :: "string list"

section \<open>Parser helpers (parser.ts)\<close>

text \<open>\<open>a || b\<close> where both sides may be absent.\<close>

definition orOpt :: "string option \<Rightarrow> string option \<Rightarrow> string option" where
  "orOpt a b = (if truthy a then a else b)"

text \<open>\<open>parts[i]\<close>: absent beyond the end of the array.\<close>

definition part :: "string list \<Rightarrow> nat \<Rightarrow> string option" where
  "part parts i = (if i < length parts then Some (parts ! i) else None)"

definition resolveSide :: "string \<Rightarrow> side" where
  "resolveSide ref = (if startsWith ref ''p2'' then P2 else P1)"

definition parseExtras :: "string list \<Rightarrow> nat \<Rightarrow> string list" where
  "parseExtras parts startIndex =
     filter (\<lambda>e. e \<noteq> []) (map simplifyBracketText (drop startIndex parts))"

definition formatExtras :: "string list \<Rightarrow> string" where
  "formatExtras extras =
     (let filtered = filter (\<lambda>e. e \<noteq> []) extras in
      if filtered \<noteq> [] then '' ('' @ join ''; '' filtered @ '')'' else [])"

definition normalizeWeatherName :: "string \<Rightarrow> string" where
  "normalizeWeatherName weather =
     (let normalized = toLowerCase weather in
      if includesStr normalized ''raindance'' \<or> normalized = ''raindance'' then ''Rain''
      else if includesStr normalized ''sandstorm'' then ''Sandstorm''
      else if includesStr normalized ''sunnyday'' \<or> normalized = ''sunnyday'' then ''Sun''
      else if includesStr normalized ''hail'' then ''Hail''
      else if includesStr normalized ''snow'' then ''Snow''
      else weather)"

text \<open>\<open>s.replace(/^move:\s*/i, '')\<close>.\<close>

definition stripMovePrefix :: "string \<Rightarrow> string" where
  "stripMovePrefix s =
     (if toLowerCase (take 5 s) = ''move:'' then dropWhile isSpace (drop 5 s) else s)"

definition normalizeFieldName :: "string \<Rightarrow> string" where
  "normalizeFieldName field =
     (let normalized = stripMovePrefix field in
      if includesStr normalized ''Psychic Terrain'' then ''Psychic Terrain''
      else if includesStr normalized ''Electric Terrain'' then ''Electric Terrain''
      else if includesStr normalized ''Grassy Terrain'' then ''Grassy Terrain''
      else if includesStr normalized ''Misty Terrain'' then ''Misty Terrain''
      else if includesStr normalized ''Trick Room'' then ''Trick Room''
      else if includesStr normalized ''Magic Room'' then ''Magic Room''
      else if includesStr normalized ''Wonder Room'' then ''Wonder Room''
      else if includesStr normalized ''Gravity'' then ''Gravity''
      else normalized)"

definition hasSpeciesOnBothSides :: "ParseContext \<Rightarrow> string \<Rightarrow> bool" where
  "hasSpeciesOnBothSides ctx species =
     (species \<in> set (tm_p1 (teams ctx)) \<and> species \<in> set (tm_p2 (teams ctx)))"

definition getPokemonDisplayName :: "ParseContext \<Rightarrow> string \<Rightarrow> string" where
  "getPokemonDisplayName ctx ref =
     (case map_of (pokemon ctx) ref of
        None \<Rightarrow> ref
      | Some mon \<Rightarrow>
          (let baseName = orElse (mon_nickname mon) (mon_species mon);
               sd = resolveSide ref
           in if sd = P2 \<and> hasSpeciesOnBothSides ctx (mon_species mon)
              then baseName @ '' (opp)'' else baseName))"

definition createTurn :: "jsnum \<Rightarrow> string option \<Rightarrow> TurnSummary" where
  "createTurn turn label =
     \<lparr>t_turn = turn, t_label = label, t_headerEvents = [], t_actions = [],
      t_endEvents = [], t_leadEntries = []\<rparr>"

definition createInitialContext :: ParseContext where
  "createInitialContext =
     (let leadTurn = createTurn (JInt 0) (Some ''Lead'') in
      \<lparr>players = \<lparr>pm_p1 = ''Player 1'', pm_p2 = ''Player 2'', pm_other = []\<rparr>,
       formatName = None,
       turns = [leadTurn],
       currentTurn = 0,
       currentAction = None,
       pokemon = [],
       teams = \<lparr>tm_p1 = [], tm_p2 = [], tm_p1Set = [], tm_p2Set = []\<rparr>,
       winner = None,
       loser = None,
       resultNote = None,
       leadPhase = True,
       faintedThisTurn = [],
       currentWeather = None,
       sideConditions = \<lparr>sc_p1 = [], sc_p2 = []\<rparr>,
       pendingAbilityBoost = None,
       recentMoves = [],
       pendingSwitchAbility = None,
       activePositions = \<lparr>ap_p1a = None, ap_p1b = None, ap_p2a = None, ap_p2b = None\<rparr>,
       pendingFieldEnds = [],
       pendingProtects = []\<rparr>)"

text \<open>Reading and writing the turn object that \<open>ctx.currentTurn\<close> refers to.\<close>

definition curTurn :: "ParseContext \<Rightarrow> TurnSummary" where
  "curTurn ctx = turns ctx ! currentTurn ctx"

definition updCurTurn :: "(TurnSummary \<Rightarrow> TurnSummary) \<Rightarrow> ParseContext \<Rightarrow> ParseContext" where
  "updCurTurn f ctx = ctx\<lparr>turns := (turns ctx)[currentTurn ctx := f (curTurn ctx)]\<rparr>"

text \<open>Reading and writing the action object that \<open>ctx.currentAction\<close> refers to.\<close>

definition curAction :: "ParseContext \<Rightarrow> ActionSummary option" where
  "curAction ctx =
     (case currentAction ctx of None \<Rightarrow> None
      | Some (ti, ai) \<Rightarrow> Some (t_actions (turns ctx ! ti) ! ai))"

definition updCurAction :: "(ActionSummary \<Rightarrow> ActionSummary) \<Rightarrow> ParseContext \<Rightarrow> ParseContext" where
  "updCurAction f ctx =
     (case currentAction ctx of None \<Rightarrow> ctx
      | Some (ti, ai) \<Rightarrow>
          ctx\<lparr>turns := (turns ctx)[ti := (turns ctx ! ti)
                 \<lparr>t_actions := (t_actions (turns ctx ! ti))[ai := f (t_actions (turns ctx ! ti) ! ai)]\<rparr>]\<rparr>)"

definition makeDetail :: "string \<Rightarrow> string option \<Rightarrow> DetailEntry" where
  "makeDetail text html =
     (if text = [] \<and> \<not> truthy html then \<lparr>d_html = [], d_text = []\<rparr>
      else
        (let safeHtml = (case html of
                           Some h \<Rightarrow> h
                         | None \<Rightarrow> replaceChar (CHR ''>'') ''&gt;''
                                     (replaceChar (CHR ''<'') ''&lt;''
                                       (replaceChar (CHR ''&'') ''&amp;'' text)))
         in \<lparr>d_html = safeHtml, d_text = text\<rparr>))"

definition flushPendingFieldEnds :: "ParseContext \<Rightarrow> ParseContext" where
  "flushPendingFieldEnds ctx =
     (if length (pendingFieldEnds ctx) = 0 then ctx
      else
        (let fieldEndTexts = map (\<lambda>e. e @ '' ends'') (pendingFieldEnds ctx);
             combined = join ''; '' fieldEndTexts
         in (updCurTurn (\<lambda>t. t\<lparr>t_endEvents := t_endEvents t @ [makeDetail combined None]\<rparr>) ctx)
              \<lparr>pendingFieldEnds := []\<rparr>))"

definition ensureCurrentTurn :: "ParseContext \<Rightarrow> jsnum \<Rightarrow> ParseContext" where
  "ensureCurrentTurn ctx turnNumber =
     (if strictEq (t_turn (curTurn ctx)) turnNumber then ctx
      else
        (let ctx1 = flushPendingFieldEnds ctx;
             newTurn = createTurn turnNumber None
         in ctx1\<lparr>turns := turns ctx1 @ [newTurn],
                 currentTurn := length (turns ctx1),
                 currentAction := None,
                 faintedThisTurn := [],
                 recentMoves := [],
                 pendingProtects := []\<rparr>))"

text \<open>
  \<open>addSpecies\<close> receives the side as written in the record.  \<open>ctx.teams[side].push\<close>
  fails for every side other than \<open>p1\<close> and \<open>p2\<close>: the property is absent, or it is one of
  the two sets, which have no \<open>push\<close>.
\<close>

definition addSpecies :: "ParseContext \<Rightarrow> string \<Rightarrow> string \<Rightarrow> error + ParseContext" where
  "addSpecies ctx sd species =
     (let normalized = trim species;
          ident = toId (Some normalized)
      in if ident = [] then Inr ctx
         else
           (let theSet = (if sd = ''p1'' then tm_p1Set (teams ctx) else tm_p2Set (teams ctx)) in
            if normalized \<in> set theSet then Inr ctx
            else if sd = ''p1''
              then Inr (ctx\<lparr>teams := (teams ctx)\<lparr>tm_p1Set := tm_p1Set (teams ctx) @ [normalized],
                                                tm_p1 := tm_p1 (teams ctx) @ [normalized]\<rparr>\<rparr>)
            else if sd = ''p2''
              then Inr (ctx\<lparr>teams := (teams ctx)\<lparr>tm_p2Set := tm_p2Set (teams ctx) @ [normalized],
                                                tm_p2 := tm_p2 (teams ctx) @ [normalized]\<rparr>\<rparr>)
            else Inl TypeError))"

record RefInfo =
  ri_ref :: string
  ri_nickname :: string
  ri_side :: side

text \<open>
  \<open>raw.match(/^([a-z0-9]+):\s*(.+)$/i)\<close>.  The second group is what follows the colon
  and its white space, and must reach the end without a line terminator; when only white
  space follows the colon, the group is its last character.
\<close>

definition refMatch :: "string \<Rightarrow> (string \<times> string) option" where
  "refMatch raw =
     (let r = takeWhile isAlnum raw in
      if r = [] then None
      else case dropWhile isAlnum raw of
        [] \<Rightarrow> None
      | c # after \<Rightarrow>
          if c \<noteq> CHR '':'' then None
          else
            (let w = takeWhile isSpace after; t = dropWhile isSpace after in
             if t \<noteq> [] then (if list_ex isLT t then None else Some (r, t))
             else if w \<noteq> [] \<and> \<not> isLT (last w) then Some (r, [last w])
             else None))"

definition parsePokemonRef :: "string \<Rightarrow> RefInfo" where
  "parsePokemonRef raw =
     (case refMatch raw of
        None \<Rightarrow>
          (let ref = trim raw in
           \<lparr>ri_ref = ref, ri_nickname = trim raw, ri_side = resolveSide ref\<rparr>)
      | Some (ref, nickname) \<Rightarrow>
          \<lparr>ri_ref = ref, ri_nickname = nickname, ri_side = resolveSide ref\<rparr>)"

definition getOrCreatePokemon ::
  "ParseContext \<Rightarrow> string \<Rightarrow> side \<Rightarrow> string \<Rightarrow> PokemonState \<times> ParseContext" where
  "getOrCreatePokemon ctx ref sd species =
     (case map_of (pokemon ctx) ref of
        Some existing \<Rightarrow> (existing, ctx)
      | None \<Rightarrow>
          (let iconId = (if toIconId (Some species) \<noteq> [] then toIconId (Some species)
                         else DEFAULT_ICON_ID);
               created = \<lparr>mon_ref = ref, mon_side = sd, mon_nickname = None,
                          mon_species = species, mon_iconId = iconId,
                          mon_lastDisplayHP = None, mon_status = None, mon_fainted = None\<rparr>
           in (created, ctx\<lparr>pokemon := AList.update ref created (pokemon ctx)\<rparr>)))"

text \<open>A write to a field of the registry object stored under \<open>ref\<close>.\<close>

definition updMon :: "string \<Rightarrow> (PokemonState \<Rightarrow> PokemonState) \<Rightarrow> ParseContext \<Rightarrow> ParseContext" where
  "updMon ref f ctx = ctx\<lparr>pokemon := AList.map_entry ref f (pokemon ctx)\<rparr>"

definition updatePokemonSpecies :: "ParseContext \<Rightarrow> string \<Rightarrow> string \<Rightarrow> error + ParseContext" where
  "updatePokemonSpecies ctx ref species =
     (let sd = resolveSide ref;
          ctx1 = snd (getOrCreatePokemon ctx ref sd species);
          ctx2 = updMon ref (\<lambda>mon. mon\<lparr>mon_species := species\<rparr>) ctx1;
          ctx3 = updMon ref (\<lambda>mon. mon\<lparr>mon_iconId :=
                    (if toIconId (Some species) \<noteq> [] then toIconId (Some species)
                     else mon_iconId mon)\<rparr>) ctx2
      in addSpecies ctx3 (sideName sd) species)"

definition setCurrentAction :: "ParseContext \<Rightarrow> ActionSummary \<Rightarrow> ParseContext" where
  "setCurrentAction ctx action =
     (updCurTurn (\<lambda>t. t\<lparr>t_actions := t_actions t @ [action]\<rparr>) ctx)
       \<lparr>currentAction := Some (currentTurn ctx, length (t_actions (curTurn ctx)))\<rparr>"

definition isEndOfTurnSource :: "string \<Rightarrow> bool" where
  "isEndOfTurnSource source =
     (let lowerSource = toLowerCase source in
      includesStr lowerSource ''leftovers'' \<or>
      includesStr lowerSource ''black sludge'' \<or>
      includesStr lowerSource ''psn'' \<or>
      includesStr lowerSource ''poison'' \<or>
      includesStr lowerSource ''brn'' \<or>
      includesStr lowerSource ''burn'' \<or>
      includesStr lowerSource ''sandstorm'' \<or>
      includesStr lowerSource ''hail'' \<or>
      includesStr lowerSource ''grassy terrain'' \<or>
      includesStr lowerSource ''aqua ring'' \<or>
      includesStr lowerSource ''ingrain'' \<or>
      includesStr lowerSource ''leech seed'')"

text \<open>\<open>appendDetail\<close> on a text, and on a detail entry.\<close>

definition appendDetailText :: "ParseContext \<Rightarrow> string \<Rightarrow> bool \<Rightarrow> ParseContext" where
  "appendDetailText ctx detail forceEndEvent =
     (if trim detail = [] then ctx
      else
        (let entry = makeDetail detail None in
         if forceEndEvent \<or> currentAction ctx = None
         then updCurTurn (\<lambda>t. t\<lparr>t_endEvents := t_endEvents t @ [entry]\<rparr>) ctx
         else updCurAction (\<lambda>a. a\<lparr>a_details := a_details a @ [entry]\<rparr>) ctx))"

definition appendDetail :: "ParseContext \<Rightarrow> DetailEntry \<Rightarrow> bool \<Rightarrow> ParseContext" where
  "appendDetail ctx detail forceEndEvent =
     (if d_text detail = [] \<and> d_html detail = [] then ctx
      else if forceEndEvent \<or> currentAction ctx = None
      then updCurTurn (\<lambda>t. t\<lparr>t_endEvents := t_endEvents t @ [detail]\<rparr>) ctx
      else updCurAction (\<lambda>a. a\<lparr>a_details := a_details a @ [detail]\<rparr>) ctx)"

definition pushHeaderEvent :: "ParseContext \<Rightarrow> string \<Rightarrow> ParseContext" where
  "pushHeaderEvent ctx text =
     (if length (t_actions (curTurn ctx)) = 0
      then updCurTurn (\<lambda>t. t\<lparr>t_headerEvents := t_headerEvents t @ [text]\<rparr>) ctx
      else updCurTurn (\<lambda>t. t\<lparr>t_endEvents := t_endEvents t @ [makeDetail text None]\<rparr>) ctx)"

definition iconHTML :: "string option \<Rightarrow> string \<Rightarrow> string" where
  "iconHTML iconId alt = renderPokemonIcon (Some (orElse iconId DEFAULT_ICON_ID)) alt"

definition detailWithIcon ::
  "ParseContext \<Rightarrow> string \<Rightarrow> string \<Rightarrow> string option \<Rightarrow> DetailEntry \<times> ParseContext" where
  "detailWithIcon ctx ref body htmlBody =
     (let sd = resolveSide ref;
          (mon, ctx1) = getOrCreatePokemon ctx ref sd ''Unknown'';
          label = getPokemonDisplayName ctx1 ref;
          icon = iconHTML (Some (mon_iconId mon)) label;
          html = icon @ (case htmlBody of None \<Rightarrow> body | Some h \<Rightarrow> h);
          text = trim (label @ '' '' @ body)
      in (makeDetail text (Some (trim html)), ctx1))"

definition combineDetails :: "DetailEntry list \<Rightarrow> DualFormat option" where
  "combineDetails details =
     (if details = [] then None
      else
        (let text = join ''; '' (filter (\<lambda>x. x \<noteq> []) (map d_text details));
             html = join ''; '' (filter (\<lambda>x. x \<noteq> [])
                      (map (\<lambda>detail. if d_html detail \<noteq> [] then d_html detail else d_text detail)
                           details))
         in if text = [] \<and> html = [] then None
            else Some \<lparr>d_html = (if html \<noteq> [] then html else text),
                       d_text = (if text \<noteq> [] then text else html)\<rparr>))"

definition addNoteAction :: "ParseContext \<Rightarrow> string option \<Rightarrow> string \<Rightarrow> ParseContext" where
  "addNoteAction ctx ref note =
     (let sd = (if truthy ref then resolveSide (the ref) else P1);
          actor = (if truthy ref then map_of (pokemon ctx) (the ref) else None);
          action = \<lparr>a_type = Note,
                    a_actorRef = ref,
                    a_actorName = (case actor of None \<Rightarrow> None
                                   | Some m \<Rightarrow> orOpt (mon_nickname m) (Some (mon_species m))),
                    a_actorSpecies = map_option mon_species actor,
                    a_actorIconId = map_option mon_iconId actor,
                    a_side = Some sd,
                    a_verb = note,
                    a_targetRefs = None, a_targetNames = None, a_targetSpecies = None,
                    a_details = [],
                    a_fromIconId = None, a_fromName = None\<rparr>
      in setCurrentAction ctx action)"

text \<open>\<open>mon?.nickname || mon?.species || fallback\<close>.\<close>

definition monName :: "PokemonState option \<Rightarrow> string \<Rightarrow> string" where
  "monName mon fallback =
     (case mon of None \<Rightarrow> fallback
      | Some m \<Rightarrow> orElse (orOpt (mon_nickname m) (Some (mon_species m))) fallback)"

text \<open>The \<open>Map\<close> from a target ref to its boosts, in order of first appearance.\<close>

fun boostsByTarget :: "Boost list \<Rightarrow> (string \<times> Boost list) list \<Rightarrow> (string \<times> Boost list) list" where
  "boostsByTarget [] m = m"
| "boostsByTarget (boost # rest) m =
     (let m1 = (if map_of m (b_ref boost) = None then AList.update (b_ref boost) [] m else m)
      in boostsByTarget rest (AList.map_entry (b_ref boost) (\<lambda>bs. bs @ [boost]) m1))"

fun boostDetails ::
  "ParseContext \<Rightarrow> (string \<times> Boost list) list \<Rightarrow> DetailEntry list \<times> ParseContext" where
  "boostDetails ctx [] = ([], ctx)"
| "boostDetails ctx ((targetRef, targetBoosts) # rest) =
     (let boostTexts = map (\<lambda>b. b_direction b @ showNum (b_amount b) @ '' '' @ b_stat b) targetBoosts;
          combinedBoostText = join '', '' boostTexts;
          (d, ctx1) = detailWithIcon ctx targetRef combinedBoostText None;
          (ds, ctx2) = boostDetails ctx1 rest
      in (d # ds, ctx2))"

definition finalizePendingAbilityBoost :: "ParseContext \<Rightarrow> ParseContext" where
  "finalizePendingAbilityBoost ctx =
     (case pendingAbilityBoost ctx of
        None \<Rightarrow> ctx
      | Some pending \<Rightarrow>
          (let ref = pab_ref pending;
               mon = map_of (pokemon ctx) ref;
               pokemonName = monName mon ref;
               possessive = (if endsWith pokemonName ''s'' then [CHR 0x27] else [CHR 0x27] @ ''s'');
               abilityText = pokemonName @ possessive @ '' '' @ shown (pab_ability pending);
               abilityHtml = iconHTML (map_option mon_iconId mon) pokemonName
                             @ pokemonName @ possessive @ '' '' @ shown (pab_ability pending);
               (ds, ctx1) = boostDetails ctx (boostsByTarget (pab_boosts pending) []);
               parts = makeDetail abilityText (Some abilityHtml) # ds;
               ctx2 = (case combineDetails parts of
                         None \<Rightarrow> ctx1
                       | Some combined \<Rightarrow>
                           if leadPhase ctx1 \<or>
                              (strictEq (t_turn (curTurn ctx1)) (JInt 1) \<and>
                               length (t_actions (curTurn ctx1)) = 0)
                           then pushHeaderEvent ctx1 (d_text combined)
                           else appendDetail ctx1 combined False)
           in ctx2\<lparr>pendingAbilityBoost := None\<rparr>))"

section \<open>The event dispatcher (parseLog)\<close>

text \<open>
  Each \<open>case\<close> of the \<open>switch\<close> in \<open>parseLog\<close> is one definition below.  A handler that
  calls a method on a field the record does not have raises a \<open>TypeError\<close>, which nothing
  in the parser catches.
\<close>

definition withPart ::
  "string list \<Rightarrow> nat \<Rightarrow> (string \<Rightarrow> error + 'a) \<Rightarrow> error + 'a" where
  "withPart parts i f = (case part parts i of None \<Rightarrow> Inl TypeError | Some x \<Rightarrow> f x)"

text \<open>\<open>s.split(c)[0]\<close>.\<close>

definition headPiece :: "char \<Rightarrow> string \<Rightarrow> string" where
  "headPiece c s = (case splitOn c s of [] \<Rightarrow> [] | p # ps \<Rightarrow> p)"

text \<open>\<open>/[+-]\d+\s+\w+/.test(s)\<close>: the pattern at the front of the text, and anywhere in it.\<close>

definition boostAt :: "string \<Rightarrow> bool" where
  "boostAt s =
     (case s of [] \<Rightarrow> False
      | c # cs \<Rightarrow>
          (c = CHR ''+'' \<or> c = CHR ''-'') \<and> takeWhile isDigit cs \<noteq> [] \<and>
          takeWhile isSpace (dropWhile isDigit cs) \<noteq> [] \<and>
          (case dropWhile isSpace (dropWhile isDigit cs) of [] \<Rightarrow> False | x # xs \<Rightarrow> isWord x))"

fun isBoostText :: "string \<Rightarrow> bool" where
  "isBoostText [] = False"
| "isBoostText (c # cs) = (boostAt (c # cs) \<or> isBoostText cs)"

text \<open>\<open>ref.match(/^(p[12][ab])/)?.[1]\<close>.\<close>

definition positionOf :: "string \<Rightarrow> string option" where
  "positionOf ref =
     (case ref of
        a # b # c # rest \<Rightarrow>
          if a = CHR ''p'' \<and> (b = CHR ''1'' \<or> b = CHR ''2'') \<and> (c = CHR ''a'' \<or> c = CHR ''b'')
          then Some [a, b, c] else None
      | _ \<Rightarrow> None)"

definition setActivePosition :: "string \<Rightarrow> string \<Rightarrow> ActivePositions \<Rightarrow> ActivePositions" where
  "setActivePosition position ref ap =
     (if position = ''p1a'' then ap\<lparr>ap_p1a := Some ref\<rparr>
      else if position = ''p1b'' then ap\<lparr>ap_p1b := Some ref\<rparr>
      else if position = ''p2a'' then ap\<lparr>ap_p2a := Some ref\<rparr>
      else if position = ''p2b'' then ap\<lparr>ap_p2b := Some ref\<rparr>
      else ap)"

text \<open>
  \<open>s.match(/marker\s*(.+)/)\<close> for a literal marker: the first group of the leftmost match.
  After the marker and its white space the group runs to the next line terminator; when
  only white space follows the marker, the group is its last character that is not a line
  terminator.
\<close>

definition groupAfter :: "string \<Rightarrow> string option" where
  "groupAfter r =
     (let w = takeWhile isSpace r; t = dropWhile isSpace r in
      if t \<noteq> [] then Some (takeWhile (\<lambda>c. \<not> isLT c) t)
      else (case dropWhile isLT (rev w) of [] \<Rightarrow> None | c # cs \<Rightarrow> Some [c]))"

fun matchAfter :: "string \<Rightarrow> string \<Rightarrow> string option" where
  "matchAfter marker [] = None"
| "matchAfter marker (c # cs) =
     (if startsWith (c # cs) marker
      then (case groupAfter (drop (length marker) (c # cs)) of
              Some g \<Rightarrow> Some g
            | None \<Rightarrow> matchAfter marker cs)
      else matchAfter marker cs)"

text \<open>\<open>xs.indexOf(x)\<close>, with \<open>None\<close> for -1.\<close>

fun indexOf :: "string list \<Rightarrow> string \<Rightarrow> nat option" where
  "indexOf [] x = None"
| "indexOf (y # ys) x = (if y = x then Some 0 else map_option Suc (indexOf ys x))"

text \<open>
  The patch of a frozen target name, written out twice in the source (for \<open>(Protect)\<close> and
  for \<open>(immune)\<close>): when the open action has \<open>ref\<close> among its targets and the name there is
  not empty and does not yet carry the marker, the marker is appended.
\<close>

definition patchTargetName :: "ParseContext \<Rightarrow> string \<Rightarrow> string \<Rightarrow> ParseContext" where
  "patchTargetName ctx ref marker =
     (case curAction ctx of
        None \<Rightarrow> ctx
      | Some action \<Rightarrow>
          (case a_targetRefs action of
             None \<Rightarrow> ctx
           | Some targetRefs \<Rightarrow>
               (case (indexOf targetRefs ref, a_targetNames action) of
                  (Some targetIdx, Some targetNames) \<Rightarrow>
                    if targetIdx < length targetNames
                       \<and> targetNames ! targetIdx \<noteq> []
                       \<and> \<not> includesStr (targetNames ! targetIdx) marker
                    then updCurAction (\<lambda>a. a\<lparr>a_targetNames :=
                           Some (targetNames[targetIdx := targetNames ! targetIdx @ '' '' @ marker])\<rparr>) ctx
                    else ctx
                | _ \<Rightarrow> ctx)))"

definition setPlayer :: "PlayerMap \<Rightarrow> string \<Rightarrow> string \<Rightarrow> PlayerMap" where
  "setPlayer pm sd name =
     (if sd = ''p1'' then pm\<lparr>pm_p1 := name\<rparr>
      else if sd = ''p2'' then pm\<lparr>pm_p2 := name\<rparr>
      else if sd = ''__proto__'' then pm
      else pm\<lparr>pm_other := AList.update sd name (pm_other pm)\<rparr>)"

definition case_player :: "ParseContext \<Rightarrow> string list \<Rightarrow> error + ParseContext" where
  "case_player ctx parts =
     (case (part parts 1, part parts 2) of
        (Some sd, Some name) \<Rightarrow>
          if name \<noteq> [] then Inr (ctx\<lparr>players := setPlayer (players ctx) sd name\<rparr>) else Inr ctx
      | _ \<Rightarrow> Inr ctx)"

definition case_format :: "ParseContext \<Rightarrow> string list \<Rightarrow> error + ParseContext" where
  "case_format ctx parts =
     (if \<not> truthy (formatName ctx) then Inr (ctx\<lparr>formatName := part parts 1\<rparr>) else Inr ctx)"

definition case_win :: "ParseContext \<Rightarrow> string list \<Rightarrow> error + ParseContext" where
  "case_win ctx parts = Inr (ctx\<lparr>winner := part parts 1\<rparr>)"

definition case_l :: "ParseContext \<Rightarrow> string list \<Rightarrow> error + ParseContext" where
  "case_l ctx parts =
     (let loserToken = orElse (part parts 1) [] in
      Inr (ctx\<lparr>loser := Some (dropWhile (\<lambda>c. \<not> isAlnum c) loserToken)\<rparr>))"

definition case_turn :: "ParseContext \<Rightarrow> string list \<Rightarrow> error + ParseContext" where
  "case_turn ctx parts =
     (let ctx1 = finalizePendingAbilityBoost ctx in
      bindE (jsNumber (part parts 1)) (\<lambda>turnNumber.
        (let ctx2 = ctx1\<lparr>leadPhase := False\<rparr>;
             ctx3 = ensureCurrentTurn ctx2 turnNumber
         in Inr (ctx3\<lparr>currentAction := None\<rparr>))))"

definition case_poke :: "ParseContext \<Rightarrow> string list \<Rightarrow> error + ParseContext" where
  "case_poke ctx parts =
     withPart parts 2 (\<lambda>detail.
       withPart parts 1 (\<lambda>sd.
         addSpecies ctx sd (headPiece (CHR '','') detail)))"

text \<open>The predicate of \<open>switchExtras.find\<close>: an annotation taken to name a move.\<close>

definition forcedByMove :: "string \<Rightarrow> bool" where
  "forcedByMove extra =
     (let lowerExtra = toLowerCase extra in
      \<not> includesStr lowerExtra ''ability'' \<and> \<not> includesStr lowerExtra ''item'' \<and> length extra > 0)"

text \<open>
  The consolidation of the stat-boost details of the open action, and the merge of a
  forced switch into the open move action (the body of the first \<open>if\<close> of the handler).
\<close>

definition consolidateBoosts :: "DetailEntry list \<Rightarrow> DetailEntry list" where
  "consolidateBoosts details =
     (let boostDetails = filter (\<lambda>d. isBoostText (trim (d_text d))) details;
          otherDetails = filter (\<lambda>d. \<not> isBoostText (trim (d_text d))) details
      in if length boostDetails > 0
         then (let boostText = join '', '' (map d_text boostDetails);
                   boostHtml = join '', ''
                     (map (\<lambda>d. if d_html d \<noteq> [] then d_html d else d_text d) boostDetails)
               in makeDetail boostText (Some boostHtml) # otherDetails)
         else details)"

definition switchDetail ::
  "ParseContext \<Rightarrow> string \<Rightarrow> string option \<Rightarrow> string option \<Rightarrow> DetailEntry" where
  "switchDetail ctx ref previousIconId previousName =
     (let displayName = getPokemonDisplayName ctx ref;
          switchText = orElse previousName ''Previous'' @ '' -> '' @ displayName;
          previousIcon = (if truthy previousIconId
                          then iconHTML previousIconId (orElse previousName ''Previous'') else []);
          monIconId = map_option mon_iconId (map_of (pokemon ctx) ref);
          currentIcon = (if truthy monIconId then iconHTML monIconId displayName else []);
          switchHtml = (if previousIcon \<noteq> [] \<and> currentIcon \<noteq> []
                        then previousIcon @ '' -> '' @ currentIcon
                        else if currentIcon \<noteq> [] then currentIcon
                        else switchText)
      in makeDetail switchText (Some switchHtml))"

definition mergeForcedSwitch ::
  "ParseContext \<Rightarrow> string \<Rightarrow> string option \<Rightarrow> string option \<Rightarrow> ParseContext" where
  "mergeForcedSwitch ctx ref previousIconId previousName =
     (let ctx1 = updCurAction (\<lambda>a. a\<lparr>a_details := consolidateBoosts (a_details a)\<rparr>) ctx
      in updCurAction (\<lambda>a. a\<lparr>a_details := a_details a
                              @ [switchDetail ctx1 ref previousIconId previousName]\<rparr>) ctx1)"

text \<open>The writes to the registry object and to the active positions (lines 657 to 668).\<close>

definition recordSwitchIn :: "ParseContext \<Rightarrow> string \<Rightarrow> string \<Rightarrow> HPStatus \<Rightarrow> ParseContext" where
  "recordSwitchIn ctx1 ref nickname hpStatus =
     (let ctx2 = (if nickname \<noteq> []
                  then updMon ref (\<lambda>m. m\<lparr>mon_nickname := Some nickname\<rparr>) ctx1
                  else ctx1);
          ctx3 = updMon ref (\<lambda>m. m\<lparr>mon_lastDisplayHP := Some (formatHPStatus hpStatus),
                                     mon_status := hs_status hpStatus,
                                     mon_fainted := Some (hs_fainted hpStatus)\<rparr>) ctx2
      in case positionOf ref of
           None \<Rightarrow> ctx3
         | Some position \<Rightarrow>
             ctx3\<lparr>activePositions := setActivePosition position ref (activePositions ctx3)\<rparr>)"

text \<open>A switch that is not merged: a lead entry in the lead phase, a switch action after it.\<close>

definition enterSwitch ::
  "ParseContext \<Rightarrow> string \<Rightarrow> side \<Rightarrow> HPStatus \<Rightarrow> string option \<Rightarrow> string option \<Rightarrow> ParseContext" where
  "enterSwitch ctx ref sd hpStatus previousIconId previousName =
     (case map_of (pokemon ctx) ref of
        None \<Rightarrow> ctx
      | Some mon \<Rightarrow>
          if leadPhase ctx
          then
            (let label = orElse (orOpt (mon_nickname mon) (Some (mon_species mon))) ref;
                 entry = \<lparr>le_side = sd,
                          le_html = iconHTML (Some (mon_iconId mon)) label,
                          le_text = label\<rparr>
             in (updCurTurn (\<lambda>t. t\<lparr>t_leadEntries := t_leadEntries t @ [entry]\<rparr>) ctx)
                  \<lparr>currentAction := None\<rparr>)
          else
            (let switchDetails = (if hs_fainted hpStatus
                                  then [makeDetail ''fainted on entry'' None] else []);
                 isReplacement = (length (faintedThisTurn ctx) > 0);
                 verb = (if isReplacement then ''enters'' else ''switches'');
                 displayName = getPokemonDisplayName ctx ref;
                 action = \<lparr>a_type = Switch,
                           a_actorRef = Some ref,
                           a_actorName = Some displayName,
                           a_actorSpecies = Some (mon_species mon),
                           a_actorIconId = Some (mon_iconId mon),
                           a_side = Some sd,
                           a_verb = verb,
                           a_targetRefs = None, a_targetNames = None,
                           a_targetSpecies = None,
                           a_details = switchDetails,
                           a_fromIconId = (if isReplacement then None else previousIconId),
                           a_fromName = (if isReplacement then None else previousName)\<rparr>
             in setCurrentAction ctx action))"

definition case_switch :: "ParseContext \<Rightarrow> string list \<Rightarrow> error + ParseContext" where
  "case_switch ctx0 parts =
     (let ctx = finalizePendingAbilityBoost ctx0 in
      withPart parts 1 (\<lambda>raw.
        (let info = parsePokemonRef raw;
             ref = ri_ref info; nickname = ri_nickname info; sd = ri_side info;
             details = orElse (part parts 2) [];
             species = headPiece (CHR '','') details;
             previousMon = map_of (pokemon ctx) ref;
             previousIconId = map_option mon_iconId previousMon;
             previousName = (case previousMon of None \<Rightarrow> None
                             | Some m \<Rightarrow> orOpt (mon_nickname m) (Some (mon_species m)))
         in bindE (updatePokemonSpecies ctx ref species) (\<lambda>ctx1.
              case map_of (pokemon ctx1) ref of
                None \<Rightarrow> Inr ctx1
              | Some mon0 \<Rightarrow>
                  (let hpRaw = orElse (part parts 3) [];
                       hpStatus = parseHPStatus hpRaw;
                       ctx4 = recordSwitchIn ctx1 ref nickname hpStatus;
                       switchExtras = parseExtras parts 4;
                       forced = find forcedByMove switchExtras
                   in if forced \<noteq> None
                         \<and> map_option a_type (curAction ctx4) = Some Move
                         \<and> Option.bind (curAction ctx4) a_actorRef = Some ref
                      then Inr (mergeForcedSwitch ctx4 ref previousIconId previousName)
                      else Inr (enterSwitch ctx4 ref sd hpStatus previousIconId previousName))))))"

definition case_move :: "ParseContext \<Rightarrow> string list \<Rightarrow> error + ParseContext" where
  "case_move ctx0 parts =
     (let ctx = finalizePendingAbilityBoost ctx0 in
      withPart parts 1 (\<lambda>raw.
        withPart parts 2 (\<lambda>moveRaw.
          (let info = parsePokemonRef raw;
               ref = ri_ref info; nickname = ri_nickname info; sd = ri_side info;
               move = prettifyMove moveRaw;
               targetRaw = part parts 3;
               targetInfo = (if truthy targetRaw then Some (parsePokemonRef (the targetRaw)) else None);
               targetRefs = map_option (\<lambda>ti. [ri_ref ti]) targetInfo;
               targetSpecies = map_option (\<lambda>ti.
                   [orElse (orOpt (map_option mon_species (map_of (pokemon ctx) (ri_ref ti)))
                                  (Some (ri_nickname ti)))
                           (ri_ref ti)]) targetInfo;
               ctx1 = snd (getOrCreatePokemon ctx ref sd ''Unknown'');
               ctx2 = (if nickname \<noteq> []
                       then updMon ref (\<lambda>m. m\<lparr>mon_nickname := Some nickname\<rparr>) ctx1
                       else ctx1);
               ctx3 = ctx2\<lparr>recentMoves := recentMoves ctx2 @ [(ref, move)]\<rparr>;
               actor = map_of (pokemon ctx3) ref;
               actorDisplayName = getPokemonDisplayName ctx3 ref;
               targetDisplayNames = map_option (map (getPokemonDisplayName ctx3)) targetRefs;
               extras = parseExtras parts 4;
               action = \<lparr>a_type = Move,
                         a_actorRef = Some ref,
                         a_actorName = Some actorDisplayName,
                         a_actorSpecies = map_option mon_species actor,
                         a_actorIconId = map_option mon_iconId actor,
                         a_side = Some sd,
                         a_verb = move,
                         a_targetRefs = targetRefs,
                         a_targetNames = targetDisplayNames,
                         a_targetSpecies = targetSpecies,
                         a_details = (if length extras > 0
                                      then [makeDetail (join ''; '' extras) None] else []),
                         a_fromIconId = None, a_fromName = None\<rparr>
           in Inr (setCurrentAction ctx3 action)))))"

definition case_cant :: "ParseContext \<Rightarrow> string list \<Rightarrow> error + ParseContext" where
  "case_cant ctx parts =
     withPart parts 1 (\<lambda>raw.
       (let ref = ri_ref (parsePokemonRef raw);
            reason = part parts 2;
            move = (if truthy (part parts 3)
                    then '' while using '' @ prettifyMove (the (part parts 3)) else [])
        in Inr (addNoteAction ctx (Some ref)
                  (''can'' @ [CHR 0x27] @ ''t move ('' @ shown reason @ move @ '')''))))"

text \<open>The text of a damage detail: the change of the displayed HP, then the annotations.\<close>

definition damageBody :: "string option \<Rightarrow> string \<Rightarrow> string list \<Rightarrow> string" where
  "damageBody previous formatted extras =
     (let change = (if truthy previous \<and> previous \<noteq> Some formatted
                    then the previous @ '' -> '' @ formatted else formatted);
          segments = (if length extras > 0
                      then [change, ''('' @ join ''; '' extras @ '')''] else [change])
      in join '' '' segments)"

definition case_damage :: "ParseContext \<Rightarrow> string list \<Rightarrow> error + ParseContext" where
  "case_damage ctx parts =
     withPart parts 1 (\<lambda>raw.
       (let ref = ri_ref (parsePokemonRef raw);
            (mon, ctx1) = getOrCreatePokemon ctx ref (resolveSide ref) ''Unknown''
        in withPart parts 2 (\<lambda>hpRaw.
             (let hpStatus = parseHPStatus hpRaw;
                  previous = mon_lastDisplayHP mon;
                  formatted = formatHPStatus hpStatus;
                  ctx2 = updMon ref (\<lambda>m. m\<lparr>mon_lastDisplayHP := Some formatted,
                                             mon_status := hs_status hpStatus,
                                             mon_fainted := Some (hs_fainted hpStatus)\<rparr>) ctx1;
                  extras = filter (\<lambda>e. e \<noteq> []) (parseExtras parts 3);
                  isEOT = list_ex isEndOfTurnSource extras;
                  ctx3 = (if isEOT \<and> length (pendingFieldEnds ctx2) > 0
                          then flushPendingFieldEnds ctx2 else ctx2);
                  (detail, ctx4) = detailWithIcon ctx3 ref (damageBody previous formatted extras) None
              in Inr (appendDetail ctx4 detail isEOT)))))"

text \<open>The part of the \<open>-boost\<close> handler after the test for a pending ability boost.\<close>

definition boostDetail ::
  "ParseContext \<Rightarrow> string \<Rightarrow> string \<Rightarrow> jsnum \<Rightarrow> string \<Rightarrow> string list \<Rightarrow> error + ParseContext" where
  "boostDetail ctx ref direction amount stat extras =
     (let isSelfBuff =
            (case curAction ctx of
               None \<Rightarrow> False
             | Some a \<Rightarrow>
                 a_type a = Move \<and> a_actorRef a = Some ref \<and>
                 (case a_targetNames a of
                    None \<Rightarrow> True
                  | Some names \<Rightarrow>
                      length names = 0 \<or>
                      (length names = 1 \<and> a_actorName a = Some (names ! 0))) \<and>
                 length extras = 0)
      in if isSelfBuff
         then Inr (updCurAction (\<lambda>a. a\<lparr>a_verb := a_verb a @ '', '' @ direction
                       @ showNum amount @ '' '' @ stat\<rparr>) ctx)
         else
           (let detail = direction @ showNum amount @ '' '' @ stat
                   @ (if length extras > 0 then '' ('' @ join ''; '' extras @ '')'' else []);
                (d, ctx1) = detailWithIcon ctx ref detail None
            in Inr (appendDetail ctx1 d False)))"

definition case_boost :: "string \<Rightarrow> ParseContext \<Rightarrow> string list \<Rightarrow> error + ParseContext" where
  "case_boost tag ctx parts =
     withPart parts 1 (\<lambda>raw.
       withPart parts 2 (\<lambda>statRaw.
         bindE (jsNumber (part parts 3)) (\<lambda>amount.
           (let ref = ri_ref (parsePokemonRef raw);
                stat = toUpperCase statRaw;
                direction = (if tag = ''-boost'' then ''+'' else ''-'');
                extras = filter (\<lambda>e. e \<noteq> []) (parseExtras parts 4)
            in case pendingAbilityBoost ctx of
                 Some pending \<Rightarrow>
                   if length extras = 0
                   then Inr (ctx\<lparr>pendingAbilityBoost := Some (pending\<lparr>pab_boosts := pab_boosts pending @
                               [\<lparr>b_ref = ref, b_stat = stat, b_amount = amount, b_direction = direction\<rparr>]\<rparr>)\<rparr>)
                   else boostDetail ctx ref direction amount stat extras
               | None \<Rightarrow> boostDetail ctx ref direction amount stat extras))))"

definition case_status :: "ParseContext \<Rightarrow> string list \<Rightarrow> error + ParseContext" where
  "case_status ctx parts =
     withPart parts 1 (\<lambda>raw.
       withPart parts 2 (\<lambda>statusRaw.
         (let ref = ri_ref (parsePokemonRef raw);
              status = toUpperCase statusRaw;
              extras = parseExtras parts 3;
              detail = status @ formatExtras extras;
              ctx1 = updMon ref (\<lambda>m. m\<lparr>mon_status := Some status\<rparr>) ctx;
              isEOT = list_ex isEndOfTurnSource extras;
              (d, ctx2) = detailWithIcon ctx1 ref detail None
          in Inr (appendDetail ctx2 d isEOT))))"

definition case_curestatus :: "ParseContext \<Rightarrow> string list \<Rightarrow> error + ParseContext" where
  "case_curestatus ctx parts =
     withPart parts 1 (\<lambda>raw.
       withPart parts 2 (\<lambda>statusRaw.
         (let ref = ri_ref (parsePokemonRef raw);
              status = toUpperCase statusRaw;
              (d, ctx1) = detailWithIcon ctx ref (''Cured '' @ status) None;
              ctx2 = appendDetail ctx1 d False
          in Inr (updMon ref (\<lambda>m. m\<lparr>mon_status := None\<rparr>) ctx2))))"

definition possessiveOf :: "string \<Rightarrow> string" where
  "possessiveOf pokemonName =
     (if endsWith pokemonName ''s'' then pokemonName @ [CHR 0x27]
      else pokemonName @ [CHR 0x27] @ ''s'')"

definition case_ability :: "ParseContext \<Rightarrow> string list \<Rightarrow> error + ParseContext" where
  "case_ability ctx parts =
     withPart parts 1 (\<lambda>raw.
       (let ref = ri_ref (parsePokemonRef raw);
            ability = part parts 2;
            fourthParam = part parts 3
        in if fourthParam = Some ''boost''
           then Inr ((finalizePendingAbilityBoost ctx)
                       \<lparr>pendingAbilityBoost := Some \<lparr>pab_ref = ref, pab_ability = ability, pab_boosts = []\<rparr>\<rparr>)
           else
             (let mon = map_of (pokemon ctx) ref;
                  pokemonName = monName mon ref;
                  extras = filter (\<lambda>e. e \<noteq> []) (parseExtras parts 3);
                  possessive = possessiveOf pokemonName;
                  detail = (if length extras > 0
                            then possessive @ '' '' @ shown ability @ '' ('' @ join ''; '' extras @ '')''
                            else possessive @ '' '' @ shown ability)
              in if leadPhase ctx \<or>
                    (strictEq (t_turn (curTurn ctx)) (JInt 1) \<and> length (t_actions (curTurn ctx)) = 0)
                 then Inr (pushHeaderEvent ctx detail)
                 else Inr (appendDetail ctx (makeDetail detail None) False))))"

definition case_item :: "string \<Rightarrow> ParseContext \<Rightarrow> string list \<Rightarrow> error + ParseContext" where
  "case_item wording ctx parts =
     withPart parts 1 (\<lambda>raw.
       (let ref = ri_ref (parsePokemonRef raw);
            item = part parts 2;
            extras = parseExtras parts 3;
            (d, ctx1) = detailWithIcon ctx ref (wording @ shown item @ formatExtras extras) None
        in Inr (appendDetail ctx1 d False)))"

text \<open>
  The announcement of a field or weather start that an ability caused, shared in shape by
  \<open>-fieldstart\<close> and \<open>-weather\<close>: the ability named in field 2 and the Pokemon named by
  the \<open>[of]\<close> annotation in field 3, when all of that is present.
\<close>

definition abilitySource :: "string list \<Rightarrow> (string \<times> string) option" where
  "abilitySource parts =
     (case part parts 2 of
        None \<Rightarrow> None
      | Some p2 \<Rightarrow>
          if p2 \<noteq> [] \<and> includesStr p2 ''[from] ability:''
          then
            (let ability = (case matchAfter ''ability:'' p2 of None \<Rightarrow> [] | Some g \<Rightarrow> trim g) in
             case part parts 3 of
               None \<Rightarrow> None
             | Some p3 \<Rightarrow>
                 if ability \<noteq> [] \<and> p3 \<noteq> [] \<and> includesStr p3 ''[of]''
                 then
                   (let refRaw = (case matchAfter ''[of]'' p3 of None \<Rightarrow> [] | Some g \<Rightarrow> trim g) in
                    if refRaw \<noteq> [] then Some (ability, refRaw) else None)
                 else None)
          else None)"

definition case_fieldstart :: "ParseContext \<Rightarrow> string list \<Rightarrow> error + ParseContext" where
  "case_fieldstart ctx parts =
     withPart parts 1 (\<lambda>source.
       (let fieldName = normalizeFieldName source in
        case abilitySource parts of
          Some (ability, refRaw) \<Rightarrow>
            (let ref = ri_ref (parsePokemonRef refRaw);
                 mon = map_of (pokemon ctx) ref;
                 pokemonName = monName mon refRaw;
                 possessive = possessiveOf pokemonName
             in if map_option a_type (curAction ctx) = Some Switch
                   \<and> Option.bind (curAction ctx) a_actorRef = Some ref
                then Inr (updCurAction (\<lambda>a. a\<lparr>a_verb := a_verb a @ ''; '' @ possessive @ '' ''
                              @ ability @ ''; '' @ fieldName @ '' starts''\<rparr>) ctx)
                else Inr (pushHeaderEvent ctx
                            (possessive @ '' '' @ ability @ ''; '' @ fieldName @ '' starts'')))
        | None \<Rightarrow>
            (let fieldId = toId (Some fieldName);
                 impliedByMove = list_ex (\<lambda>m. toId (Some (snd m)) = fieldId) (recentMoves ctx)
             in if impliedByMove then Inr ctx
                else Inr (pushHeaderEvent ctx (fieldName @ '' starts'')))))"

definition case_fieldend :: "ParseContext \<Rightarrow> string list \<Rightarrow> error + ParseContext" where
  "case_fieldend ctx parts =
     withPart parts 1 (\<lambda>source.
       Inr (ctx\<lparr>pendingFieldEnds := pendingFieldEnds ctx @ [normalizeFieldName source]\<rparr>))"

definition case_weather :: "ParseContext \<Rightarrow> string list \<Rightarrow> error + ParseContext" where
  "case_weather ctx parts =
     withPart parts 1 (\<lambda>weather.
       (let isUpkeep = (case part parts 2 of None \<Rightarrow> False
                        | Some p2 \<Rightarrow> p2 \<noteq> [] \<and> includesStr p2 ''upkeep'');
            normalizedWeather = normalizeWeatherName weather
        in if weather = ''none''
           then
             (let ctx1 = (if truthy (currentWeather ctx)
                          then pushHeaderEvent ctx
                                 (normalizeWeatherName (the (currentWeather ctx)) @ '' ends'')
                          else ctx)
              in Inr (ctx1\<lparr>currentWeather := None\<rparr>))
           else if \<not> isUpkeep \<and> Some weather \<noteq> currentWeather ctx
           then
             (let ctx1 =
                    (case abilitySource parts of
                       Some (ability, refRaw) \<Rightarrow>
                         (let ref = ri_ref (parsePokemonRef refRaw);
                              mon = map_of (pokemon ctx) ref;
                              pokemonName = monName mon refRaw;
                              possessive = possessiveOf pokemonName
                          in if map_option a_type (curAction ctx) = Some Switch
                                \<and> Option.bind (curAction ctx) a_actorRef = Some ref
                             then updCurAction (\<lambda>a. a\<lparr>a_verb := a_verb a @ ''; '' @ possessive @ '' ''
                                    @ ability @ ''; '' @ normalizedWeather @ '' starts''\<rparr>) ctx
                             else pushHeaderEvent ctx
                                    (possessive @ '' '' @ ability @ ''; '' @ normalizedWeather @ '' starts''))
                     | None \<Rightarrow> pushHeaderEvent ctx (normalizedWeather @ '' starts''))
              in Inr (ctx1\<lparr>currentWeather := Some weather\<rparr>))
           else Inr ctx))"

definition case_sidestart :: "ParseContext \<Rightarrow> string list \<Rightarrow> error + ParseContext" where
  "case_sidestart ctx parts =
     withPart parts 1 (\<lambda>raw.
       (let sideRef = resolveSide raw;
            conditionId = toId (part parts 2);
            sc = sideConditions ctx
        in Inr (ctx\<lparr>sideConditions :=
                  (case sideRef of
                     P1 \<Rightarrow> sc\<lparr>sc_p1 := List.insert conditionId (sc_p1 sc)\<rparr>
                   | P2 \<Rightarrow> sc\<lparr>sc_p2 := List.insert conditionId (sc_p2 sc)\<rparr>)\<rparr>)))"

definition case_sideend :: "ParseContext \<Rightarrow> string list \<Rightarrow> error + ParseContext" where
  "case_sideend ctx parts =
     withPart parts 1 (\<lambda>raw.
       (let sideRef = resolveSide raw;
            condition = part parts 2;
            conditionId = toId condition;
            sc = sideConditions ctx;
            active = (case sideRef of P1 \<Rightarrow> sc_p1 sc | P2 \<Rightarrow> sc_p2 sc)
        in if conditionId \<in> set active
           then
             (let ctx1 = pushHeaderEvent ctx
                    (''Side condition ended: '' @ sideName sideRef @ '' -> '' @ shown condition)
              in Inr (ctx1\<lparr>sideConditions :=
                        (case sideRef of
                           P1 \<Rightarrow> sc\<lparr>sc_p1 := removeAll conditionId (sc_p1 sc)\<rparr>
                         | P2 \<Rightarrow> sc\<lparr>sc_p2 := removeAll conditionId (sc_p2 sc)\<rparr>)\<rparr>))
           else Inr ctx))"

definition case_terrain :: "ParseContext \<Rightarrow> string list \<Rightarrow> error + ParseContext" where
  "case_terrain ctx parts = Inr (pushHeaderEvent ctx (''Terrain: '' @ shown (part parts 1)))"

text \<open>Symbols beyond ASCII in the output are written as their UTF-8 bytes.\<close>

definition arrowRight :: string where
  "arrowRight = [CHR 0xE2, CHR 0x86, CHR 0x92]"

definition emDash :: string where
  "emDash = [CHR 0xE2, CHR 0x80, CHR 0x94]"

definition middleDot :: string where
  "middleDot = [CHR 0xC2, CHR 0xB7]"

definition case_message :: "ParseContext \<Rightarrow> string list \<Rightarrow> error + ParseContext" where
  "case_message ctx parts =
     (let message = join '' '' (drop 1 parts) in
      if endsWith (toLowerCase message) ''forfeited.''
      then
        (let ctx1 = ctx\<lparr>resultNote := Some ''Forfeit''\<rparr>;
             forfeiter = rev (dropWhile isSpace (rev (take (length message - 10) message)))
         in if \<not> truthy (loser ctx1) then Inr (ctx1\<lparr>loser := Some forfeiter\<rparr>) else Inr ctx1)
      else if message \<noteq> [] \<and> \<not> includesStr (toLowerCase message) ''battle timer is on''
      then Inr (appendDetailText ctx message False)
      else Inr ctx)"

text \<open>\<open>toId(effect).includes('protect') || effect.toLowerCase().includes('protect')\<close>.\<close>

definition isProtect :: "string option \<Rightarrow> error + bool" where
  "isProtect effect =
     (if includesStr (toId effect) ''protect'' then Inr True
      else case effect of
             None \<Rightarrow> Inl TypeError
           | Some e \<Rightarrow> Inr (includesStr (toLowerCase e) ''protect''))"

definition case_singleturn :: "ParseContext \<Rightarrow> string list \<Rightarrow> error + ParseContext" where
  "case_singleturn ctx parts =
     withPart parts 1 (\<lambda>raw.
       (let ref = ri_ref (parsePokemonRef raw);
            effect = part parts 2
        in bindE (isProtect effect) (\<lambda>protect.
             (let ctx1 = (if protect
                          then ctx\<lparr>pendingProtects := List.insert ref (pendingProtects ctx)\<rparr>
                          else ctx)
              in withPart parts 2 (\<lambda>eff.
                   (let normalizedEffect = stripMovePrefix eff;
                        isSameAsCurrentMove =
                          (case curAction ctx1 of
                             None \<Rightarrow> False
                           | Some a \<Rightarrow> a_type a = Move \<and>
                               toId (Some normalizedEffect) = toId (Some (a_verb a)))
                    in if \<not> isSameAsCurrentMove
                       then (let (d, ctx2) = detailWithIcon ctx1 ref eff None
                             in Inr (appendDetail ctx2 d False))
                       else Inr ctx1))))))"

definition case_activate :: "ParseContext \<Rightarrow> string list \<Rightarrow> error + ParseContext" where
  "case_activate ctx parts =
     withPart parts 1 (\<lambda>raw.
       (let ref = ri_ref (parsePokemonRef raw);
            effect = part parts 2
        in bindE (isProtect effect) (\<lambda>protect.
             if protect then Inr (patchTargetName ctx ref ''(Protect)'')
             else
               (let extras = parseExtras parts 3;
                    body = ''Activates '' @ shown effect @ formatExtras extras;
                    (d, ctx1) = detailWithIcon ctx ref body None
                in Inr (appendDetail ctx1 d False)))))"

definition case_fail :: "ParseContext \<Rightarrow> string list \<Rightarrow> error + ParseContext" where
  "case_fail ctx parts =
     withPart parts 1 (\<lambda>raw.
       (let ref = ri_ref (parsePokemonRef raw);
            reason = join ''; '' (parseExtras parts 2);
            body = ''Fails'' @ (if reason \<noteq> [] then '' ('' @ reason @ '')'' else []);
            (d, ctx1) = detailWithIcon ctx ref body None
        in Inr (appendDetail ctx1 d False)))"

definition case_miss :: "ParseContext \<Rightarrow> string list \<Rightarrow> error + ParseContext" where
  "case_miss ctx parts =
     withPart parts 1 (\<lambda>raw.
       (let ref = ri_ref (parsePokemonRef raw);
            targetInfo = (if truthy (part parts 2)
                          then Some (parsePokemonRef (the (part parts 2))) else None);
            targetName = orElse (orOpt (orOpt (map_option ri_nickname targetInfo)
                                              (map_option ri_ref targetInfo))
                                       (part parts 2)) [];
            body = ''Misses'' @ (if targetName \<noteq> [] then '' '' @ targetName else []);
            (d, ctx1) = detailWithIcon ctx ref body None
        in Inr (appendDetail ctx1 d False)))"

definition case_immune :: "ParseContext \<Rightarrow> string list \<Rightarrow> error + ParseContext" where
  "case_immune ctx parts =
     withPart parts 1 (\<lambda>raw.
       Inr (patchTargetName ctx (ri_ref (parsePokemonRef raw)) ''(immune)''))"

definition case_faint :: "ParseContext \<Rightarrow> string list \<Rightarrow> error + ParseContext" where
  "case_faint ctx parts =
     withPart parts 1 (\<lambda>raw.
       (let ref = ri_ref (parsePokemonRef raw) in
        case map_of (pokemon ctx) ref of
          None \<Rightarrow> Inr ctx
        | Some mon \<Rightarrow>
            Inr ((updMon ref (\<lambda>m. m\<lparr>mon_fainted := Some True\<rparr>) ctx)
                   \<lparr>faintedThisTurn := List.insert ref (faintedThisTurn ctx)\<rparr>)))"

definition case_terastallize :: "ParseContext \<Rightarrow> string list \<Rightarrow> error + ParseContext" where
  "case_terastallize ctx parts =
     withPart parts 1 (\<lambda>raw.
       (let ref = ri_ref (parsePokemonRef raw);
            type = part parts 2;
            mon = map_of (pokemon ctx) ref;
            name = monName mon raw
        in Inr (pushHeaderEvent ctx
                  (''Terastallize '' @ name @ '' '' @ arrowRight @ '' '' @ shown type))))"

definition case_formechange :: "ParseContext \<Rightarrow> string list \<Rightarrow> error + ParseContext" where
  "case_formechange ctx parts =
     withPart parts 1 (\<lambda>raw.
       withPart parts 2 (\<lambda>species.
         updatePokemonSpecies ctx (ri_ref (parsePokemonRef raw)) species))"

text \<open>One record: the fields of a non-empty line, dispatched on the tag \<open>parts[0]\<close>.\<close>

definition tagOf :: "string list \<Rightarrow> string" where
  "tagOf parts = (case parts of [] \<Rightarrow> [] | t # ts \<Rightarrow> t)"

definition processRecord :: "ParseContext \<Rightarrow> string list \<Rightarrow> error + ParseContext" where
  "processRecord ctx parts =
     (let tag = tagOf parts in
      if tag = ''player'' then case_player ctx parts
      else if tag = ''gen'' \<or> tag = ''tier'' \<or> tag = ''format'' then case_format ctx parts
      else if tag = ''win'' then case_win ctx parts
      else if tag = ''l'' then case_l ctx parts
      else if tag = ''turn'' then case_turn ctx parts
      else if tag = ''poke'' then case_poke ctx parts
      else if tag = ''switch'' \<or> tag = ''drag'' \<or> tag = ''replace'' then case_switch ctx parts
      else if tag = ''move'' then case_move ctx parts
      else if tag = ''cant'' then case_cant ctx parts
      else if tag = ''-damage'' \<or> tag = ''-heal'' then case_damage ctx parts
      else if tag = ''-boost'' \<or> tag = ''-unboost'' then case_boost tag ctx parts
      else if tag = ''-status'' then case_status ctx parts
      else if tag = ''-curestatus'' then case_curestatus ctx parts
      else if tag = ''-ability'' then case_ability ctx parts
      else if tag = ''-item'' then case_item ''Item gained: '' ctx parts
      else if tag = ''-enditem'' then case_item ''Item lost: '' ctx parts
      else if tag = ''-fieldstart'' then case_fieldstart ctx parts
      else if tag = ''-fieldend'' then case_fieldend ctx parts
      else if tag = ''-weather'' then case_weather ctx parts
      else if tag = ''-sidestart'' then case_sidestart ctx parts
      else if tag = ''-sideend'' then case_sideend ctx parts
      else if tag = ''-terrain'' then case_terrain ctx parts
      else if tag = ''-message'' then case_message ctx parts
      else if tag = ''-singleturn'' then case_singleturn ctx parts
      else if tag = ''-activate'' then case_activate ctx parts
      else if tag = ''-fail'' then case_fail ctx parts
      else if tag = ''-miss'' then case_miss ctx parts
      else if tag = ''-immune'' then case_immune ctx parts
      else if tag = ''faint'' then case_faint ctx parts
      else if tag = ''-terastallize'' then case_terastallize ctx parts
      else if tag = ''detailschange'' \<or> tag = ''formechange'' then case_formechange ctx parts
      else Inr ctx)"

text \<open>One line of the log: a leading bar is dropped, an empty line is skipped.\<close>

definition processLine :: "ParseContext \<Rightarrow> string \<Rightarrow> error + ParseContext" where
  "processLine ctx rawLine =
     (let line = (if startsWith rawLine ''|'' then drop 1 rawLine else rawLine) in
      if line = [] then Inr ctx
      else processRecord ctx (splitOn (CHR ''|'') line))"

fun processLines :: "ParseContext \<Rightarrow> string list \<Rightarrow> error + ParseContext" where
  "processLines ctx [] = Inr ctx"
| "processLines ctx (rawLine # rest) =
     (case processLine ctx rawLine of
        Inl e \<Rightarrow> Inl e
      | Inr ctx1 \<Rightarrow> processLines ctx1 rest)"

definition parseLog :: "ParseContext \<Rightarrow> string \<Rightarrow> error + ParseContext" where
  "parseLog ctx log = processLines ctx (splitOn (CHR 0x0A) log)"

section \<open>Rendering (actionHeadline, formatTurn, renderSummary)\<close>

text \<open>\<open>s.replace(/\s+/g, " ")\<close>.\<close>

fun collapseWs :: "bool \<Rightarrow> string \<Rightarrow> string" where
  "collapseWs inRun [] = []"
| "collapseWs inRun (c # cs) =
     (if isSpace c then (if inRun then collapseWs True cs else CHR '' '' # collapseWs True cs)
      else c # collapseWs False cs)"

text \<open>\<open>xs[i]\<close> on an optional array: absent when the array is absent or too short.\<close>

definition nthOpt :: "string list option \<Rightarrow> nat \<Rightarrow> string option" where
  "nthOpt xs i = (case xs of None \<Rightarrow> None | Some l \<Rightarrow> if i < length l then Some (l ! i) else None)"

definition actionHeadline :: "ActionSummary \<Rightarrow> DualFormat" where
  "actionHeadline action =
     (if a_type action = Switch
      then
        (let toText = orElse (a_actorName action) [];
             currentIcon = (if truthy (a_actorIconId action)
                            then iconHTML (a_actorIconId action) toText else [])
         in if startsWith (a_verb action) ''enters''
            then \<lparr>d_html = trim (currentIcon @ a_verb action),
                  d_text = trim (toText @ '' '' @ a_verb action)\<rparr>
            else
              (let previousIcon = (if truthy (a_fromIconId action)
                                   then iconHTML (a_fromIconId action)
                                          (orElse (a_fromName action) ''Previous'')
                                   else []);
                   htmlParts1 = (if previousIcon \<noteq> [] then [previousIcon] else []);
                   htmlParts = (if currentIcon \<noteq> []
                                then (if length htmlParts1 > 0
                                      then htmlParts1 @ [''-> '' @ currentIcon]
                                      else htmlParts1 @ [currentIcon])
                                else htmlParts1);
                   parts = splitOn (CHR '';'') (a_verb action);
                   extraInfo = (if a_verb action \<noteq> [] \<and> a_verb action \<noteq> ''switches''
                                   \<and> length parts > 1 \<and> trim (parts ! 0) = ''switches''
                                then ''; '' @ join ''; '' (map trim (drop 1 parts)) else []);
                   joined = trim (join '' '' htmlParts);
                   html = (if joined \<noteq> [] then joined
                           else if currentIcon \<noteq> [] then currentIcon
                           else if previousIcon \<noteq> [] then previousIcon
                           else ''Switch'') @ extraInfo;
                   fromText = orElse (a_fromName action)
                                (if truthy (a_fromIconId action) then ''Prev'' else []);
                   text = (if fromText \<noteq> [] \<and> toText \<noteq> [] then fromText @ '' -> '' @ toText
                           else if toText \<noteq> [] then toText
                           else if fromText \<noteq> [] then fromText
                           else ''Switch'') @ extraInfo
               in \<lparr>d_html = html, d_text = text\<rparr>))
      else
        (let actorName = orElse (a_actorName action) ''?'';
             actorIcon = (if truthy (a_actorIconId action)
                          then iconHTML (a_actorIconId action) actorName else []);
             isSelfTarget = (case a_targetRefs action of
                               None \<Rightarrow> True
                             | Some refs \<Rightarrow> length refs = 0 \<or>
                                 (length refs = 1 \<and> a_actorRef action = Some (refs ! 0)));
             targetDisplayNames = (case a_targetNames action of
                                     None \<Rightarrow> []
                                   | Some names \<Rightarrow> if \<not> isSelfTarget then names else []);
             targetText = (if length targetDisplayNames > 0
                           then join '', '' targetDisplayNames else []);
             targetIconHtml =
               (case a_targetSpecies action of
                  None \<Rightarrow> []
                | Some species \<Rightarrow>
                    if length species > 0 \<and> \<not> isSelfTarget
                    then join '' '' (map (\<lambda>(idx, sp).
                           (let displayName = orElse (orOpt (nthOpt (Some targetDisplayNames) idx)
                                                             (nthOpt (a_targetNames action) idx)) sp
                            in iconHTML (Some (if toIconId (Some sp) \<noteq> [] then toIconId (Some sp)
                                               else DEFAULT_ICON_ID)) displayName))
                           (enumerate 0 species))
                    else []);
             htmlSegments1 = (if actorIcon \<noteq> [] then [actorIcon]
                              else if actorName \<noteq> [] then [actorName] else []);
             htmlSegments2 = htmlSegments1 @ [a_verb action];
             htmlSegments = (if targetIconHtml \<noteq> [] then htmlSegments2 @ [''-> '' @ targetIconHtml]
                             else if targetText \<noteq> [] then htmlSegments2 @ [''-> '' @ targetText]
                             else htmlSegments2);
             textSegments1 = [trim (actorName @ '' '' @ a_verb action)];
             textSegments = (if targetText \<noteq> [] then textSegments1 @ [''-> '' @ targetText]
                             else textSegments1)
         in \<lparr>d_html = collapseWs False (join '' '' htmlSegments),
              d_text = collapseWs False (join '' '' textSegments)\<rparr>))"

text \<open>
  A global replacement, scanning from the left.  The matcher is given whether the
  position is the start of the text, and answers with the replacement text and the length
  of the match; the scan goes on behind the match.
\<close>

fun replaceAll ::
  "(bool \<Rightarrow> string \<Rightarrow> (string \<times> nat) option) \<Rightarrow> bool \<Rightarrow> nat \<Rightarrow> string \<Rightarrow> string" where
  "replaceAll m atStart skip [] = []"
| "replaceAll m atStart skip (c # cs) =
     (if skip > 0 then replaceAll m False (skip - 1) cs
      else case m atStart (c # cs) of
             Some (rep, len) \<Rightarrow> rep @ replaceAll m False (len - 1) cs
           | None \<Rightarrow> c # replaceAll m False 0 cs)"

text \<open>
  The icon pattern: the given text, in which a dot stands for any character but a line
  terminator, then \<open>[^>]*>\<close>, that is everything up to and including the next \<open>>\<close>.
\<close>

fun dottedPrefix :: "string \<Rightarrow> string \<Rightarrow> string option" where
  "dottedPrefix [] s = Some s"
| "dottedPrefix (p # ps) [] = None"
| "dottedPrefix (p # ps) (c # cs) =
     (if (p = CHR ''.'' \<and> \<not> isLT c) \<or> (p \<noteq> CHR ''.'' \<and> p = c) then dottedPrefix ps cs else None)"

definition iconMatcher :: "string \<Rightarrow> bool \<Rightarrow> string \<Rightarrow> (string \<times> nat) option" where
  "iconMatcher targetIconId atStart s =
     (let prefix = ''<img src='' @ [CHR 0x22] @ ''https://play.pokemonshowdown.com/sprites/gen5/''
                   @ targetIconId @ ''.png'' @ [CHR 0x22]
      in case dottedPrefix prefix s of
           None \<Rightarrow> None
         | Some rest \<Rightarrow>
             (case dropWhile (\<lambda>c. c \<noteq> CHR ''>'') rest of
                [] \<Rightarrow> None
              | g # after \<Rightarrow> Some ([], length s - length after)))"

text \<open>
  The name pattern \<open>(^|[,;]\s*)NAME\s+\<close>, for a name without characters that are
  special in a regular expression.  The first alternative is tried at the start of the
  text only; the second gives white space back to the name, longest run first.
\<close>

definition regexSpecial :: "char \<Rightarrow> bool" where
  "regexSpecial c = (c \<in> set (CHR 0x5C # ''^$.*+?()[]{}|''))"

definition nameThenSpace :: "string \<Rightarrow> string \<Rightarrow> nat option" where
  "nameThenSpace name s =
     (if startsWith s name \<and> takeWhile isSpace (drop (length name) s) \<noteq> []
      then Some (length name + length (takeWhile isSpace (drop (length name) s)))
      else None)"

fun afterSeparator :: "string \<Rightarrow> nat \<Rightarrow> string \<Rightarrow> (nat \<times> nat) option" where
  "afterSeparator name 0 s = map_option (\<lambda>n. (0, n)) (nameThenSpace name s)"
| "afterSeparator name (Suc k) s =
     (case nameThenSpace name (drop (Suc k) s) of
        Some n \<Rightarrow> Some (Suc k, n)
      | None \<Rightarrow> afterSeparator name k s)"

definition nameMatcher :: "string \<Rightarrow> bool \<Rightarrow> string \<Rightarrow> (string \<times> nat) option" where
  "nameMatcher name atStart s =
     (case (if atStart then nameThenSpace name s else None) of
        Some n \<Rightarrow> Some ([], n)
      | None \<Rightarrow>
          (case s of
             [] \<Rightarrow> None
           | c # cs \<Rightarrow>
               if c = CHR '','' \<or> c = CHR '';''
               then (case afterSeparator name (length (takeWhile isSpace cs)) cs of
                       None \<Rightarrow> None
                     | Some (k, n) \<Rightarrow> Some (c # take k cs, 1 + k + n))
               else None))"

definition isSingleTarget :: "ActionSummary \<Rightarrow> bool" where
  "isSingleTarget action =
     (a_type action = Move \<and> map_option length (a_targetNames action) = Some 1
      \<and> \<not> includesStr (a_verb action) ''spread'')"

definition separator :: "ActionSummary \<Rightarrow> string" where
  "separator action =
     (if length (a_details action) > 0 \<and> isSingleTarget action then '', ''
      else '' '' @ emDash @ '' '')"

definition combinedDetails :: "ActionSummary \<Rightarrow> DualFormat option" where
  "combinedDetails action =
     (if isSingleTarget action \<and> length (a_details action) > 0
      then
        (let allBoosts = list_all (\<lambda>d. isBoostText (trim (d_text d))) (a_details action) in
         if allBoosts
         then Some \<lparr>d_html = join '', '' (filter (\<lambda>x. x \<noteq> [])
                         (map (\<lambda>d. if d_html d \<noteq> [] then d_html d else d_text d) (a_details action))),
                    d_text = join '', '' (filter (\<lambda>x. x \<noteq> []) (map d_text (a_details action)))\<rparr>
         else combineDetails (a_details action))
      else combineDetails (a_details action))"

text \<open>
  The stripping of the target's icon and name from the combined details.  The name pattern
  is built from the target name as it is, without escaping.  For a name without special
  characters the pattern is matched by \<^const>\<open>nameMatcher\<close>.  For any other name the
  pattern is handed to the regular-expression engine of the runtime, which is not code of
  this repository and is a parameter here: \<open>re pattern text\<close> stands for
  \<open>text.replace(new RegExp(pattern, 'g'), '$1')\<close>, and is \<^const>\<open>None\<close> when the constructor
  rejects the pattern with a \<open>SyntaxError\<close>.
\<close>

type_synonym RegExpReplace = "string \<Rightarrow> string \<Rightarrow> string option"

definition namePattern :: "string \<Rightarrow> string" where
  "namePattern targetName =
     ''(^|[,;]'' @ [CHR 0x5C] @ ''s*)'' @ targetName @ [CHR 0x5C] @ ''s+''"

definition stripTarget ::
  "RegExpReplace \<Rightarrow> ActionSummary \<Rightarrow> DualFormat \<Rightarrow> error + DualFormat" where
  "stripTarget re action combined =
     (let targetIconId = (if truthy (nthOpt (a_targetSpecies action) 0)
                          then Some (toIconId (nthOpt (a_targetSpecies action) 0)) else None);
          targetName = orElse (nthOpt (a_targetNames action) 0) [];
          html = (if truthy targetIconId
                  then trim (replaceAll (iconMatcher (the targetIconId)) True 0 (d_html combined))
                  else d_html combined)
      in if targetName \<noteq> []
         then (if list_ex regexSpecial targetName
               then (case re (namePattern targetName) (d_text combined) of
                       None \<Rightarrow> Inl SyntaxError
                     | Some replaced \<Rightarrow> Inr \<lparr>d_html = html, d_text = trim replaced\<rparr>)
               else Inr \<lparr>d_html = html,
                         d_text = trim (replaceAll (nameMatcher targetName) True 0 (d_text combined))\<rparr>)
         else Inr \<lparr>d_html = html, d_text = d_text combined\<rparr>)"

text \<open>The two lines of one action: the body of the loop over \<open>turn.actions\<close>.\<close>

definition formatAction :: "RegExpReplace \<Rightarrow> ActionSummary \<Rightarrow> error + DualFormat" where
  "formatAction re action =
     (let headline = actionHeadline action;
          stripped = (case combinedDetails action of
                        None \<Rightarrow> Inr None
                      | Some combined \<Rightarrow>
                          if isSingleTarget action \<and> length (a_details action) > 0
                          then bindE (stripTarget re action combined) (\<lambda>c. Inr (Some c))
                          else Inr (Some combined))
      in bindE stripped (\<lambda>combined.
           (let htmlLine = (case combined of
                              Some c \<Rightarrow> d_html headline @ separator action @ d_html c
                            | None \<Rightarrow> d_html headline);
                textLine = (case combined of
                              Some c \<Rightarrow> d_text headline @ separator action @ d_text c
                            | None \<Rightarrow> d_text headline)
            in Inr \<lparr>d_html = ''<div>&nbsp;&nbsp;'' @ htmlLine @ ''</div>'',
                    d_text = ''  '' @ textLine\<rparr>)))"

fun formatActions :: "RegExpReplace \<Rightarrow> ActionSummary list \<Rightarrow> error + DualFormat list" where
  "formatActions re [] = Inr []"
| "formatActions re (action # rest) =
     bindE (formatAction re action) (\<lambda>l. bindE (formatActions re rest) (\<lambda>ls. Inr (l # ls)))"

record Lines =
  ln_html :: "string list"
  ln_text :: "string list"

definition formatTurn :: "RegExpReplace \<Rightarrow> TurnSummary \<Rightarrow> error + Lines" where
  "formatTurn re turn =
     (let isLead = strictEq (t_turn turn) (JInt 0);
          turnLabel = (if isLead then orElse (t_label turn) ''Lead''
                       else ''T'' @ showNum (t_turn turn));
          teraEvents = filter (\<lambda>e. startsWith e ''Terastallize'') (t_headerEvents turn);
          otherEvents = filter (\<lambda>e. \<not> startsWith e ''Terastallize'') (t_headerEvents turn);
          headerSuffix = (if length otherEvents > 0 then '' '' @ join ''; '' otherEvents else []);
          header =
            (if isLead
             then
               (let p1Entries = filter (\<lambda>entry. le_side entry = P1) (t_leadEntries turn);
                    p2Entries = filter (\<lambda>entry. le_side entry = P2) (t_leadEntries turn);
                    p1Html = concat (map le_html p1Entries);
                    p2Html = concat (map le_html p2Entries);
                    p1Text = join '', '' (map le_text p1Entries);
                    p2Text = join '', '' (map le_text p2Entries);
                    vsHtml = (if p1Html \<noteq> [] \<or> p2Html \<noteq> []
                              then '' '' @ p1Html @ (if p2Html \<noteq> [] then ''&nbsp;vs&nbsp;'' @ p2Html else [])
                              else []);
                    textParts = (if p1Text \<noteq> [] then [p1Text] else [])
                                @ (if p2Text \<noteq> [] then [p2Text] else []);
                    vsText = (if length textParts > 0 then '' '' @ join '' vs '' textParts else [])
                in \<lparr>d_html = ''<div><strong>'' @ turnLabel @ ''</strong>'' @ vsHtml @ headerSuffix @ ''</div>'',
                     d_text = trim (turnLabel @ vsText @ headerSuffix)\<rparr>)
             else \<lparr>d_html = ''<div><strong>'' @ turnLabel @ ''</strong>'' @ headerSuffix @ ''</div>'',
                   d_text = trim (turnLabel @ headerSuffix)\<rparr>);
          teraHtml = map (\<lambda>teraEvent. ''<div>&nbsp;&nbsp;'' @ teraEvent @ ''</div>'') teraEvents;
          teraText = map (\<lambda>teraEvent. ''  '' @ teraEvent) teraEvents
      in bindE (formatActions re (t_actions turn)) (\<lambda>actionLines.
           (let endLines = (if length (t_endEvents turn) > 0
                            then (case combineDetails (t_endEvents turn) of
                                    None \<Rightarrow> []
                                  | Some combined \<Rightarrow>
                                      [\<lparr>d_html = ''<div>&nbsp;&nbsp;&nbsp;&nbsp;'' @ d_html combined @ ''</div>'',
                                        d_text = ''    '' @ d_text combined\<rparr>])
                            else [])
            in Inr \<lparr>ln_html = d_html header # teraHtml @ map d_html actionLines @ map d_html endLines,
                    ln_text = d_text header # teraText @ map d_text actionLines @ map d_text endLines\<rparr>)))"

definition resolveLoser :: "ParseContext \<Rightarrow> string option" where
  "resolveLoser ctx =
     (if \<not> truthy (loser ctx) \<and> \<not> truthy (winner ctx) then None
      else
        (let p1Id = toId (Some (pm_p1 (players ctx)));
             p2Id = toId (Some (pm_p2 (players ctx)));
             loserId = (if truthy (loser ctx) then Some (toId (loser ctx)) else None)
         in if \<not> truthy loserId \<and> truthy (winner ctx)
            then (let winnerId = toId (winner ctx) in
                  if winnerId = p1Id then Some (pm_p2 (players ctx)) else Some (pm_p1 (players ctx)))
            else if loserId = Some p1Id then Some (pm_p1 (players ctx))
            else if loserId = Some p2Id then Some (pm_p2 (players ctx))
            else loser ctx))"

definition teamLine :: "string list \<Rightarrow> DualFormat" where
  "teamLine names =
     (if length names = 0 then \<lparr>d_html = [], d_text = []\<rparr>
      else \<lparr>d_html = concat (map (\<lambda>species.
                          iconHTML (Some (if toIconId (Some species) \<noteq> [] then toIconId (Some species)
                                          else DEFAULT_ICON_ID)) species) names),
            d_text = join ('' '' @ middleDot @ '' '') names\<rparr>)"

text \<open>The loop over \<open>ctx.turns\<close> in \<open>renderSummary\<close>.\<close>

fun renderTurns :: "RegExpReplace \<Rightarrow> TurnSummary list \<Rightarrow> error + Lines" where
  "renderTurns re [] = Inr \<lparr>ln_html = [], ln_text = []\<rparr>"
| "renderTurns re (turn # rest) =
     (if strictEq (t_turn turn) (JInt 0) then renderTurns re rest
      else if length (t_actions turn) = 0 \<and> length (t_headerEvents turn) = 0
              \<and> length (t_leadEntries turn) = 0
      then renderTurns re rest
      else bindE (formatTurn re turn) (\<lambda>formatted.
             bindE (renderTurns re rest) (\<lambda>more.
               Inr \<lparr>ln_html = ln_html formatted @ ln_html more,
                    ln_text = ln_text formatted @ ln_text more\<rparr>)))"

definition renderSummary :: "RegExpReplace \<Rightarrow> ParseContext \<Rightarrow> error + DualFormat" where
  "renderSummary re ctx =
     (let p1 = pm_p1 (players ctx); p2 = pm_p2 (players ctx);
          p1Id = toId (Some p1); p2Id = toId (Some p2);
          winnerId = (if truthy (winner ctx) then Some (toId (winner ctx)) else None);
          loserId = (if truthy (loser ctx) then Some (toId (loser ctx)) else None);
          inferredLoserId = (if \<not> truthy loserId \<and> truthy winnerId
                             then (if winnerId = Some p1Id then Some p2Id else Some p1Id)
                             else loserId);
          p1Tag = (if winnerId = Some p1Id then ''[W] ''
                   else if inferredLoserId = Some p1Id then ''[L] '' else []);
          p2Tag = (if winnerId = Some p2Id then ''[W] ''
                   else if inferredLoserId = Some p2Id then ''[L] '' else []);
          note = (if truthy (resultNote ctx) then '' ('' @ the (resultNote ctx) @ '')'' else []);
          formatSuffix = (if truthy (formatName ctx)
                          then '' '' @ emDash @ '' '' @ the (formatName ctx) else []);
          headerHtml = ''<div><strong>'' @ p1Tag @ p1 @ ''</strong> vs <strong>'' @ p2Tag @ p2
                       @ ''</strong>'' @ formatSuffix @ note @ ''</div>'';
          headerText = p1Tag @ p1 @ '' vs '' @ p2Tag @ p2 @ formatSuffix @ note;
          p1Team = teamLine (tm_p1 (teams ctx));
          p2Team = teamLine (tm_p2 (teams ctx));
          teamHtml = (if d_html p1Team \<noteq> [] \<or> d_html p2Team \<noteq> []
                      then [''<div>'' @ d_html p1Team @ ''&nbsp;&nbsp;vs&nbsp;&nbsp;'' @ d_html p2Team @ ''</div>'']
                      else []);
          teamText = (if d_html p1Team \<noteq> [] \<or> d_html p2Team \<noteq> []
                      then [d_text p1Team @ '' vs '' @ d_text p2Team] else []);
          leadTurn = find (\<lambda>t. strictEq (t_turn t) (JInt 0)) (turns ctx);
          leadLines =
            (case leadTurn of
               None \<Rightarrow> \<lparr>ln_html = [], ln_text = []\<rparr>
             | Some lt \<Rightarrow>
                 if length (t_leadEntries lt) > 0
                 then
                   (let p1Leads = filter (\<lambda>e. le_side e = P1) (t_leadEntries lt);
                        p2Leads = filter (\<lambda>e. le_side e = P2) (t_leadEntries lt);
                        p1LeadsHtml = concat (map le_html p1Leads);
                        p2LeadsHtml = concat (map le_html p2Leads);
                        p1LeadsText = join '', '' (map le_text p1Leads);
                        p2LeadsText = join '', '' (map le_text p2Leads);
                        shownLeads = (p1LeadsHtml \<noteq> [] \<or> p2LeadsHtml \<noteq> [])
                    in \<lparr>ln_html = (if shownLeads
                                    then [''<div>'' @ p1LeadsHtml @ ''&nbsp;&nbsp;vs&nbsp;&nbsp;''
                                          @ p2LeadsHtml @ ''</div>''] else [])
                                   @ map (\<lambda>event. ''<div>'' @ event @ ''</div>'') (t_headerEvents lt),
                         ln_text = (if shownLeads then [p1LeadsText @ '' vs '' @ p2LeadsText] else [])
                                   @ t_headerEvents lt\<rparr>)
                 else \<lparr>ln_html = [], ln_text = []\<rparr>)
      in bindE (renderTurns re (turns ctx)) (\<lambda>turnLines.
           (let winnerLine = (if truthy (winner ctx) then [the (winner ctx) @ '' Wins''] else []);
                htmlParts = headerHtml # teamHtml @ ln_html leadLines @ ln_html turnLines;
                textParts = headerText # teamText @ ln_text leadLines @ ln_text turnLines @ winnerLine
            in Inr \<lparr>d_html = join [CHR 0x0A] htmlParts, d_text = join [CHR 0x0A] textParts\<rparr>)))"

section \<open>The entry point (parseReplayData)\<close>

record ReplayJSON =
  rj_id :: "string option"
  rj_format :: "string option"
  rj_log :: "string option"
  rj_players :: "string list option"
  rj_rating :: "int option"

record Meta =
  m_id :: "string option"
  m_format :: "string option"
  m_players :: PlayerMap
  m_winner :: "string option"
  m_loser :: "string option"
  m_resultNote :: "string option"

record SummarizedReplay =
  sr_html :: string
  sr_text :: string
  sr_meta :: Meta

text \<open>The context that \<open>parseReplayData\<close> hands to \<open>parseLog\<close>.\<close>

definition startContext :: "ReplayJSON \<Rightarrow> ParseContext" where
  "startContext data =
     createInitialContext
       \<lparr>players := \<lparr>pm_p1 = orElse (nthOpt (rj_players data) 0) ''Player 1'',
                     pm_p2 = orElse (nthOpt (rj_players data) 1) ''Player 2'',
                     pm_other = []\<rparr>,
        formatName := rj_format data\<rparr>"

definition parseReplayData :: "RegExpReplace \<Rightarrow> ReplayJSON \<Rightarrow> error + SummarizedReplay" where
  "parseReplayData re data =
     (if \<not> truthy (rj_log data) then Inl MissingLog
      else
        bindE (parseLog (startContext data) (the (rj_log data))) (\<lambda>ctx.
          bindE (renderSummary re ctx) (\<lambda>rendered.
            Inr \<lparr>sr_html = d_html rendered,
                 sr_text = d_text rendered,
                 sr_meta = \<lparr>m_id = rj_id data,
                             m_format = formatName ctx,
                             m_players = players ctx,
                             m_winner = winner ctx,
                             m_loser = resolveLoser ctx,
                             m_resultNote = resultNote ctx\<rparr>\<rparr>)))"

section \<open>Notions used in the statements\<close>

text \<open>The tag of a line, as \<open>parseLog\<close> reads it; an empty line has none.\<close>

definition recordTag :: "string \<Rightarrow> string option" where
  "recordTag rawLine =
     (let line = (if startsWith rawLine ''|'' then drop 1 rawLine else rawLine) in
      if line = [] then None else Some (tagOf (splitOn (CHR ''|'') line)))"

text \<open>
  What the claims about turns look at: the numbers of the turns, their lead entries, the
  index of the current turn and the lead-phase flag.
\<close>

definition turnNumbers :: "ParseContext \<Rightarrow> jsnum list" where
  "turnNumbers ctx = map t_turn (turns ctx)"

definition leadLists :: "ParseContext \<Rightarrow> LeadEntry list list" where
  "leadLists ctx = map t_leadEntries (turns ctx)"

definition turnFrame :: "ParseContext \<Rightarrow> (jsnum \<times> LeadEntry list) list \<times> nat \<times> bool" where
  "turnFrame ctx =
     (map (\<lambda>t. (t_turn t, t_leadEntries t)) (turns ctx), currentTurn ctx, leadPhase ctx)"

text \<open>The tags that \<open>parseLog\<close> has a case for; a line is skipped when it is empty or its tag is none of them.\<close>

definition knownTags :: "string list" where
  "knownTags = [''player'', ''gen'', ''tier'', ''format'', ''win'', ''l'', ''turn'', ''poke'',
     ''switch'', ''drag'', ''replace'', ''move'', ''cant'', ''-damage'', ''-heal'', ''-boost'',
     ''-unboost'', ''-status'', ''-curestatus'', ''-ability'', ''-item'', ''-enditem'',
     ''-fieldstart'', ''-fieldend'', ''-weather'', ''-sidestart'', ''-sideend'', ''-terrain'',
     ''-message'', ''-singleturn'', ''-activate'', ''-fail'', ''-miss'', ''-immune'', ''faint'',
     ''-terastallize'', ''detailschange'', ''formechange'']"

definition skippedLine :: "string \<Rightarrow> bool" where
  "skippedLine l = (case recordTag l of None \<Rightarrow> True | Some t \<Rightarrow> t \<notin> set knownTags)"

text \<open>
  The part of the context that holds the turns and the references into them: the turns, the
  current turn, the open action, the buffered field ends, the pending ability boost, the
  lead-phase flag and the list of fainted references.  The registry, the teams and the other
  bookkeeping are left out.
\<close>

definition core ::
  "ParseContext \<Rightarrow> TurnSummary list \<times> nat \<times> (nat \<times> nat) option \<times> string list
      \<times> PendingAbilityBoost option \<times> bool \<times> string list" where
  "core ctx = (turns ctx, currentTurn ctx, currentAction ctx, pendingFieldEnds ctx,
               pendingAbilityBoost ctx, leadPhase ctx, faintedThisTurn ctx)"

text \<open>The number of actions of every turn.\<close>

definition actionCounts :: "ParseContext \<Rightarrow> nat list" where
  "actionCounts ctx = map (\<lambda>t. length (t_actions t)) (turns ctx)"

text \<open>
  The number of fields, the tag included, that the handler of a tag reads without a guard:
  a record with fewer fields makes the handler call a method on \<open>undefined\<close>.  It is 0 for
  a tag whose handler guards every field it reads, and for a tag without a handler.
\<close>

definition fieldsNeeded :: "string \<Rightarrow> nat" where
  "fieldsNeeded tag =
     (if tag \<in> set [''poke'', ''move'', ''-damage'', ''-heal'', ''-boost'', ''-unboost'',
                     ''-status'', ''-curestatus'', ''-singleturn'', ''-activate'',
                     ''detailschange'', ''formechange''] then 3
      else if tag \<in> set [''switch'', ''drag'', ''replace'', ''cant'', ''-ability'', ''-item'',
                          ''-enditem'', ''-fieldstart'', ''-fieldend'', ''-weather'',
                          ''-sidestart'', ''-sideend'', ''-fail'', ''-miss'', ''-immune'',
                          ''faint'', ''-terastallize''] then 2
      else 0)"

text \<open>
  A record that its handler can process: it has the fields the handler reads, a \<open>poke\<close>
  record names the side \<open>p1\<close> or \<open>p2\<close>, and the number of a \<open>turn\<close> record and the amount
  of a boost record are numerals that \<^const>\<open>jsNumber\<close> covers.
\<close>

definition completeRecord :: "string list \<Rightarrow> bool" where
  "completeRecord parts =
     (fieldsNeeded (tagOf parts) \<le> length parts
      \<and> (if tagOf parts = ''poke''
           then part parts 1 = Some ''p1'' \<or> part parts 1 = Some ''p2''
         else if tagOf parts = ''turn''
           then jsNumber (part parts 1) \<noteq> Inl OutsideModel
         else if tagOf parts = ''-boost'' \<or> tagOf parts = ''-unboost''
           then jsNumber (part parts 3) \<noteq> Inl OutsideModel
         else True))"

definition completeLine :: "string \<Rightarrow> bool" where
  "completeLine rawLine =
     (let line = (if startsWith rawLine ''|'' then drop 1 rawLine else rawLine) in
      line = [] \<or> completeRecord (splitOn (CHR ''|'') line))"

text \<open>The engine rejects the pattern of some name that holds a special character.\<close>

definition rejects :: "RegExpReplace \<Rightarrow> bool" where
  "rejects re = (\<exists>name text. list_ex regexSpecial name \<and> re (namePattern name) text = None)"

text \<open>A result that is a value, or the error of an engine that rejects such a pattern.\<close>

definition returnsOrRejects :: "RegExpReplace \<Rightarrow> error + 'a \<Rightarrow> bool" where
  "returnsOrRejects re r = (\<not> isl r \<or> (r = Inl SyntaxError \<and> rejects re))"

text \<open>A result that is not the validation error of \<open>parseReplayData\<close>.\<close>

definition noMissingLog :: "error + 'a \<Rightarrow> bool" where
  "noMissingLog r = (r \<noteq> Inl MissingLog)"

section \<open>Results of fallible steps\<close>

text \<open>Reading off the result of a step that is known to return.\<close>

lemma ex_Inr_projr: "\<exists>c. r = Inr c \<and> P c \<Longrightarrow> r = Inr (projr r) \<and> P (projr r)"
  by auto

lemma ex2_conjD: "\<exists>a b. P a \<and> Q a b \<Longrightarrow> \<exists>a. P a \<and> (\<exists>b. Q a b)"
  by blast

lemma ex4_conjD: "\<exists>a b c d. P a \<and> Q a b c d \<Longrightarrow> \<exists>a. P a \<and> (\<exists>b c d. Q a b c d)"
  by blast

lemma ex5_conjD: "\<exists>a b c d e. P a \<and> Q a b c d e \<Longrightarrow> \<exists>a. P a \<and> (\<exists>b c d e. Q a b c d e)"
  by blast

section \<open>Properties of the text normalisers\<close>

text \<open>
  C7: formatting the parse of the HP/status token \<open>48/100 psn\<close> displays \<open>48% PSN\<close>, and
  formatting the parse of \<open>0 fnt\<close> displays \<open>KO\<close>.
\<close>

theorem hp_status_round_trip:
  "formatHPStatus (parseHPStatus ''48/100 psn'') = ''48% PSN''
   \<and> formatHPStatus (parseHPStatus ''0 fnt'') = ''KO''"
  by code_simp

lemma trim_dropWhile: "trim (dropWhile isSpace s) = trim s"
  by (simp add: trim_def)

lemma bracketScan_tag:
  "\<forall>c\<in>set tag. c \<noteq> CHR '']'' \<and> \<not> isLT c \<Longrightarrow> rev acc @ tag \<noteq> [] \<Longrightarrow>
   \<not> list_ex isLT (dropWhile isSpace content) \<Longrightarrow>
   bracketScan acc (tag @ CHR '']'' # content) = Some (rev acc @ tag, dropWhile isSpace content)"
  by (induction tag arbitrary: acc) (auto simp: isLT_def)

lemma bracketMatch_shape:
  assumes "tag \<noteq> []" "\<forall>c\<in>set tag. c \<noteq> CHR '']'' \<and> \<not> isLT c"
    "\<not> list_ex isLT (dropWhile isSpace content)"
  shows "bracketMatch (CHR ''['' # tag @ CHR '']'' # content) = Some (tag, dropWhile isSpace content)"
  using bracketScan_tag[of tag "[]" content] assms by (simp add: bracketMatch_def)

lemma stripSourcePrefix_known:
  assumes "toLowerCase p \<in> {''ability:'', ''item:'', ''move:''}"
  shows "stripSourcePrefix (p @ src) = dropWhile isSpace src"
proof -
  have len: "length (toLowerCase p) = length p" by (simp add: toLowerCase_def)
  from assms consider "toLowerCase p = ''ability:''" | "toLowerCase p = ''item:''"
    | "toLowerCase p = ''move:''" by auto
  then show ?thesis
  proof cases
    case 1
    with len have "length p = 8" by simp
    with 1 show ?thesis by (simp add: stripSourcePrefix_def)
  next
    case 2
    with len have l: "length p = 5" by simp
    then have "toLowerCase (take 8 (p @ src)) \<noteq> ''ability:''"
      using 2 by (auto simp: toLowerCase_def take_Cons' split: if_splits)
    with 2 l show ?thesis by (simp add: stripSourcePrefix_def)
  next
    case 3
    with len have l: "length p = 5" by simp
    then have "toLowerCase (take 8 (p @ src)) \<noteq> ''ability:''"
      using 3 by (auto simp: toLowerCase_def take_Cons' split: if_splits)
    with 3 l show ?thesis by (simp add: stripSourcePrefix_def)
  qed
qed

text \<open>
  C10: an HP/status text whose only token is \<open>0\<close> parses as fainted with the hit points
  normalised to \<open>0/100\<close>, and is displayed as \<open>KO\<close>.
\<close>

theorem hp_zero_token_fainted:
  assumes "filter (\<lambda>t. t \<noteq> []) (splitWs (trim raw)) = [''0'']"
  shows "hs_fainted (parseHPStatus raw) \<and> hs_hp (parseHPStatus raw) = Some ''0/100''
         \<and> formatHPStatus (parseHPStatus raw) = ''KO''"
  using assms by (simp add: parseHPStatus_def formatHPStatus_def)

theorem hp_zero_token_fainted_witness:
  "filter (\<lambda>t. t \<noteq> []) (splitWs (trim '' 0 '')) = [''0'']
   \<and> hs_fainted (parseHPStatus '' 0 '') \<and> hs_hp (parseHPStatus '' 0 '') = Some ''0/100''
   \<and> formatHPStatus (parseHPStatus '' 0 '') = ''KO''"
proof -
  have h: "filter (\<lambda>t. t \<noteq> []) (splitWs (trim '' 0 '')) = [''0'']" by code_simp
  show ?thesis using h hp_zero_token_fainted[OF h] by simp
qed

section \<open>What the helpers leave unchanged\<close>


lemma map_update_same: "g (f (xs ! i)) = g (xs ! i) \<Longrightarrow> map g (xs[i := f (xs ! i)]) = map g xs"
  by (cases "i < length xs") (simp_all add: map_update list_update_same_conv list_update_beyond)

lemma frame_updCurTurn:
  assumes "\<And>t. t_turn (f t) = t_turn t" "\<And>t. t_leadEntries (f t) = t_leadEntries t"
  shows "turnFrame (updCurTurn f ctx) = turnFrame ctx"
  using assms by (simp add: turnFrame_def updCurTurn_def curTurn_def map_update_same)

lemma frame_updCurAction: "turnFrame (updCurAction f ctx) = turnFrame ctx"
  by (simp add: turnFrame_def updCurAction_def map_update_same split: option.splits)

lemma frame_updMon: "turnFrame (updMon r f ctx) = turnFrame ctx"
  by (simp add: turnFrame_def updMon_def)

lemma frame_getOrCreatePokemon: "turnFrame (snd (getOrCreatePokemon ctx r sd sp)) = turnFrame ctx"
  by (simp add: turnFrame_def getOrCreatePokemon_def Let_def split: option.splits)

lemma frame_detailWithIcon: "turnFrame (snd (detailWithIcon ctx r b h)) = turnFrame ctx"
  using frame_getOrCreatePokemon[of ctx r "resolveSide r" "''Unknown''"]
  by (simp add: detailWithIcon_def Let_def split_beta)

lemma frame_appendDetail: "turnFrame (appendDetail ctx d fe) = turnFrame ctx"
  by (simp add: appendDetail_def frame_updCurTurn frame_updCurAction)

lemma frame_appendDetailText: "turnFrame (appendDetailText ctx d fe) = turnFrame ctx"
  by (simp add: appendDetailText_def Let_def frame_updCurTurn frame_updCurAction)

lemma frame_pushHeaderEvent: "turnFrame (pushHeaderEvent ctx t) = turnFrame ctx"
  by (simp add: pushHeaderEvent_def frame_updCurTurn)

lemma frame_field_upd:
  "turnFrame (ctx\<lparr>pendingFieldEnds := a\<rparr>) = turnFrame ctx"
  "turnFrame (ctx\<lparr>pendingAbilityBoost := b\<rparr>) = turnFrame ctx"
  "turnFrame (ctx\<lparr>currentAction := c\<rparr>) = turnFrame ctx"
  "turnFrame (ctx\<lparr>players := d\<rparr>) = turnFrame ctx"
  "turnFrame (ctx\<lparr>formatName := e\<rparr>) = turnFrame ctx"
  "turnFrame (ctx\<lparr>winner := f\<rparr>) = turnFrame ctx"
  "turnFrame (ctx\<lparr>loser := g\<rparr>) = turnFrame ctx"
  "turnFrame (ctx\<lparr>resultNote := h\<rparr>) = turnFrame ctx"
  "turnFrame (ctx\<lparr>teams := i\<rparr>) = turnFrame ctx"
  "turnFrame (ctx\<lparr>faintedThisTurn := j\<rparr>) = turnFrame ctx"
  "turnFrame (ctx\<lparr>currentWeather := k\<rparr>) = turnFrame ctx"
  "turnFrame (ctx\<lparr>sideConditions := l\<rparr>) = turnFrame ctx"
  "turnFrame (ctx\<lparr>recentMoves := m\<rparr>) = turnFrame ctx"
  "turnFrame (ctx\<lparr>activePositions := n\<rparr>) = turnFrame ctx"
  "turnFrame (ctx\<lparr>pendingProtects := p\<rparr>) = turnFrame ctx"
  "turnFrame (ctx\<lparr>pokemon := q\<rparr>) = turnFrame ctx"
  by (simp_all add: turnFrame_def)

lemma frame_flushPendingFieldEnds: "turnFrame (flushPendingFieldEnds ctx) = turnFrame ctx"
  by (simp add: flushPendingFieldEnds_def Let_def frame_updCurTurn frame_field_upd)

lemma frame_setCurrentAction: "turnFrame (setCurrentAction ctx a) = turnFrame ctx"
  by (simp add: setCurrentAction_def frame_updCurTurn frame_field_upd)

lemma frame_addNoteAction: "turnFrame (addNoteAction ctx r n) = turnFrame ctx"
  by (simp add: addNoteAction_def Let_def frame_setCurrentAction)

lemma frame_patchTargetName: "turnFrame (patchTargetName ctx r m) = turnFrame ctx"
  by (simp add: patchTargetName_def frame_updCurAction split: option.splits)

lemma frame_boostDetails: "turnFrame (snd (boostDetails ctx m)) = turnFrame ctx"
proof (induction m arbitrary: ctx)
  case Nil
  then show ?case by simp
next
  case (Cons a m)
  obtain r bs where a: "a = (r, bs)" by (cases a)
  show ?case
    using Cons[of "snd (detailWithIcon ctx r (join '', '' (map (\<lambda>b. b_direction b @ showNum (b_amount b) @ '' '' @ b_stat b) bs)) None)"]
      frame_detailWithIcon[of ctx r _ None]
    by (simp add: a Let_def split_beta)
qed

lemma frame_finalizePendingAbilityBoost: "turnFrame (finalizePendingAbilityBoost ctx) = turnFrame ctx"
proof (cases "pendingAbilityBoost ctx")
  case None
  then show ?thesis by (simp add: finalizePendingAbilityBoost_def)
next
  case (Some p)
  have "turnFrame (snd (boostDetails ctx (boostsByTarget (pab_boosts p) []))) = turnFrame ctx"
    by (rule frame_boostDetails)
  then show ?thesis
    by (simp add: finalizePendingAbilityBoost_def Some Let_def frame_field_upd
        frame_pushHeaderEvent frame_appendDetail split_beta split: option.splits)
qed

lemma frame_addSpecies: "addSpecies ctx sd sp = Inr ctx' \<Longrightarrow> turnFrame ctx' = turnFrame ctx"
  by (auto simp: addSpecies_def Let_def frame_field_upd split: if_splits)

lemma frame_updatePokemonSpecies:
  "updatePokemonSpecies ctx r sp = Inr ctx' \<Longrightarrow> turnFrame ctx' = turnFrame ctx"
  using frame_getOrCreatePokemon[of ctx r "resolveSide r" sp]
  by (auto simp: updatePokemonSpecies_def Let_def frame_updMon dest!: frame_addSpecies)



lemmas frame_simps = frame_field_upd frame_updMon frame_getOrCreatePokemon frame_detailWithIcon
  frame_appendDetail frame_appendDetailText frame_pushHeaderEvent frame_flushPendingFieldEnds
  frame_setCurrentAction frame_addNoteAction frame_patchTargetName frame_finalizePendingAbilityBoost
  frame_updCurAction

lemma frame_case_player: "case_player ctx parts = Inr ctx' \<Longrightarrow> turnFrame ctx' = turnFrame ctx"
  by (auto simp: case_player_def frame_simps split: option.splits if_splits)

lemma frame_case_format: "case_format ctx parts = Inr ctx' \<Longrightarrow> turnFrame ctx' = turnFrame ctx"
  by (auto simp: case_format_def frame_simps split: if_splits)

lemma frame_case_win: "case_win ctx parts = Inr ctx' \<Longrightarrow> turnFrame ctx' = turnFrame ctx"
  by (auto simp: case_win_def frame_simps)

lemma frame_case_l: "case_l ctx parts = Inr ctx' \<Longrightarrow> turnFrame ctx' = turnFrame ctx"
  by (auto simp: case_l_def Let_def frame_simps)

lemma frame_case_poke: "case_poke ctx parts = Inr ctx' \<Longrightarrow> turnFrame ctx' = turnFrame ctx"
  by (auto simp: case_poke_def withPart_def dest!: frame_addSpecies split: option.splits)

lemma frame_case_move: "case_move ctx parts = Inr ctx' \<Longrightarrow> turnFrame ctx' = turnFrame ctx"
  by (auto simp: case_move_def withPart_def Let_def frame_simps split: option.splits)

lemma frame_case_cant: "case_cant ctx parts = Inr ctx' \<Longrightarrow> turnFrame ctx' = turnFrame ctx"
  by (auto simp: case_cant_def withPart_def Let_def frame_simps split: option.splits)

lemma frame_case_damage: "case_damage ctx parts = Inr ctx' \<Longrightarrow> turnFrame ctx' = turnFrame ctx"
  by (auto simp: case_damage_def withPart_def Let_def split_beta frame_simps split: option.splits)

lemma frame_boostDetail: "boostDetail ctx r d a s e = Inr ctx' \<Longrightarrow> turnFrame ctx' = turnFrame ctx"
  by (auto simp: boostDetail_def Let_def split_beta frame_simps split: if_splits)

lemma frame_case_boost: "case_boost tag ctx parts = Inr ctx' \<Longrightarrow> turnFrame ctx' = turnFrame ctx"
  by (auto simp: case_boost_def withPart_def bindE_def Let_def frame_simps
      dest!: frame_boostDetail split: option.splits sum.splits if_splits)

lemma frame_case_status: "case_status ctx parts = Inr ctx' \<Longrightarrow> turnFrame ctx' = turnFrame ctx"
  by (auto simp: case_status_def withPart_def Let_def split_beta frame_simps split: option.splits)

lemma frame_case_curestatus: "case_curestatus ctx parts = Inr ctx' \<Longrightarrow> turnFrame ctx' = turnFrame ctx"
  by (auto simp: case_curestatus_def withPart_def Let_def split_beta frame_simps split: option.splits)

lemma frame_case_ability: "case_ability ctx parts = Inr ctx' \<Longrightarrow> turnFrame ctx' = turnFrame ctx"
  by (auto simp: case_ability_def withPart_def Let_def split_beta frame_simps split: option.splits if_splits)

lemma frame_case_item: "case_item w ctx parts = Inr ctx' \<Longrightarrow> turnFrame ctx' = turnFrame ctx"
  by (auto simp: case_item_def withPart_def Let_def split_beta frame_simps split: option.splits)

lemma frame_case_fieldstart: "case_fieldstart ctx parts = Inr ctx' \<Longrightarrow> turnFrame ctx' = turnFrame ctx"
  by (auto simp: case_fieldstart_def withPart_def Let_def split_beta frame_simps split: option.splits if_splits)

lemma frame_case_fieldend: "case_fieldend ctx parts = Inr ctx' \<Longrightarrow> turnFrame ctx' = turnFrame ctx"
  by (auto simp: case_fieldend_def withPart_def Let_def split_beta frame_simps split: option.splits)

lemma frame_case_weather: "case_weather ctx parts = Inr ctx' \<Longrightarrow> turnFrame ctx' = turnFrame ctx"
  by (auto simp: case_weather_def withPart_def Let_def split_beta frame_simps split: option.splits if_splits)

lemma frame_case_sidestart: "case_sidestart ctx parts = Inr ctx' \<Longrightarrow> turnFrame ctx' = turnFrame ctx"
  by (auto simp: case_sidestart_def withPart_def Let_def split_beta frame_simps split: option.splits)

lemma frame_case_sideend: "case_sideend ctx parts = Inr ctx' \<Longrightarrow> turnFrame ctx' = turnFrame ctx"
  by (auto simp: case_sideend_def withPart_def Let_def split_beta frame_simps split: option.splits if_splits)

lemma frame_case_terrain: "case_terrain ctx parts = Inr ctx' \<Longrightarrow> turnFrame ctx' = turnFrame ctx"
  by (auto simp: case_terrain_def frame_simps)

lemma frame_case_message: "case_message ctx parts = Inr ctx' \<Longrightarrow> turnFrame ctx' = turnFrame ctx"
  by (auto simp: case_message_def Let_def frame_simps split: if_splits)

lemma frame_case_singleturn: "case_singleturn ctx parts = Inr ctx' \<Longrightarrow> turnFrame ctx' = turnFrame ctx"
  by (auto simp: case_singleturn_def withPart_def bindE_def Let_def split_beta frame_simps
      split: option.splits sum.splits if_splits)

lemma frame_case_activate: "case_activate ctx parts = Inr ctx' \<Longrightarrow> turnFrame ctx' = turnFrame ctx"
  by (auto simp: case_activate_def withPart_def bindE_def Let_def split_beta frame_simps
      split: option.splits sum.splits if_splits)

lemma frame_case_fail: "case_fail ctx parts = Inr ctx' \<Longrightarrow> turnFrame ctx' = turnFrame ctx"
  by (auto simp: case_fail_def withPart_def Let_def split_beta frame_simps split: option.splits)

lemma frame_case_miss: "case_miss ctx parts = Inr ctx' \<Longrightarrow> turnFrame ctx' = turnFrame ctx"
  by (auto simp: case_miss_def withPart_def Let_def split_beta frame_simps split: option.splits)

lemma frame_case_immune: "case_immune ctx parts = Inr ctx' \<Longrightarrow> turnFrame ctx' = turnFrame ctx"
  by (auto simp: case_immune_def withPart_def Let_def split_beta frame_simps split: option.splits)

lemma frame_case_faint: "case_faint ctx parts = Inr ctx' \<Longrightarrow> turnFrame ctx' = turnFrame ctx"
  by (auto simp: case_faint_def withPart_def Let_def split_beta frame_simps split: option.splits)

lemma frame_case_terastallize: "case_terastallize ctx parts = Inr ctx' \<Longrightarrow> turnFrame ctx' = turnFrame ctx"
  by (auto simp: case_terastallize_def withPart_def Let_def split_beta frame_simps split: option.splits)

lemma frame_case_formechange: "case_formechange ctx parts = Inr ctx' \<Longrightarrow> turnFrame ctx' = turnFrame ctx"
  by (auto simp: case_formechange_def withPart_def dest!: frame_updatePokemonSpecies split: option.splits)



section \<open>The turn structure is kept by every record\<close>


lemma turnFrame_parts:
  "turnFrame a = turnFrame b \<longleftrightarrow>
     turnNumbers a = turnNumbers b \<and> leadLists a = leadLists b
     \<and> currentTurn a = currentTurn b \<and> leadPhase a = leadPhase b"
proof -
  have "map (\<lambda>t. (t_turn t, t_leadEntries t)) xs = map (\<lambda>t. (t_turn t, t_leadEntries t)) ys
        \<longleftrightarrow> map t_turn xs = map t_turn ys \<and> map t_leadEntries xs = map t_leadEntries ys"
    for xs ys :: "TurnSummary list"
  proof (induction xs arbitrary: ys)
    case Nil then show ?case by auto
  next
    case (Cons x xs) then show ?case by (cases ys) auto
  qed
  then show ?thesis by (auto simp: turnFrame_def turnNumbers_def leadLists_def)
qed

lemma frame_mergeForcedSwitch:
  "turnFrame (mergeForcedSwitch ctx r pi pn) = turnFrame ctx"
  by (simp add: mergeForcedSwitch_def Let_def frame_updCurAction)

lemma frame_recordSwitchIn: "turnFrame (recordSwitchIn ctx r n h) = turnFrame ctx"
  by (simp add: recordSwitchIn_def Let_def frame_simps split: option.splits)

lemma enterSwitch_comps:
  "turnNumbers (enterSwitch ctx r sd h pi pn) = turnNumbers ctx"
  "currentTurn (enterSwitch ctx r sd h pi pn) = currentTurn ctx"
  "leadPhase (enterSwitch ctx r sd h pi pn) = leadPhase ctx"
  "\<not> leadPhase ctx \<Longrightarrow> leadLists (enterSwitch ctx r sd h pi pn) = leadLists ctx"
proof -
  have a: "turnNumbers (updCurTurn (\<lambda>t. t\<lparr>t_leadEntries := g t\<rparr>) ctx) = turnNumbers ctx" for g
    by (simp add: turnNumbers_def updCurTurn_def curTurn_def map_update_same)
  have b: "currentTurn (updCurTurn f ctx) = currentTurn ctx"
    "leadPhase (updCurTurn f ctx) = leadPhase ctx" for f
    by (simp_all add: updCurTurn_def)
  have c: "turnNumbers (c\<lparr>currentAction := x\<rparr>) = turnNumbers c" for c x
    by (simp add: turnNumbers_def)
  note s = frame_setCurrentAction[unfolded turnFrame_parts]
  show "turnNumbers (enterSwitch ctx r sd h pi pn) = turnNumbers ctx"
    by (simp add: enterSwitch_def Let_def a c s split: option.splits)
  show "currentTurn (enterSwitch ctx r sd h pi pn) = currentTurn ctx"
    by (simp add: enterSwitch_def Let_def b s split: option.splits)
  show "leadPhase (enterSwitch ctx r sd h pi pn) = leadPhase ctx"
    by (simp add: enterSwitch_def Let_def b s split: option.splits)
  show "\<not> leadPhase ctx \<Longrightarrow> leadLists (enterSwitch ctx r sd h pi pn) = leadLists ctx"
    by (simp add: enterSwitch_def Let_def s split: option.splits)
qed

lemma case_switch_cases:
  assumes "case_switch ctx parts = Inr ctx'"
  obtains raw ctx1 where "part parts 1 = Some raw"
    and "updatePokemonSpecies (finalizePendingAbilityBoost ctx) (ri_ref (parsePokemonRef raw))
          (headPiece (CHR '','') (orElse (part parts 2) [])) = Inr ctx1"
    and "ctx' = ctx1
         \<or> (\<exists>pi pn. ctx' = mergeForcedSwitch
                (recordSwitchIn ctx1 (ri_ref (parsePokemonRef raw)) (ri_nickname (parsePokemonRef raw))
                   (parseHPStatus (orElse (part parts 3) [])))
                (ri_ref (parsePokemonRef raw)) pi pn)
         \<or> (\<exists>pi pn. ctx' = enterSwitch
                (recordSwitchIn ctx1 (ri_ref (parsePokemonRef raw)) (ri_nickname (parsePokemonRef raw))
                   (parseHPStatus (orElse (part parts 3) [])))
                (ri_ref (parsePokemonRef raw)) (ri_side (parsePokemonRef raw))
                (parseHPStatus (orElse (part parts 3) [])) pi pn)"
proof (cases "part parts 1")
  case None
  with assms show ?thesis by (simp add: case_switch_def withPart_def Let_def)
next
  case (Some raw)
  let ?c = "finalizePendingAbilityBoost ctx"
  let ?ref = "ri_ref (parsePokemonRef raw)"
  let ?sp = "headPiece (CHR '','') (orElse (part parts 2) [])"
  show ?thesis
  proof (cases "updatePokemonSpecies ?c ?ref ?sp")
    case (Inl e)
    with assms Some show ?thesis
      by (simp add: case_switch_def withPart_def bindE_def Let_def)
  next
    case (Inr ctx1)
    show ?thesis
    proof (cases "map_of (pokemon ctx1) ?ref")
      case None
      with assms Some Inr have "ctx' = ctx1"
        by (simp add: case_switch_def withPart_def bindE_def Let_def)
      with that[of raw ctx1] Some Inr show ?thesis by simp
    next
      case m: (Some mon0)
      from assms Some Inr m
      have "(\<exists>pi pn. ctx' = mergeForcedSwitch
                (recordSwitchIn ctx1 ?ref (ri_nickname (parsePokemonRef raw))
                   (parseHPStatus (orElse (part parts 3) []))) ?ref pi pn)
         \<or> (\<exists>pi pn. ctx' = enterSwitch
                (recordSwitchIn ctx1 ?ref (ri_nickname (parsePokemonRef raw))
                   (parseHPStatus (orElse (part parts 3) [])))
                ?ref (ri_side (parsePokemonRef raw))
                (parseHPStatus (orElse (part parts 3) [])) pi pn)"
        by (simp add: case_switch_def withPart_def bindE_def Let_def split: if_splits) blast+
      with that[of raw ctx1] Some Inr show ?thesis by simp
    qed
  qed
qed

lemma switch_frame:
  assumes "case_switch ctx parts = Inr ctx'"
  shows "turnNumbers ctx' = turnNumbers ctx \<and> currentTurn ctx' = currentTurn ctx
         \<and> leadPhase ctx' = leadPhase ctx
         \<and> (\<not> leadPhase ctx \<longrightarrow> leadLists ctx' = leadLists ctx)"
proof -
  let ?c = "finalizePendingAbilityBoost ctx"
  have f0: "turnFrame ?c = turnFrame ctx" by (rule frame_finalizePendingAbilityBoost)
  from assms obtain raw ctx1 where
    u: "updatePokemonSpecies ?c (ri_ref (parsePokemonRef raw))
          (headPiece (CHR '','') (orElse (part parts 2) [])) = Inr ctx1"
    and r: "ctx' = ctx1 \<or> (\<exists>pi pn. ctx' = mergeForcedSwitch
                (recordSwitchIn ctx1 (ri_ref (parsePokemonRef raw)) (ri_nickname (parsePokemonRef raw))
                   (parseHPStatus (orElse (part parts 3) [])))
                (ri_ref (parsePokemonRef raw)) pi pn)
         \<or> (\<exists>pi pn. ctx' = enterSwitch
                (recordSwitchIn ctx1 (ri_ref (parsePokemonRef raw)) (ri_nickname (parsePokemonRef raw))
                   (parseHPStatus (orElse (part parts 3) [])))
                (ri_ref (parsePokemonRef raw)) (ri_side (parsePokemonRef raw))
                (parseHPStatus (orElse (part parts 3) [])) pi pn)"
    by (rule case_switch_cases)
  have f1: "turnFrame ctx1 = turnFrame ctx"
    using frame_updatePokemonSpecies[OF u] f0 by simp
  have f2: "turnFrame (recordSwitchIn ctx1 r n h) = turnFrame ctx" for r n h
    using f1 by (simp add: frame_recordSwitchIn)
  from r show ?thesis
  proof (elim disjE exE)
    assume "ctx' = ctx1"
    then show ?thesis using f1 by (simp add: turnFrame_parts)
  next
    fix pi pn
    assume "ctx' = mergeForcedSwitch (recordSwitchIn ctx1 (ri_ref (parsePokemonRef raw)) (ri_nickname (parsePokemonRef raw))
                   (parseHPStatus (orElse (part parts 3) []))) (ri_ref (parsePokemonRef raw)) pi pn"
    then have "turnFrame ctx' = turnFrame ctx"
      using f2 by (simp add: frame_mergeForcedSwitch)
    then show ?thesis by (simp add: turnFrame_parts)
  next
    fix pi pn
    assume e: "ctx' = enterSwitch
                (recordSwitchIn ctx1 (ri_ref (parsePokemonRef raw)) (ri_nickname (parsePokemonRef raw))
                   (parseHPStatus (orElse (part parts 3) [])))
                (ri_ref (parsePokemonRef raw)) (ri_side (parsePokemonRef raw))
                (parseHPStatus (orElse (part parts 3) [])) pi pn"
    show ?thesis unfolding e using f2[unfolded turnFrame_parts]
      by (simp add: enterSwitch_comps)
  qed
qed

lemma turn_frame:
  assumes "case_turn ctx parts = Inr ctx'"
  shows "\<not> leadPhase ctx' \<and>
         ((turnNumbers ctx' = turnNumbers ctx \<and> leadLists ctx' = leadLists ctx
             \<and> currentTurn ctx' = currentTurn ctx)
          \<or> (\<exists>n. turnNumbers ctx' = turnNumbers ctx @ [n] \<and> leadLists ctx' = leadLists ctx @ [[]]
                 \<and> currentTurn ctx' = length (turns ctx)))"
proof -
  let ?c1 = "finalizePendingAbilityBoost ctx"
  have f1: "turnFrame ?c1 = turnFrame ctx" by (rule frame_finalizePendingAbilityBoost)
  from assms obtain n where n: "jsNumber (part parts 1) = Inr n"
    and c': "ctx' = (ensureCurrentTurn (?c1\<lparr>leadPhase := False\<rparr>) n)\<lparr>currentAction := None\<rparr>"
    by (auto simp: case_turn_def bindE_def Let_def split: sum.splits)
  let ?c2 = "?c1\<lparr>leadPhase := False\<rparr>"
  have f2: "turnNumbers ?c2 = turnNumbers ctx" "leadLists ?c2 = leadLists ctx"
    "currentTurn ?c2 = currentTurn ctx" "length (turns ?c2) = length (turns ctx)"
    using f1 by (auto simp: turnFrame_parts turnNumbers_def leadLists_def dest: map_eq_imp_length_eq)
  let ?c3 = "flushPendingFieldEnds ?c2"
  have f3: "turnFrame ?c3 = turnFrame ?c2" by (rule frame_flushPendingFieldEnds)
  then have f3': "turnNumbers ?c3 = turnNumbers ctx" "leadLists ?c3 = leadLists ctx"
    "length (turns ?c3) = length (turns ctx)" "\<not> leadPhase ?c3"
    using f2 by (auto simp: turnFrame_parts turnNumbers_def leadLists_def dest: map_eq_imp_length_eq)
  show ?thesis
  proof (cases "strictEq (t_turn (curTurn ?c2)) n")
    case True
    then have "ctx' = ?c2\<lparr>currentAction := None\<rparr>" using c' by (simp add: ensureCurrentTurn_def)
    then show ?thesis using f2 by (simp add: turnNumbers_def leadLists_def)
  next
    case False
    then have "ctx' = (?c3\<lparr>turns := turns ?c3 @ [createTurn n None],
                 currentTurn := length (turns ?c3),
                 currentAction := None,
                 faintedThisTurn := [],
                 recentMoves := [],
                 pendingProtects := []\<rparr>)\<lparr>currentAction := None\<rparr>"
      using c' by (simp add: ensureCurrentTurn_def Let_def)
    then show ?thesis using f3'
      by (simp add: turnNumbers_def leadLists_def createTurn_def)
  qed
qed




lemmas frame_cases = frame_case_player frame_case_format frame_case_win frame_case_l frame_case_poke
    frame_case_move frame_case_cant frame_case_damage frame_case_boost frame_case_status
    frame_case_curestatus frame_case_ability frame_case_item frame_case_fieldstart
    frame_case_fieldend frame_case_weather frame_case_sidestart frame_case_sideend
    frame_case_terrain frame_case_message frame_case_singleturn frame_case_activate
    frame_case_fail frame_case_miss frame_case_immune frame_case_faint frame_case_terastallize
    frame_case_formechange

lemma processRecord_turn: "tagOf parts = ''turn'' \<Longrightarrow> processRecord ctx parts = case_turn ctx parts"
  by (simp add: processRecord_def)

lemma processRecord_switch:
  "tagOf parts = ''switch'' \<or> tagOf parts = ''drag'' \<or> tagOf parts = ''replace''
   \<Longrightarrow> processRecord ctx parts = case_switch ctx parts"
  by (auto simp add: processRecord_def)

lemma processRecord_other:
  assumes "processRecord ctx parts = Inr ctx'" "tagOf parts \<noteq> ''turn''"
    "tagOf parts \<noteq> ''switch''" "tagOf parts \<noteq> ''drag''" "tagOf parts \<noteq> ''replace''"
  shows "turnFrame ctx' = turnFrame ctx"
  using assms unfolding processRecord_def Let_def
  by (simp split: if_splits) (erule frame_cases)+



lemma recordTag_processLine:
  "processLine ctx l = (case recordTag l of None \<Rightarrow> Inr ctx
      | Some t \<Rightarrow> processRecord ctx (splitOn (CHR ''|'') (if startsWith l ''|'' then drop 1 l else l)))"
  by (simp add: processLine_def recordTag_def Let_def)

lemma recordTag_tagOf:
  "recordTag l = Some t \<Longrightarrow> tagOf (splitOn (CHR ''|'') (if startsWith l ''|'' then drop 1 l else l)) = t"
  by (auto simp: recordTag_def Let_def split: if_splits)

lemma length_turns: "length (turns ctx) = length (turnNumbers ctx)"
  by (simp add: turnNumbers_def)

lemma processLine_step:
  assumes "processLine ctx l = Inr ctx'"
  shows "(\<exists>ns. turnNumbers ctx' = turnNumbers ctx @ ns)
         \<and> (Suc (currentTurn ctx) = length (turns ctx) \<longrightarrow> Suc (currentTurn ctx') = length (turns ctx'))
         \<and> (\<not> leadPhase ctx \<or> recordTag l = Some ''turn''
              \<longrightarrow> \<not> leadPhase ctx' \<and> (\<exists>ls. leadLists ctx' = leadLists ctx @ ls))"
proof (cases "recordTag l")
  case None
  with assms have "ctx' = ctx" by (simp add: recordTag_processLine)
  then show ?thesis using None by simp
next
  case (Some t)
  let ?parts = "splitOn (CHR ''|'') (if startsWith l ''|'' then drop 1 l else l)"
  have pr: "processRecord ctx ?parts = Inr ctx'" using assms Some by (simp add: recordTag_processLine)
  have tg: "tagOf ?parts = t" using Some by (rule recordTag_tagOf)
  consider (turn) "t = ''turn''" | (switch) "t = ''switch'' \<or> t = ''drag'' \<or> t = ''replace''"
    | (other) "t \<noteq> ''turn''" "t \<noteq> ''switch''" "t \<noteq> ''drag''" "t \<noteq> ''replace''" by blast
  then show ?thesis
  proof cases
    case turn
    then have "case_turn ctx ?parts = Inr ctx'" using pr tg by (simp add: processRecord_turn)
    from turn_frame[OF this] show ?thesis
      by (auto simp: length_turns)
  next
    case switch
    then have "case_switch ctx ?parts = Inr ctx'" using pr tg processRecord_switch[of ?parts ctx] by simp
    from switch_frame[OF this] show ?thesis using Some switch
      by (auto simp: length_turns)
  next
    case other
    then have "turnFrame ctx' = turnFrame ctx" using pr tg processRecord_other[of ctx ?parts ctx'] by simp
    then show ?thesis using Some other by (auto simp: turnFrame_parts length_turns)
  qed
qed

lemma processLines_inv:
  assumes "processLines ctx ls = Inr ctx'"
  shows "(\<exists>ns. turnNumbers ctx' = turnNumbers ctx @ ns)
         \<and> (Suc (currentTurn ctx) = length (turns ctx) \<longrightarrow> Suc (currentTurn ctx') = length (turns ctx'))
         \<and> (\<not> leadPhase ctx \<longrightarrow> \<not> leadPhase ctx' \<and> (\<exists>ls. leadLists ctx' = leadLists ctx @ ls))"
  using assms
proof (induction ls arbitrary: ctx)
  case Nil
  then show ?case by simp
next
  case (Cons l ls)
  then obtain c1 where s: "processLine ctx l = Inr c1" and r: "processLines c1 ls = Inr ctx'"
    by (auto split: sum.splits)
  from processLine_step[OF s] Cons.IH[OF r] show ?case
    by (auto simp: length_turns)
qed

lemma startContext_frame:
  "turns (startContext data) = [createTurn (JInt 0) (Some ''Lead'')]"
  "currentTurn (startContext data) = 0" "leadPhase (startContext data)"
  by (simp_all add: startContext_def createInitialContext_def Let_def)

text \<open>
  C9: throughout a fold over any sequence of lines that starts from the context of
  \<open>parseReplayData\<close>, the current-turn reference is the last element of the turns list;
  the list holds turn 0 from construction, and it stays the first element; and once a
  turn record has been processed the lead-phase flag is false for the rest of the run and
  the lead entries of turn 0 do not change any more.
\<close>

theorem current_turn_is_last_and_lead_phase_ends:
  assumes "processLines (startContext data) pre = Inr ctx"
  shows "turns (startContext data) = [createTurn (JInt 0) (Some ''Lead'')]
         \<and> turns ctx \<noteq> [] \<and> currentTurn ctx = length (turns ctx) - 1
         \<and> t_turn (turns ctx ! 0) = JInt 0
         \<and> (\<forall>l ctx1 post ctx2.
               recordTag l = Some ''turn'' \<and> processLine ctx l = Inr ctx1
               \<and> processLines ctx1 post = Inr ctx2
               \<longrightarrow> \<not> leadPhase ctx1 \<and> \<not> leadPhase ctx2
                   \<and> t_leadEntries (turns ctx2 ! 0) = t_leadEntries (turns ctx ! 0))"
proof -
  let ?s = "startContext data"
  have s: "Suc (currentTurn ?s) = length (turns ?s)" "turnNumbers ?s = [JInt 0]"
    by (simp_all add: startContext_frame turnNumbers_def createTurn_def)
  from processLines_inv[OF assms] s obtain ns where
    a: "turnNumbers ctx = JInt 0 # ns" "Suc (currentTurn ctx) = length (turns ctx)" by auto
  have ne: "turns ctx \<noteq> []" using a by (auto simp: turnNumbers_def)
  have t0: "t_turn (turns ctx ! 0) = JInt 0"
    using a ne by (cases "turns ctx") (auto simp: turnNumbers_def)
  have lead: "\<not> leadPhase ctx1 \<and> \<not> leadPhase ctx2 \<and> t_leadEntries (turns ctx2 ! 0) = t_leadEntries (turns ctx ! 0)"
    if h: "recordTag l = Some ''turn''" "processLine ctx l = Inr ctx1" "processLines ctx1 post = Inr ctx2"
    for l ctx1 post ctx2
  proof -
    from processLine_step[OF h(2)] h(1) obtain ls1 where
      b: "\<not> leadPhase ctx1" "leadLists ctx1 = leadLists ctx @ ls1" by auto
    from processLines_inv[OF h(3)] b obtain ls2 where
      c: "\<not> leadPhase ctx2" "leadLists ctx2 = leadLists ctx1 @ ls2" by auto
    have "leadLists ctx2 ! 0 = leadLists ctx ! 0"
      using b c ne by (cases "turns ctx") (auto simp: leadLists_def)
    moreover have "turns ctx2 \<noteq> []" using b c ne by (auto simp: leadLists_def)
    ultimately have "t_leadEntries (turns ctx2 ! 0) = t_leadEntries (turns ctx ! 0)"
      using ne by (simp add: leadLists_def)
    with b c show ?thesis by simp
  qed
  have cur: "currentTurn ctx = length (turns ctx) - 1" using a(2) by simp
  show ?thesis using ne cur t0 lead startContext_frame(1)[of data] by blast
qed



theorem current_turn_is_last_and_lead_phase_ends_witness:
  "\<exists>ctx ctx1 ctx2.
     processLines (startContext \<lparr>rj_id = None, rj_format = None, rj_log = None,
                                 rj_players = None, rj_rating = None\<rparr>)
       [''|switch|p1a: Pikachu|Pikachu, L50|100/100''] = Inr ctx
     \<and> recordTag ''|turn|1'' = Some ''turn''
     \<and> processLine ctx ''|turn|1'' = Inr ctx1
     \<and> processLines ctx1 [''|switch|p1a: Eevee|Eevee, L50|100/100''] = Inr ctx2
     \<and> turns ctx \<noteq> [] \<and> currentTurn ctx = length (turns ctx) - 1
     \<and> t_turn (turns ctx ! 0) = JInt 0
     \<and> \<not> leadPhase ctx1 \<and> \<not> leadPhase ctx2
     \<and> t_leadEntries (turns ctx2 ! 0) = t_leadEntries (turns ctx ! 0)"
proof -
  let ?d = "\<lparr>rj_id = None, rj_format = None, rj_log = None, rj_players = None, rj_rating = None\<rparr>"
  let ?r0 = "processLines (startContext ?d) [''|switch|p1a: Pikachu|Pikachu, L50|100/100'']"
  let ?r1 = "processLine (projr ?r0) ''|turn|1''"
  let ?r2 = "processLines (projr ?r1) [''|switch|p1a: Eevee|Eevee, L50|100/100'']"
  have "\<not> isl ?r0" by code_simp
  then have h0: "?r0 = Inr (projr ?r0)" by simp
  have "\<not> isl ?r1" by code_simp
  then have h1: "?r1 = Inr (projr ?r1)" by simp
  have "\<not> isl ?r2" by code_simp
  then have h2: "?r2 = Inr (projr ?r2)" by simp
  have t: "recordTag ''|turn|1'' = Some ''turn''" by code_simp
  from current_turn_is_last_and_lead_phase_ends[OF h0] t h1 h2
  have "turns (projr ?r0) \<noteq> [] \<and> currentTurn (projr ?r0) = length (turns (projr ?r0)) - 1
     \<and> t_turn (turns (projr ?r0) ! 0) = JInt 0
     \<and> \<not> leadPhase (projr ?r1) \<and> \<not> leadPhase (projr ?r2)
     \<and> t_leadEntries (turns (projr ?r2) ! 0) = t_leadEntries (turns (projr ?r0) ! 0)"
    by blast
  with h0 h1 h2 t show ?thesis by blast
qed

section \<open>Annotation translation\<close>

text \<open>
  The source translates a \<open>from\<close> annotation to the bare source and a \<open>spread\<close> annotation
  to the empty text: the word \<open>from\<close> is not written, and there is no spread marker.  A
  segment that ends in a carriage return, as the last field of a line of a log with CRLF
  line ends does, is not matched by the pattern at all and comes back trimmed and
  untranslated.
\<close>

theorem simplifyBracketText_from_counterexample:
  "simplifyBracketText ''[from] item: Leftovers'' = ''Leftovers''
   \<and> simplifyBracketText ''[from] item: Leftovers'' \<noteq> ''from Leftovers''
   \<and> simplifyBracketText ''[spread] p2a,p2b'' = []
   \<and> simplifyBracketText (''[of] p2a: Squirtle'' @ [CHR 0x0D]) = ''[of] p2a: Squirtle''"
  by code_simp

lemma bracketScan_no_bracket:
  "CHR '']'' \<notin> set s \<Longrightarrow> bracketScan acc s = None"
  by (induction s arbitrary: acc) auto

lemma bracketScan_blocked:
  "\<forall>c\<in>set tag. c \<noteq> CHR '']'' \<and> \<not> isLT c \<Longrightarrow>
   list_ex isLT (dropWhile isSpace content) \<Longrightarrow> CHR '']'' \<notin> set content \<Longrightarrow>
   bracketScan acc (tag @ CHR '']'' # content) = None"
  by (induction tag arbitrary: acc) (auto simp: isLT_def bracketScan_no_bracket)

lemma bracketMatch_blocked:
  assumes "\<forall>c\<in>set tag. c \<noteq> CHR '']'' \<and> \<not> isLT c"
    "list_ex isLT (dropWhile isSpace content)" "CHR '']'' \<notin> set content"
  shows "bracketMatch (CHR ''['' # tag @ CHR '']'' # content) = None"
  using bracketScan_blocked[OF assms, of "[]"] by (simp add: bracketMatch_def)

lemma stripSourcePrefix_other:
  assumes "\<forall>p src. s = p @ src \<longrightarrow> toLowerCase p \<notin> {''ability:'', ''item:'', ''move:''}"
  shows "stripSourcePrefix s = s"
proof -
  have "toLowerCase (take n s) \<notin> {''ability:'', ''item:'', ''move:''}" for n
    using assms[rule_format, of "take n s" "drop n s"] by simp
  from this[of 8] this[of 5] show ?thesis by (simp add: stripSourcePrefix_def)
qed

text \<open>
  C4 (amended): for a segment made of a bracketed tag (not empty, without a closing bracket
  or a line terminator) and a content that, leading white space skipped, holds no line
  terminator, \<open>simplifyBracketText\<close> gives: for \<open>from\<close> the trimmed content, without the
  prefix and the white space after it when the trimmed content starts with \<open>ability:\<close>,
  \<open>item:\<close> or \<open>move:\<close> in any letter case, and as it is otherwise (so the empty text
  when the content is blank); for \<open>of\<close> and for \<open>spread\<close> the empty text; for \<open>msg\<close> and
  \<open>move\<close> the trimmed content; for \<open>sid\<close> the word \<open>side\<close> and the trimmed content, or the
  empty text when the content is blank; for \<open>wisher\<close> \<open>Wish from\<close> and the trimmed content,
  or \<open>Wish\<close>; for any other tag the trimmed content or, when that is empty, the tag.  When
  the content does hold a line terminator after its leading white space, and no closing
  bracket, the segment is not translated: the result is the whole segment, trimmed.
\<close>

theorem simplifyBracketText_table:
  assumes "tag \<noteq> []" "\<forall>c\<in>set tag. c \<noteq> CHR '']'' \<and> \<not> isLT c"
  shows "(\<not> list_ex isLT (dropWhile isSpace content) \<longrightarrow>
            (tag = ''from'' \<longrightarrow>
               (\<forall>p src. trim content = p @ src \<and> toLowerCase p \<in> {''ability:'', ''item:'', ''move:''}
                    \<longrightarrow> simplifyBracketText (CHR ''['' # tag @ CHR '']'' # content)
                        = dropWhile isSpace src)
               \<and> ((\<forall>p src. trim content = p @ src
                      \<longrightarrow> toLowerCase p \<notin> {''ability:'', ''item:'', ''move:''})
                    \<longrightarrow> simplifyBracketText (CHR ''['' # tag @ CHR '']'' # content) = trim content))
          \<and> (tag = ''of'' \<or> tag = ''spread''
                \<longrightarrow> simplifyBracketText (CHR ''['' # tag @ CHR '']'' # content) = [])
          \<and> (tag = ''msg'' \<or> tag = ''move''
                \<longrightarrow> simplifyBracketText (CHR ''['' # tag @ CHR '']'' # content) = trim content)
          \<and> (tag = ''sid''
                \<longrightarrow> simplifyBracketText (CHR ''['' # tag @ CHR '']'' # content)
                    = (if trim content \<noteq> [] then ''side '' @ trim content else []))
          \<and> (tag = ''wisher''
                \<longrightarrow> simplifyBracketText (CHR ''['' # tag @ CHR '']'' # content)
                    = (if trim content \<noteq> [] then ''Wish from '' @ trim content else ''Wish''))
          \<and> (tag \<notin> {''from'', ''of'', ''msg'', ''sid'', ''wisher'', ''spread'', ''move''}
                \<longrightarrow> simplifyBracketText (CHR ''['' # tag @ CHR '']'' # content)
                    = (if trim content \<noteq> [] then trim content else tag)))
       \<and> (list_ex isLT (dropWhile isSpace content) \<and> CHR '']'' \<notin> set content \<longrightarrow>
            simplifyBracketText (CHR ''['' # tag @ CHR '']'' # content)
              = trim (CHR ''['' # tag @ CHR '']'' # content))"
proof (intro conjI impI)
  assume n: "\<not> list_ex isLT (dropWhile isSpace content)"
  note m = bracketMatch_shape[OF assms n]
  have r: "simplifyBracketText (CHR ''['' # tag @ CHR '']'' # content) =
           (if tag = ''from''
              then (if trim content = [] then [] else stripSourcePrefix (trim content))
            else if tag = ''of'' then []
            else if tag = ''msg'' then trim content
            else if tag = ''sid'' then (if trim content \<noteq> [] then ''side '' @ trim content else [])
            else if tag = ''wisher''
              then (if trim content \<noteq> [] then ''Wish from '' @ trim content else ''Wish'')
            else if tag = ''spread'' then []
            else if tag = ''move'' then trim content
            else if trim content \<noteq> [] then trim content else tag)"
    by (simp add: simplifyBracketText_def m trim_dropWhile Let_def)
  show "\<forall>p src. trim content = p @ src \<and> toLowerCase p \<in> {''ability:'', ''item:'', ''move:''}
                    \<longrightarrow> simplifyBracketText (CHR ''['' # tag @ CHR '']'' # content)
                        = dropWhile isSpace src" if "tag = ''from''"
  proof (intro allI impI)
    fix p src
    assume a: "trim content = p @ src \<and> toLowerCase p \<in> {''ability:'', ''item:'', ''move:''}"
    then have "p \<noteq> []" by (auto simp: toLowerCase_def)
    with a have "trim content \<noteq> []" by simp
    moreover have "stripSourcePrefix (trim content) = dropWhile isSpace src"
      using a stripSourcePrefix_known[of p src] by simp
    ultimately show "simplifyBracketText (CHR ''['' # tag @ CHR '']'' # content) = dropWhile isSpace src"
      unfolding r using that by simp
  qed
  show "simplifyBracketText (CHR ''['' # tag @ CHR '']'' # content) = trim content"
    if "tag = ''from''"
      and "\<forall>p src. trim content = p @ src \<longrightarrow> toLowerCase p \<notin> {''ability:'', ''item:'', ''move:''}"
    unfolding r using that stripSourcePrefix_other[of "trim content"] by simp
  show "simplifyBracketText (CHR ''['' # tag @ CHR '']'' # content) = []"
    if "tag = ''of'' \<or> tag = ''spread''"
    unfolding r using that by auto
  show "simplifyBracketText (CHR ''['' # tag @ CHR '']'' # content) = trim content"
    if "tag = ''msg'' \<or> tag = ''move''"
    unfolding r using that by auto
  show "simplifyBracketText (CHR ''['' # tag @ CHR '']'' # content)
          = (if trim content \<noteq> [] then ''side '' @ trim content else [])"
    if "tag = ''sid''"
    unfolding r using that by simp
  show "simplifyBracketText (CHR ''['' # tag @ CHR '']'' # content)
          = (if trim content \<noteq> [] then ''Wish from '' @ trim content else ''Wish'')"
    if "tag = ''wisher''"
    unfolding r using that by simp
  show "simplifyBracketText (CHR ''['' # tag @ CHR '']'' # content)
          = (if trim content \<noteq> [] then trim content else tag)"
    if "tag \<notin> {''from'', ''of'', ''msg'', ''sid'', ''wisher'', ''spread'', ''move''}"
    unfolding r using that by simp
next
  assume "list_ex isLT (dropWhile isSpace content) \<and> CHR '']'' \<notin> set content"
  then have "bracketMatch (CHR ''['' # tag @ CHR '']'' # content) = None"
    using bracketMatch_blocked[OF assms(2)] by blast
  then show "simplifyBracketText (CHR ''['' # tag @ CHR '']'' # content)
              = trim (CHR ''['' # tag @ CHR '']'' # content)"
    by (simp add: simplifyBracketText_def)
qed

theorem simplifyBracketText_table_witness:
  "''from'' \<noteq> [] \<and> list_all (\<lambda>c. c \<noteq> CHR '']'' \<and> \<not> isLT c) ''from''
   \<and> \<not> list_ex isLT (dropWhile isSpace '' item: Leftovers'')
   \<and> trim '' item: Leftovers'' = ''item:'' @ '' Leftovers''
   \<and> toLowerCase ''item:'' \<in> {''ability:'', ''item:'', ''move:''}
   \<and> simplifyBracketText ''[from] item: Leftovers'' = ''Leftovers''
   \<and> \<not> list_ex isLT (dropWhile isSpace '' psn'')
   \<and> simplifyBracketText ''[from] psn'' = ''psn''
   \<and> simplifyBracketText ''[wisher]'' = ''Wish''
   \<and> simplifyBracketText ''[silent]'' = ''silent''
   \<and> list_ex isLT (dropWhile isSpace ('' p2a: Squirtle'' @ [CHR 0x0D]))
   \<and> CHR '']'' \<notin> set ('' p2a: Squirtle'' @ [CHR 0x0D])
   \<and> simplifyBracketText (''[of] p2a: Squirtle'' @ [CHR 0x0D]) = ''[of] p2a: Squirtle''"
proof -
  have h1: "''from'' \<noteq> []" by simp
  have h2: "\<forall>c\<in>set ''from''. c \<noteq> CHR '']'' \<and> \<not> isLT c" by (simp add: isLT_def)
  have h2': "list_all (\<lambda>c. c \<noteq> CHR '']'' \<and> \<not> isLT c) ''from''"
    using h2 by (simp only: list_all_iff)
  have h3: "\<not> list_ex isLT (dropWhile isSpace '' item: Leftovers'')" by code_simp
  have h4: "toLowerCase ''item:'' \<in> {''ability:'', ''item:'', ''move:''}" by code_simp
  have t: "trim '' item: Leftovers'' = ''item:'' @ '' Leftovers''" by code_simp
  have d: "dropWhile isSpace '' Leftovers'' = ''Leftovers''" by code_simp
  note T = simplifyBracketText_table[OF h1 h2, of "'' item: Leftovers''",
      THEN conjunct1, THEN mp, OF h3, THEN conjunct1, THEN mp, OF refl,
      THEN conjunct1, THEN spec, THEN spec, THEN mp, OF conjI[OF t h4]]
  have a: "simplifyBracketText ''[from] item: Leftovers'' = ''Leftovers''"
    using T by (simp only: d append.simps)
  have k3: "\<not> list_ex isLT (dropWhile isSpace '' psn'')" by code_simp
  have tp: "trim '' psn'' = ''psn''" by code_simp
  have np: "\<forall>p src. trim '' psn'' = p @ src
              \<longrightarrow> toLowerCase p \<notin> {''ability:'', ''item:'', ''move:''}"
  proof (intro allI impI)
    fix p src
    assume "trim '' psn'' = p @ src"
    then have "length (trim '' psn'') = length (p @ src)" by (rule arg_cong)
    then have "length (toLowerCase p) \<le> 3" by (simp add: tp toLowerCase_def)
    then show "toLowerCase p \<notin> {''ability:'', ''item:'', ''move:''}" by auto
  qed
  note U = simplifyBracketText_table[OF h1 h2, of "'' psn''",
      THEN conjunct1, THEN mp, OF k3, THEN conjunct1, THEN mp, OF refl,
      THEN conjunct2, THEN mp, OF np]
  have b: "simplifyBracketText ''[from] psn'' = ''psn''"
    using U by (simp only: tp append.simps)
  have w1: "''wisher'' \<noteq> []" by simp
  have w2: "\<forall>c\<in>set ''wisher''. c \<noteq> CHR '']'' \<and> \<not> isLT c" by (simp add: isLT_def)
  have w3: "\<not> list_ex isLT (dropWhile isSpace [])" by simp
  have c: "simplifyBracketText ''[wisher]'' = ''Wish''"
    using simplifyBracketText_table[OF w1 w2, of "[]"] w3 by (simp add: trim_def)
  have s1: "''silent'' \<noteq> []" by simp
  have s2: "\<forall>c\<in>set ''silent''. c \<noteq> CHR '']'' \<and> \<not> isLT c" by (simp add: isLT_def)
  have e: "simplifyBracketText ''[silent]'' = ''silent''"
    using simplifyBracketText_table[OF s1 s2, of "[]"] w3 by (simp add: trim_def)
  have o1: "''of'' \<noteq> []" by simp
  have o2: "\<forall>c\<in>set ''of''. c \<noteq> CHR '']'' \<and> \<not> isLT c" by (simp add: isLT_def)
  have o3: "list_ex isLT (dropWhile isSpace ('' p2a: Squirtle'' @ [CHR 0x0D]))" by code_simp
  have o4: "CHR '']'' \<notin> set ('' p2a: Squirtle'' @ [CHR 0x0D])" by simp
  have o5: "trim (''[of] p2a: Squirtle'' @ [CHR 0x0D]) = ''[of] p2a: Squirtle''" by code_simp
  note V = simplifyBracketText_table[OF o1 o2, of "'' p2a: Squirtle'' @ [CHR 0x0D]",
      THEN conjunct2, THEN mp, OF conjI[OF o3 o4]]
  have f: "simplifyBracketText (''[of] p2a: Squirtle'' @ [CHR 0x0D]) = ''[of] p2a: Squirtle''"
    using V o5 by (simp only: append.simps) 
  show ?thesis
    by (intro conjI) (rule h1 h2' h3 t h4 a k3 b c e o3 o4 f)+
qed


section \<open>Winner and loser\<close>




section \<open>The separator of an action line\<close>


lemma combinedDetails_details:
  "combinedDetails a = Some c \<Longrightarrow> a_details a \<noteq> []"
  by (auto simp: combinedDetails_def combineDetails_def Let_def split: if_splits)




section \<open>Writes of the helpers to the turns\<close>

text \<open>
  The registry helpers write to the registry and the teams only; what they leave of the
  context is the part that \<^const>\<open>core\<close> reads.
\<close>

lemma core_getOrCreatePokemon: "core (snd (getOrCreatePokemon ctx r sd sp)) = core ctx"
  by (simp add: core_def getOrCreatePokemon_def Let_def split: option.splits)

lemma core_updMon: "core (updMon r f ctx) = core ctx"
  by (simp add: core_def updMon_def)

lemma core_detailWithIcon: "core (snd (detailWithIcon ctx r b h)) = core ctx"
  using core_getOrCreatePokemon[of ctx r "resolveSide r" "''Unknown''"]
  by (simp add: detailWithIcon_def Let_def split_beta)

lemma html_detailWithIcon: "d_html (fst (detailWithIcon ctx r b None)) \<noteq> []"
proof -
  have t: "trim (c # cs) \<noteq> []" if "\<not> isSpace c" for c cs
  proof -
    have "dropWhile isSpace (rev cs @ [c]) \<noteq> []"
      using that by (simp add: dropWhile_append)
    then show ?thesis using that by (simp add: trim_def)
  qed
  have i: "\<exists>cs. iconHTML x y @ b = CHR ''<'' # cs" for x y
    by (simp add: iconHTML_def renderPokemonIcon_def Let_def)
  have ns: "\<not> isSpace (CHR ''<'')" by (simp add: isSpace_def)
  have "trim (iconHTML x y @ b) \<noteq> []" for x y
    using i[of x y] t[OF ns] by auto
  then show ?thesis
    by (simp add: detailWithIcon_def Let_def split_beta makeDetail_def truthy_def)
qed

lemma core_addSpecies: "addSpecies ctx sd sp = Inr ctx' \<Longrightarrow> core ctx' = core ctx"
  by (auto simp: addSpecies_def Let_def core_def split: if_splits)

lemma core_updatePokemonSpecies:
  "updatePokemonSpecies ctx r sp = Inr ctx' \<Longrightarrow> core ctx' = core ctx"
  using core_getOrCreatePokemon[of ctx r "resolveSide r" sp]
  by (auto simp: updatePokemonSpecies_def Let_def core_updMon dest!: core_addSpecies)

lemma core_field_upd:
  "core (ctx\<lparr>activePositions := a\<rparr>) = core ctx"
  "core (ctx\<lparr>recentMoves := b\<rparr>) = core ctx"
  "core (ctx\<lparr>pokemon := c\<rparr>) = core ctx"
  "core (ctx\<lparr>teams := d\<rparr>) = core ctx"
  by (simp_all add: core_def)

lemma core_recordSwitchIn: "core (recordSwitchIn ctx r n h) = core ctx"
  by (simp add: recordSwitchIn_def Let_def core_updMon core_field_upd split: option.splits)

lemma core_eqD:
  assumes "core a = core b"
  shows "turns a = turns b" "currentTurn a = currentTurn b" "currentAction a = currentAction b"
    "pendingFieldEnds a = pendingFieldEnds b" "pendingAbilityBoost a = pendingAbilityBoost b"
    "leadPhase a = leadPhase b" "faintedThisTurn a = faintedThisTurn b"
    "curTurn a = curTurn b" "curAction a = curAction b"
  using assms by (auto simp: core_def curTurn_def curAction_def split: option.splits)

text \<open>Reading after writing.\<close>

lemma curTurn_updCurTurn:
  "currentTurn ctx < length (turns ctx) \<Longrightarrow> curTurn (updCurTurn f ctx) = f (curTurn ctx)"
  by (simp add: curTurn_def updCurTurn_def)

lemma updCurTurn_fields:
  "currentTurn (updCurTurn f ctx) = currentTurn ctx"
  "currentAction (updCurTurn f ctx) = currentAction ctx"
  "pendingFieldEnds (updCurTurn f ctx) = pendingFieldEnds ctx"
  "pendingAbilityBoost (updCurTurn f ctx) = pendingAbilityBoost ctx"
  "length (turns (updCurTurn f ctx)) = length (turns ctx)"
  "turns (updCurTurn f ctx) = (turns ctx)[currentTurn ctx := f (curTurn ctx)]"
  by (simp_all add: updCurTurn_def)

lemma counts_updCurTurn:
  "(\<And>t. length (t_actions (f t)) = length (t_actions t))
   \<Longrightarrow> actionCounts (updCurTurn f ctx) = actionCounts ctx"
  by (simp add: actionCounts_def updCurTurn_def curTurn_def map_update_same)

lemma counts_updCurAction: "actionCounts (updCurAction f ctx) = actionCounts ctx"
  by (simp add: actionCounts_def updCurAction_def map_update_same split: option.splits)

lemma counts_core: "core a = core b \<Longrightarrow> actionCounts a = actionCounts b"
  by (simp add: core_def actionCounts_def)

lemma counts_appendDetail: "actionCounts (appendDetail ctx d fe) = actionCounts ctx"
  by (simp add: appendDetail_def counts_updCurTurn counts_updCurAction)

lemma counts_pushHeaderEvent: "actionCounts (pushHeaderEvent ctx t) = actionCounts ctx"
  by (simp add: pushHeaderEvent_def counts_updCurTurn)

lemma core_boostDetails: "core (snd (boostDetails ctx m)) = core ctx"
proof (induction m arbitrary: ctx)
  case Nil
  then show ?case by simp
next
  case (Cons a m)
  obtain r bs where a: "a = (r, bs)" by (cases a)
  show ?case
    using Cons[of "snd (detailWithIcon ctx r (join '', '' (map (\<lambda>b. b_direction b @ showNum (b_amount b) @ '' '' @ b_stat b) bs)) None)"]
      core_detailWithIcon[of ctx r _ None]
    by (simp add: a Let_def split_beta)
qed

lemma finalize_none: "pendingAbilityBoost ctx = None \<Longrightarrow> finalizePendingAbilityBoost ctx = ctx"
  by (simp add: finalizePendingAbilityBoost_def)

lemma finalize_facts:
  "pendingAbilityBoost (finalizePendingAbilityBoost ctx) = None"
  "actionCounts (finalizePendingAbilityBoost ctx) = actionCounts ctx"
  "currentTurn (finalizePendingAbilityBoost ctx) = currentTurn ctx"
  "length (turns (finalizePendingAbilityBoost ctx)) = length (turns ctx)"
proof -
  show "pendingAbilityBoost (finalizePendingAbilityBoost ctx) = None"
    by (simp add: finalizePendingAbilityBoost_def Let_def split_beta split: option.splits)
  have c: "actionCounts (snd (boostDetails ctx m)) = actionCounts ctx" for m
    by (rule counts_core) (rule core_boostDetails)
  have u: "actionCounts (c\<lparr>pendingAbilityBoost := x\<rparr>) = actionCounts c" for c x
    by (simp add: actionCounts_def)
  show "actionCounts (finalizePendingAbilityBoost ctx) = actionCounts ctx"
    by (simp add: finalizePendingAbilityBoost_def Let_def split_beta u c
        counts_pushHeaderEvent counts_appendDetail split: option.splits)
  have f: "turnFrame (finalizePendingAbilityBoost ctx) = turnFrame ctx"
    by (rule frame_finalizePendingAbilityBoost)
  then show "currentTurn (finalizePendingAbilityBoost ctx) = currentTurn ctx"
    by (simp add: turnFrame_parts)
  from f show "length (turns (finalizePendingAbilityBoost ctx)) = length (turns ctx)"
    by (auto simp: turnFrame_parts turnNumbers_def dest: map_eq_imp_length_eq)
qed

lemma counts_curTurn:
  "actionCounts a = actionCounts b \<Longrightarrow> currentTurn a = currentTurn b
   \<Longrightarrow> currentTurn b < length (turns b)
   \<Longrightarrow> length (t_actions (curTurn a)) = length (t_actions (curTurn b))"
proof -
  assume a: "actionCounts a = actionCounts b" and c: "currentTurn a = currentTurn b"
    and w: "currentTurn b < length (turns b)"
  from a have l: "length (turns a) = length (turns b)"
    by (auto simp: actionCounts_def dest: map_eq_imp_length_eq)
  from a have "actionCounts a ! currentTurn b = actionCounts b ! currentTurn b" by simp
  then show ?thesis using w l c by (simp add: actionCounts_def curTurn_def)
qed

lemma addSpecies_resolved:
  "\<exists>c. addSpecies ctx (sideName sd) sp = Inr c \<and> pokemon c = pokemon ctx \<and> core c = core ctx"
  by (cases sd) (simp_all add: addSpecies_def Let_def sideName_def core_def)

lemma map_of_updMon:
  "map_of (pokemon (updMon r f ctx)) r = map_option f (map_of (pokemon ctx) r)"
  by (simp add: updMon_def map_of_map_entry split: option.splits)

lemma map_of_getOrCreatePokemon:
  "map_of (pokemon (snd (getOrCreatePokemon ctx r sd sp))) r \<noteq> None"
  by (simp add: getOrCreatePokemon_def Let_def update_conv' split: option.splits)

lemma updatePokemonSpecies_ok:
  "\<exists>c. updatePokemonSpecies ctx r sp = Inr c \<and> core c = core ctx \<and> map_of (pokemon c) r \<noteq> None"
proof -
  let ?c1 = "snd (getOrCreatePokemon ctx r (resolveSide r) sp)"
  let ?c2 = "updMon r (\<lambda>mon. mon\<lparr>mon_species := sp\<rparr>) ?c1"
  let ?c3 = "updMon r (\<lambda>mon. mon\<lparr>mon_iconId :=
                    (if toIconId (Some sp) \<noteq> [] then toIconId (Some sp)
                     else mon_iconId mon)\<rparr>) ?c2"
  have m: "map_of (pokemon ?c3) r \<noteq> None"
    using map_of_getOrCreatePokemon[of ctx r "resolveSide r" sp] by (simp add: map_of_updMon)
  have k: "core ?c3 = core ctx" by (simp add: core_updMon core_getOrCreatePokemon)
  from addSpecies_resolved[of ?c3 "resolveSide r" sp] obtain c where
    "addSpecies ?c3 (sideName (resolveSide r)) sp = Inr c" "pokemon c = pokemon ?c3" "core c = core ?c3"
    by blast
  then show ?thesis using m k by (simp add: updatePokemonSpecies_def Let_def)
qed



section \<open>Residual damage at the end of a turn\<close>

lemma reachable_wf:
  assumes "processLines (startContext data) pre = Inr ctx"
  shows "currentTurn ctx < length (turns ctx)"
proof -
  have "Suc (currentTurn (startContext data)) = length (turns (startContext data))"
    by (simp add: startContext_frame)
  with processLines_inv[OF assms] show ?thesis by auto
qed

lemma parseExtras_drop: "parseExtras (a # b # c # rest) 3 = parseExtras rest 0"
  by (simp add: parseExtras_def)

lemma damage_end_of_turn_general:
  assumes wf: "currentTurn ctx < length (turns ctx)"
    and eot: "list_ex isEndOfTurnSource (parseExtras (tag # who # hp # rest) 3)"
  shows "\<exists>ctx' detail.
           case_damage ctx (tag # who # hp # rest) = Inr ctx'
           \<and> d_html detail \<noteq> []
           \<and> turns ctx' = (turns ctx)[currentTurn ctx := (curTurn ctx)
                \<lparr>t_endEvents := t_endEvents (curTurn ctx)
                   @ (if pendingFieldEnds ctx = [] then []
                      else [makeDetail (join ''; '' (map (\<lambda>e. e @ '' ends'') (pendingFieldEnds ctx))) None])
                   @ [detail]\<rparr>]
           \<and> currentTurn ctx' = currentTurn ctx
           \<and> currentAction ctx' = currentAction ctx
           \<and> pendingFieldEnds ctx' = []"
proof -
  let ?parts = "tag # who # hp # rest"
  define ref where "ref = ri_ref (parsePokemonRef who)"
  define hs where "hs = parseHPStatus hp"
  define c2 where "c2 = updMon ref (\<lambda>m. m\<lparr>mon_lastDisplayHP := Some (formatHPStatus hs),
                                   mon_status := hs_status hs,
                                   mon_fainted := Some (hs_fainted hs)\<rparr>)
                          (snd (getOrCreatePokemon ctx ref (resolveSide ref) ''Unknown''))"
  define c3 where "c3 = (if length (pendingFieldEnds c2) > 0 then flushPendingFieldEnds c2 else c2)"
  define flush where "flush = (if pendingFieldEnds ctx = [] then []
       else [makeDetail (join ''; '' (map (\<lambda>e. e @ '' ends'') (pendingFieldEnds ctx))) None])"
  have ex: "list_ex isEndOfTurnSource (filter (\<lambda>e. e \<noteq> []) (parseExtras ?parts 3))"
    using eot by (auto simp: list_ex_iff parseExtras_def)
  have k2: "core c2 = core ctx" by (simp add: c2_def core_updMon core_getOrCreatePokemon)
  note e2 = core_eqD[OF k2]
  have t3: "turns c3 = (turns ctx)[currentTurn ctx := (curTurn ctx)
                \<lparr>t_endEvents := t_endEvents (curTurn ctx) @ flush\<rparr>]"
  proof (cases "pendingFieldEnds ctx = []")
    case True
    then have "c3 = c2" using e2 by (simp add: c3_def)
    then show ?thesis using True e2 by (simp add: flush_def curTurn_def)
  next
    case False
    then have "c3 = flushPendingFieldEnds c2" using e2 by (simp add: c3_def)
    then show ?thesis using False e2
      by (simp add: flush_def flushPendingFieldEnds_def Let_def updCurTurn_def)
  qed
  have f3: "currentTurn c3 = currentTurn ctx" "currentAction c3 = currentAction ctx"
      "pendingFieldEnds c3 = []"
    using e2 by (auto simp: c3_def flushPendingFieldEnds_def Let_def updCurTurn_def)
  define body where "body = damageBody
      (mon_lastDisplayHP (fst (getOrCreatePokemon ctx ref (resolveSide ref) ''Unknown'')))
      (formatHPStatus hs) (filter (\<lambda>e. e \<noteq> []) (parseExtras ?parts 3))"
  have r: "case_damage ctx ?parts = Inr (appendDetail (snd (detailWithIcon c3 ref body None))
                                        (fst (detailWithIcon c3 ref body None)) True)"
    using ex
    by (simp add: case_damage_def withPart_def part_def Let_def split_beta
        ref_def hs_def c2_def c3_def body_def)
  define dw where "dw = detailWithIcon c3 ref body None"
  have k4: "core (snd dw) = core c3" unfolding dw_def by (rule core_detailWithIcon)
  note e4 = core_eqD[OF k4]
  have h: "d_html (fst dw) \<noteq> []" unfolding dw_def by (rule html_detailWithIcon)
  define res where "res = appendDetail (snd dw) (fst dw) True"
  have a: "res = updCurTurn (\<lambda>t. t\<lparr>t_endEvents := t_endEvents t @ [fst dw]\<rparr>) (snd dw)"
    using h by (simp add: res_def appendDetail_def)
  have c3cur: "curTurn c3 = (curTurn ctx)\<lparr>t_endEvents := t_endEvents (curTurn ctx) @ flush\<rparr>"
    using wf by (simp add: curTurn_def t3 f3)
  have t5: "turns res = (turns ctx)[currentTurn ctx := (curTurn ctx)
                \<lparr>t_endEvents := t_endEvents (curTurn ctx) @ flush @ [fst dw]\<rparr>]"
    by (simp add: a updCurTurn_fields e4 f3 c3cur t3)
  have f5: "currentTurn res = currentTurn ctx" "currentAction res = currentAction ctx"
    "pendingFieldEnds res = []"
    by (simp_all add: a updCurTurn_fields e4 f3)
  have "case_damage ctx ?parts = Inr res" using r by (simp add: res_def dw_def)
  with h t5 f5 show ?thesis unfolding flush_def by blast
qed

lemma isEndOfTurnSource_nonempty: "isEndOfTurnSource e \<Longrightarrow> e \<noteq> []"
proof
  assume a: "isEndOfTurnSource e" and "e = []"
  moreover have "\<not> isEndOfTurnSource []" by code_simp
  ultimately show False by simp
qed

lemma eot_extras:
  "list_ex (\<lambda>f. isEndOfTurnSource (simplifyBracketText f)) rest
   \<Longrightarrow> list_ex isEndOfTurnSource (parseExtras (tag # who # hp # rest) 3)"
  by (auto simp: parseExtras_def list_ex_iff dest: isEndOfTurnSource_nonempty)

lemma dispatch_damage_tag:
  "processRecord ctx (''-damage'' # ps) = case_damage ctx (''-damage'' # ps)"
  by (simp add: processRecord_def tagOf_def Let_def)

lemma dispatch_heal_tag:
  "processRecord ctx (''-heal'' # ps) = case_damage ctx (''-heal'' # ps)"
  by (simp add: processRecord_def tagOf_def Let_def)

lemma dispatch_damage:
  "tag = ''-damage'' \<or> tag = ''-heal'' \<Longrightarrow> processRecord ctx (tag # ps) = case_damage ctx (tag # ps)"
  using dispatch_damage_tag dispatch_heal_tag by blast

lemma dispatch_move:
  "processRecord ctx (''move'' # ps) = case_move ctx (''move'' # ps)"
  by (simp add: processRecord_def tagOf_def Let_def)

lemma dispatch_switch:
  "tag = ''switch'' \<or> tag = ''drag'' \<or> tag = ''replace''
   \<Longrightarrow> processRecord ctx (tag # ps) = case_switch ctx (tag # ps)"
  by (auto simp: processRecord_def tagOf_def Let_def)

lemma actions_update:
  "i < length ts \<Longrightarrow> map t_actions (ts[i := (ts ! i)\<lparr>t_endEvents := es\<rparr>]) = map t_actions ts"
  by (simp add: map_update list_update_same_conv)


text \<open>
  C5: in every context reached by the fold, a damage (or heal) record that carries an
  annotation whose translation \<open>isEndOfTurnSource\<close> recognises is processed without error;
  the buffered field ends, when there are any, are flushed as one entry to the end events of
  the current turn, and the damage detail, which is not empty, is appended right after it.
  The actions of every turn, and with them the details of the open action, stay as they
  were, the current turn and the open action are the same, and the buffer is empty
  afterwards.
\<close>

theorem damage_end_of_turn_grouping:
  assumes reach: "processLines (startContext data) pre = Inr ctx"
    and tag: "tag = ''-damage'' \<or> tag = ''-heal''"
    and eot: "list_ex (\<lambda>f. isEndOfTurnSource (simplifyBracketText f)) rest"
  shows "\<exists>ctx' detail.
           processRecord ctx (tag # who # hp # rest) = Inr ctx'
           \<and> d_html detail \<noteq> []
           \<and> turns ctx' = (turns ctx)[currentTurn ctx := (curTurn ctx)
                \<lparr>t_endEvents := t_endEvents (curTurn ctx)
                   @ (if pendingFieldEnds ctx = [] then []
                      else [makeDetail (join ''; '' (map (\<lambda>e. e @ '' ends'') (pendingFieldEnds ctx))) None])
                   @ [detail]\<rparr>]
           \<and> map t_actions (turns ctx') = map t_actions (turns ctx)
           \<and> currentTurn ctx' = currentTurn ctx
           \<and> currentAction ctx' = currentAction ctx
           \<and> pendingFieldEnds ctx' = []"
proof -
  have wf: "currentTurn ctx < length (turns ctx)" using reach by (rule reachable_wf)
  from damage_end_of_turn_general[OF wf eot_extras[OF eot], of tag who hp]
  obtain ctx' detail where
    r: "case_damage ctx (tag # who # hp # rest) = Inr ctx'"
    and h: "d_html detail \<noteq> []"
    and t: "turns ctx' = (turns ctx)[currentTurn ctx := (curTurn ctx)
                \<lparr>t_endEvents := t_endEvents (curTurn ctx)
                   @ (if pendingFieldEnds ctx = [] then []
                      else [makeDetail (join ''; '' (map (\<lambda>e. e @ '' ends'') (pendingFieldEnds ctx))) None])
                   @ [detail]\<rparr>]"
    and f: "currentTurn ctx' = currentTurn ctx" "currentAction ctx' = currentAction ctx"
      "pendingFieldEnds ctx' = []"
    by blast
  have a: "map t_actions (turns ctx') = map t_actions (turns ctx)"
    unfolding t curTurn_def using wf by (rule actions_update)
  have "processRecord ctx (tag # who # hp # rest) = Inr ctx'"
    using r dispatch_damage[OF tag] by simp
  with h t a f show ?thesis by blast
qed

theorem damage_end_of_turn_grouping_witness:
  "\<exists>ctx ctx'.
     processLines (startContext \<lparr>rj_id = None, rj_format = None, rj_log = None,
                                 rj_players = None, rj_rating = None\<rparr>)
       [''|switch|p1a: Pikachu|Pikachu, L50|100/100'',
        ''|switch|p2a: Squirtle|Squirtle, L50|100/100'',
        ''|turn|1'',
        ''|move|p1a: Pikachu|Thunderbolt|p2a: Squirtle'',
        ''|-fieldend|move: Trick Room''] = Inr ctx
     \<and> list_ex (\<lambda>f. isEndOfTurnSource (simplifyBracketText f)) [''[from] psn'']
     \<and> pendingFieldEnds ctx = [''Trick Room'']
     \<and> currentAction ctx = Some (1, 0)
     \<and> processRecord ctx [''-damage'', ''p2a: Squirtle'', ''44/100 psn'', ''[from] psn''] = Inr ctx'
     \<and> map d_text (t_endEvents (curTurn ctx)) = []
     \<and> map d_text (t_endEvents (curTurn ctx')) = [''Trick Room ends'', ''Squirtle 100% -> 44% PSN (psn)'']
     \<and> map t_actions (turns ctx') = map t_actions (turns ctx)
     \<and> currentAction ctx' = Some (1, 0)
     \<and> pendingFieldEnds ctx' = []"
proof -
  let ?d = "\<lparr>rj_id = None, rj_format = None, rj_log = None, rj_players = None, rj_rating = None\<rparr>"
  let ?r0 = "processLines (startContext ?d)
       [''|switch|p1a: Pikachu|Pikachu, L50|100/100'',
        ''|switch|p2a: Squirtle|Squirtle, L50|100/100'',
        ''|turn|1'',
        ''|move|p1a: Pikachu|Thunderbolt|p2a: Squirtle'',
        ''|-fieldend|move: Trick Room'']"
  let ?r1 = "processRecord (projr ?r0) [''-damage'', ''p2a: Squirtle'', ''44/100 psn'', ''[from] psn'']"
  have "\<not> isl ?r0" by code_simp
  then have h0: "?r0 = Inr (projr ?r0)" by simp
  have e: "list_ex (\<lambda>f. isEndOfTurnSource (simplifyBracketText f)) [''[from] psn'']"
    by code_simp
  have p: "pendingFieldEnds (projr ?r0) = [''Trick Room'']" by code_simp
  have a: "currentAction (projr ?r0) = Some (1, 0)" by code_simp
  have v0: "map d_text (t_endEvents (curTurn (projr ?r0))) = []" by code_simp
  have v1: "map d_text (t_endEvents (curTurn (projr ?r1)))
            = [''Trick Room ends'', ''Squirtle 100% -> 44% PSN (psn)'']" by code_simp
  have tg: "''-damage'' = ''-damage'' \<or> ''-damage'' = ''-heal''" by simp
  note T = damage_end_of_turn_grouping[OF h0 tg e, of "''p2a: Squirtle''" "''44/100 psn''"]
  note X = ex_Inr_projr[OF ex2_conjD[OF T]]
  note h1 = X[THEN conjunct1]
  from X[THEN conjunct2]
  have k1: "map t_actions (turns (projr ?r1)) = map t_actions (turns (projr ?r0))"
    by (elim exE conjE)
  from X[THEN conjunct2]
  have "currentAction (projr ?r1) = currentAction (projr ?r0)"
    by (elim exE conjE)
  then have k2: "currentAction (projr ?r1) = Some (1, 0)" by (rule trans[OF _ a])
  from X[THEN conjunct2]
  have k3: "pendingFieldEnds (projr ?r1) = []"
    by (elim exE conjE)
  show ?thesis by (intro exI conjI) (rule h0 e p a h1 v0 v1 k1 k2 k3)+
qed

section \<open>The merge of a forced switch\<close>

lemma move_shape:
  "\<exists>c mv. case_move ctx (tag # who # mname # mrest) = Inr (setCurrentAction c mv)
          \<and> core c = core (finalizePendingAbilityBoost ctx)
          \<and> a_type mv = Move
          \<and> a_actorRef mv = Some (ri_ref (parsePokemonRef who))"
proof -
  have p1: "part (tag # who # mname # mrest) 1 = Some who" by (simp add: part_def)
  have p2: "part (tag # who # mname # mrest) 2 = Some mname" by (simp add: part_def)
  show ?thesis
    unfolding case_move_def withPart_def Let_def p1 p2 option.case
    apply (intro exI conjI)
       apply (rule refl)
      apply (simp_all add: core_field_upd core_updMon core_getOrCreatePokemon)
    done
qed

lemma move_opens_action:
  "\<exists>ctx1 mv.
     case_move ctx (tag # who # mname # mrest) = Inr ctx1
     \<and> a_type mv = Move \<and> a_actorRef mv = Some (ri_ref (parsePokemonRef who))
     \<and> turns ctx1 = (turns (finalizePendingAbilityBoost ctx))
          [currentTurn ctx := (curTurn (finalizePendingAbilityBoost ctx))
             \<lparr>t_actions := t_actions (curTurn (finalizePendingAbilityBoost ctx)) @ [mv]\<rparr>]
     \<and> currentTurn ctx1 = currentTurn ctx
     \<and> currentAction ctx1
         = Some (currentTurn ctx, length (t_actions (curTurn (finalizePendingAbilityBoost ctx))))
     \<and> pendingAbilityBoost ctx1 = None"
proof -
  define cF where "cF = finalizePendingAbilityBoost ctx"
  obtain c3 mv where
    r: "case_move ctx (tag # who # mname # mrest) = Inr (setCurrentAction c3 mv)"
    and k3: "core c3 = core cF"
    and mv: "a_type mv = Move" "a_actorRef mv = Some (ri_ref (parsePokemonRef who))"
    using move_shape[of ctx tag who mname mrest] unfolding cF_def by blast
  note e3 = core_eqD[OF k3]
  have fF: "pendingAbilityBoost cF = None" "currentTurn cF = currentTurn ctx"
    by (simp_all add: cF_def finalize_facts)
  have s: "turns (setCurrentAction c3 mv) = (turns cF)[currentTurn ctx := (curTurn cF)
             \<lparr>t_actions := t_actions (curTurn cF) @ [mv]\<rparr>]"
    "currentTurn (setCurrentAction c3 mv) = currentTurn ctx"
    "currentAction (setCurrentAction c3 mv) = Some (currentTurn ctx, length (t_actions (curTurn cF)))"
    "pendingAbilityBoost (setCurrentAction c3 mv) = None"
    using e3 fF by (simp_all add: setCurrentAction_def updCurTurn_def)
  show ?thesis using r mv s unfolding cF_def by blast
qed

lemma find_forced:
  "list_ex (\<lambda>f. forcedByMove (simplifyBracketText f)) srest
   \<Longrightarrow> find forcedByMove (parseExtras (a # b # c # d # srest) 4) \<noteq> None"
  by (auto simp: parseExtras_def list_ex_iff find_None_iff forcedByMove_def Let_def)

lemma updCurAction_turns:
  "currentAction c = Some (ti, ai) \<Longrightarrow>
   turns (updCurAction f c) = (turns c)[ti := (turns c ! ti)
       \<lparr>t_actions := (t_actions (turns c ! ti))[ai := f (t_actions (turns c ! ti) ! ai)]\<rparr>]"
  by (simp add: updCurAction_def)

lemma updCurAction_fields:
  "currentTurn (updCurAction f c) = currentTurn c"
  "currentAction (updCurAction f c) = currentAction c"
  "pokemon (updCurAction f c) = pokemon c"
  "teams (updCurAction f c) = teams c"
  by (simp_all add: updCurAction_def split: option.splits)

lemma text_switchDetail:
  "d_text (switchDetail c r pi pn) = orElse pn ''Previous'' @ '' -> '' @ getPokemonDisplayName c r"
  by (simp add: switchDetail_def Let_def makeDetail_def)

lemma displayName_cong:
  "pokemon a = pokemon b \<Longrightarrow> teams a = teams b
   \<Longrightarrow> getPokemonDisplayName a r = getPokemonDisplayName b r"
  by (auto simp: getPokemonDisplayName_def hasSpeciesOnBothSides_def Let_def split: option.splits)

lemma switchDetail_cong:
  assumes "pokemon a = pokemon b" "teams a = teams b"
  shows "switchDetail a r pi pn = switchDetail b r pi pn"
  using displayName_cong[OF assms, of r] assms(1) by (simp add: switchDetail_def Let_def)

lemma forced_switch_merges:
  assumes wf: "currentTurn ctx1 < length (turns ctx1)"
    and cur: "currentAction ctx1 = Some (currentTurn ctx1, ai)"
    and ai: "ai < length (t_actions (curTurn ctx1))"
    and mv: "a_type (t_actions (curTurn ctx1) ! ai) = Move"
      "a_actorRef (t_actions (curTurn ctx1) ! ai) = Some (ri_ref (parsePokemonRef who))"
    and np: "pendingAbilityBoost ctx1 = None"
    and forced: "list_ex (\<lambda>f. forcedByMove (simplifyBracketText f)) srest"
  shows "\<exists>ctx2 sd.
           case_switch ctx1 (tag # who # sdetails # shp # srest) = Inr ctx2
           \<and> turns ctx2 = (turns ctx1)[currentTurn ctx1 := (curTurn ctx1)
                \<lparr>t_actions := (t_actions (curTurn ctx1))
                    [ai := (t_actions (curTurn ctx1) ! ai)
                       \<lparr>a_details := consolidateBoosts (a_details (t_actions (curTurn ctx1) ! ai)) @ [sd]\<rparr>]\<rparr>]
           \<and> sd = switchDetail ctx2 (ri_ref (parsePokemonRef who))
                    (map_option mon_iconId (map_of (pokemon ctx1) (ri_ref (parsePokemonRef who))))
                    (case map_of (pokemon ctx1) (ri_ref (parsePokemonRef who)) of
                       None \<Rightarrow> None
                     | Some m \<Rightarrow> orOpt (mon_nickname m) (Some (mon_species m)))
           \<and> d_text sd = orElse (case map_of (pokemon ctx1) (ri_ref (parsePokemonRef who)) of
                                    None \<Rightarrow> None
                                  | Some m \<Rightarrow> orOpt (mon_nickname m) (Some (mon_species m)))
                                 ''Previous''
                          @ '' -> '' @ getPokemonDisplayName ctx2 (ri_ref (parsePokemonRef who))
           \<and> currentTurn ctx2 = currentTurn ctx1
           \<and> currentAction ctx2 = currentAction ctx1"
proof -
  let ?parts = "tag # who # sdetails # shp # srest"
  define ref where "ref = ri_ref (parsePokemonRef who)"
  define sp where "sp = headPiece (CHR '','') (orElse (part ?parts 2) [])"
  define pi where "pi = map_option mon_iconId (map_of (pokemon ctx1) ref)"
  define pn where "pn = (case map_of (pokemon ctx1) ref of None \<Rightarrow> None
                         | Some m \<Rightarrow> orOpt (mon_nickname m) (Some (mon_species m)))"
  define act where "act = t_actions (curTurn ctx1) ! ai"
  obtain c1 where u: "updatePokemonSpecies ctx1 ref sp = Inr c1" and k1: "core c1 = core ctx1"
    and m1: "map_of (pokemon c1) ref \<noteq> None"
    using updatePokemonSpecies_ok[of ctx1 ref sp] by blast
  define c4 where "c4 = recordSwitchIn c1 ref (ri_nickname (parsePokemonRef who))
                           (parseHPStatus (orElse (part ?parts 3) []))"
  have k4: "core c4 = core ctx1" by (simp add: c4_def core_recordSwitchIn k1)
  note e4 = core_eqD[OF k4]
  have ca: "curAction c4 = Some act"
    using e4 cur by (simp add: curAction_def act_def curTurn_def)
  have ff: "find forcedByMove (parseExtras ?parts 4) \<noteq> None" using forced by (rule find_forced)
  have r: "case_switch ctx1 ?parts = Inr (mergeForcedSwitch c4 ref pi pn)"
    using u m1 ca ff mv np
    unfolding ref_def sp_def pi_def pn_def c4_def act_def
    by (auto simp add: case_switch_def withPart_def part_def bindE_def Let_def finalize_none)
  define cA where "cA = updCurAction (\<lambda>a. a\<lparr>a_details := consolidateBoosts (a_details a)\<rparr>) c4"
  define sd where "sd = switchDetail cA ref pi pn"
  define res where "res = mergeForcedSwitch c4 ref pi pn"
  have res: "res = updCurAction (\<lambda>a. a\<lparr>a_details := a_details a @ [sd]\<rparr>) cA"
    by (simp add: res_def mergeForcedSwitch_def Let_def cA_def sd_def)
  have curA: "currentAction cA = Some (currentTurn ctx1, ai)" "currentTurn cA = currentTurn ctx1"
    using e4 cur by (simp_all add: cA_def updCurAction_fields)
  have tA: "turns cA = (turns ctx1)[currentTurn ctx1 := (curTurn ctx1)
              \<lparr>t_actions := (t_actions (curTurn ctx1))[ai := act\<lparr>a_details := consolidateBoosts (a_details act)\<rparr>]\<rparr>]"
    using e4 cur by (simp add: cA_def updCurAction_turns curTurn_def act_def)
  have tR: "turns res = (turns ctx1)[currentTurn ctx1 := (curTurn ctx1)
              \<lparr>t_actions := (t_actions (curTurn ctx1))
                 [ai := act\<lparr>a_details := consolidateBoosts (a_details act) @ [sd]\<rparr>]\<rparr>]"
    using wf ai curA by (simp add: res updCurAction_turns tA)
  have fR: "currentTurn res = currentTurn ctx1" "currentAction res = currentAction ctx1"
    using curA cur by (simp_all add: res updCurAction_fields)
  have dn: "getPokemonDisplayName cA ref = getPokemonDisplayName res ref"
    by (rule displayName_cong) (simp_all add: res updCurAction_fields)
  have tx: "d_text sd = orElse pn ''Previous'' @ '' -> '' @ getPokemonDisplayName res ref"
    by (simp add: sd_def text_switchDetail dn)
  have sR: "sd = switchDetail res ref pi pn"
    unfolding sd_def by (rule switchDetail_cong) (simp_all add: res updCurAction_fields)
  have "case_switch ctx1 ?parts = Inr res" using r by (simp add: res_def)
  with tR tx fR sR show ?thesis unfolding act_def pn_def pi_def ref_def by blast
qed





section \<open>Errors of the entry point\<close>

lemma nm_simps [simp]:
  "noMissingLog (Inr x)" "noMissingLog (Inl TypeError)" "noMissingLog (Inl SyntaxError)"
  "noMissingLog (Inl OutsideModel)"
  by (simp_all add: noMissingLog_def)

lemma withPart_nm: "(\<And>x. noMissingLog (f x)) \<Longrightarrow> noMissingLog (withPart parts i f)"
  by (simp add: withPart_def split: option.splits)

lemma bindE_nm:
  "noMissingLog m \<Longrightarrow> (\<And>x. noMissingLog (f x)) \<Longrightarrow> noMissingLog (bindE m f)"
  by (cases m) (auto simp: bindE_def noMissingLog_def)

lemma jsNumber_nm: "noMissingLog (jsNumber v)"
  by (simp add: jsNumber_def Let_def split: option.splits list.splits)

lemma addSpecies_nm: "noMissingLog (addSpecies ctx sd sp)"
  by (simp add: addSpecies_def Let_def)

lemma updatePokemonSpecies_nm: "noMissingLog (updatePokemonSpecies ctx r sp)"
  by (simp add: updatePokemonSpecies_def Let_def addSpecies_nm)

lemma isProtect_nm: "noMissingLog (isProtect e)"
  by (simp add: isProtect_def split: option.splits)

lemma boostDetail_nm: "noMissingLog (boostDetail ctx r d a s e)"
  by (simp add: boostDetail_def Let_def split_beta)

lemmas nm_rules = withPart_nm bindE_nm jsNumber_nm addSpecies_nm updatePokemonSpecies_nm
  isProtect_nm boostDetail_nm

lemma case_nm:
  "noMissingLog (case_player ctx parts)"
  "noMissingLog (case_format ctx parts)"
  "noMissingLog (case_win ctx parts)"
  "noMissingLog (case_l ctx parts)"
  "noMissingLog (case_turn ctx parts)"
  "noMissingLog (case_poke ctx parts)"
  "noMissingLog (case_cant ctx parts)"
  "noMissingLog (case_terrain ctx parts)"
  "noMissingLog (case_message ctx parts)"
  "noMissingLog (case_fieldend ctx parts)"
  "noMissingLog (case_formechange ctx parts)"
  "noMissingLog (case_immune ctx parts)"
  by (simp_all add: case_player_def case_format_def case_win_def case_l_def case_turn_def
      case_poke_def case_cant_def case_terrain_def case_message_def case_fieldend_def
      case_formechange_def case_immune_def Let_def nm_rules split: option.splits)

lemma case_nm2:
  "noMissingLog (case_switch ctx parts)"
  "noMissingLog (case_move ctx parts)"
  "noMissingLog (case_damage ctx parts)"
  "noMissingLog (case_boost tag ctx parts)"
  "noMissingLog (case_status ctx parts)"
  "noMissingLog (case_curestatus ctx parts)"
  "noMissingLog (case_ability ctx parts)"
  "noMissingLog (case_item w ctx parts)"
  by (simp_all add: case_switch_def case_move_def case_damage_def case_boost_def case_status_def
      case_curestatus_def case_ability_def case_item_def Let_def split_beta nm_rules
      split: option.splits)

lemma case_nm3:
  "noMissingLog (case_fieldstart ctx parts)"
  "noMissingLog (case_weather ctx parts)"
  "noMissingLog (case_sidestart ctx parts)"
  "noMissingLog (case_sideend ctx parts)"
  "noMissingLog (case_singleturn ctx parts)"
  "noMissingLog (case_activate ctx parts)"
  "noMissingLog (case_fail ctx parts)"
  "noMissingLog (case_miss ctx parts)"
  "noMissingLog (case_faint ctx parts)"
  "noMissingLog (case_terastallize ctx parts)"
  by (simp_all add: case_fieldstart_def case_weather_def case_sidestart_def case_sideend_def
      case_singleturn_def case_activate_def case_fail_def case_miss_def case_faint_def
      case_terastallize_def Let_def split_beta nm_rules split: option.splits)

lemma processRecord_nm: "noMissingLog (processRecord ctx parts)"
  by (simp add: processRecord_def Let_def case_nm case_nm2 case_nm3)

lemma processLine_nm: "noMissingLog (processLine ctx l)"
  by (simp add: processLine_def Let_def processRecord_nm)

lemma processLines_nm: "noMissingLog (processLines ctx ls)"
proof (induction ls arbitrary: ctx)
  case Nil
  then show ?case by simp
next
  case (Cons l ls)
  show ?case using processLine_nm[of ctx l] Cons
    by (cases "processLine ctx l") (auto simp: noMissingLog_def)
qed

lemma formatAction_nm: "noMissingLog (formatAction re a)"
  by (simp add: formatAction_def stripTarget_def Let_def nm_rules split: option.splits)

lemma formatActions_nm: "noMissingLog (formatActions re as)"
  by (induction as) (simp_all add: nm_rules formatAction_nm)

lemma formatTurn_nm: "noMissingLog (formatTurn re t)"
  by (simp add: formatTurn_def Let_def nm_rules formatActions_nm)

lemma renderTurns_nm: "noMissingLog (renderTurns re ts)"
  by (induction ts) (simp_all add: nm_rules formatTurn_nm)

lemma renderSummary_nm: "noMissingLog (renderSummary re ctx)"
  by (simp add: renderSummary_def Let_def nm_rules renderTurns_nm)

lemma skippedLine_processLine: "skippedLine l \<Longrightarrow> processLine ctx l = Inr ctx"
proof (cases "recordTag l")
  case None
  then show ?thesis by (simp add: recordTag_processLine)
next
  case (Some t)
  assume "skippedLine l"
  then have "t \<notin> set knownTags" using Some by (simp add: skippedLine_def)
  then have "processRecord ctx (splitOn (CHR ''|'') (if startsWith l ''|'' then drop 1 l else l)) = Inr ctx"
    using recordTag_tagOf[OF Some] by (simp add: processRecord_def knownTags_def)
  then show ?thesis using Some by (simp add: recordTag_processLine)
qed

lemma skipped_processLines: "\<forall>l\<in>set ls. skippedLine l \<Longrightarrow> processLines ctx ls = Inr ctx"
  by (induction ls) (simp_all add: skippedLine_processLine)


section \<open>Records that are processed, and records that are not\<close>

lemma isl_bindE: "isl (bindE m f) = (isl m \<or> isl (f (projr m)))"
  by (cases m) (simp_all add: bindE_def)

lemma isl_withPart: "isl (withPart parts i f) = (part parts i = None \<or> isl (f (the (part parts i))))"
  by (cases "part parts i") (simp_all add: withPart_def)

lemma part_length [simp]: "i < length parts \<Longrightarrow> part parts i = Some (parts ! i)"
  by (simp add: part_def)

lemma part_short [simp]: "length parts \<le> i \<Longrightarrow> part parts i = None"
  by (simp add: part_def)

lemma addSpecies_returns:
  "sd = ''p1'' \<or> sd = ''p2'' \<Longrightarrow> \<not> isl (addSpecies ctx sd sp)"
  by (auto simp: addSpecies_def Let_def)

lemma updatePokemonSpecies_returns: "\<not> isl (updatePokemonSpecies ctx r sp)"
  by (simp add: updatePokemonSpecies_def Let_def addSpecies_returns sideName_def split: side.splits)

lemma jsNumber_returns: "jsNumber v \<noteq> Inl OutsideModel \<Longrightarrow> \<not> isl (jsNumber v)"
  by (auto simp: jsNumber_def Let_def split: option.splits list.splits if_splits)

lemma isProtect_returns: "\<not> isl (isProtect (Some e))"
  by (simp add: isProtect_def)

lemma isProtect_absent: "isProtect None = Inl TypeError"
proof -
  have "\<not> includesStr (toId None) ''protect''" by code_simp
  then show ?thesis by (simp add: isProtect_def)
qed

lemma boostDetail_returns: "\<not> isl (boostDetail ctx r d a s e)"
  by (simp add: boostDetail_def Let_def split_beta)

lemmas returns_simps = isl_bindE isl_withPart updatePokemonSpecies_returns isProtect_returns
  boostDetail_returns Let_def split_beta

lemma returns1:
  "\<not> isl (case_player ctx parts)"
  "\<not> isl (case_format ctx parts)"
  "\<not> isl (case_win ctx parts)"
  "\<not> isl (case_l ctx parts)"
  "\<not> isl (case_terrain ctx parts)"
  "\<not> isl (case_message ctx parts)"
  by (simp_all add: case_player_def case_format_def case_win_def case_l_def case_terrain_def case_message_def returns_simps split: option.splits)

lemma returns_turn:
  "jsNumber (part parts 1) \<noteq> Inl OutsideModel \<Longrightarrow> \<not> isl (case_turn ctx parts)"
  by (simp add: case_turn_def returns_simps jsNumber_returns)

lemma returns2:
  "1 < length parts \<Longrightarrow> \<not> isl (case_switch ctx parts)"
  "1 < length parts \<Longrightarrow> \<not> isl (case_cant ctx parts)"
  "1 < length parts \<Longrightarrow> \<not> isl (case_ability ctx parts)"
  "1 < length parts \<Longrightarrow> \<not> isl (case_item w ctx parts)"
  "1 < length parts \<Longrightarrow> \<not> isl (case_fieldstart ctx parts)"
  "1 < length parts \<Longrightarrow> \<not> isl (case_fieldend ctx parts)"
  "1 < length parts \<Longrightarrow> \<not> isl (case_weather ctx parts)"
  "1 < length parts \<Longrightarrow> \<not> isl (case_sidestart ctx parts)"
  "1 < length parts \<Longrightarrow> \<not> isl (case_sideend ctx parts)"
  "1 < length parts \<Longrightarrow> \<not> isl (case_fail ctx parts)"
  "1 < length parts \<Longrightarrow> \<not> isl (case_miss ctx parts)"
  "1 < length parts \<Longrightarrow> \<not> isl (case_immune ctx parts)"
  "1 < length parts \<Longrightarrow> \<not> isl (case_faint ctx parts)"
  "1 < length parts \<Longrightarrow> \<not> isl (case_terastallize ctx parts)"
  by (simp_all add: case_switch_def case_cant_def case_ability_def case_item_def case_fieldstart_def case_fieldend_def case_weather_def case_sidestart_def case_sideend_def case_fail_def case_miss_def case_immune_def case_faint_def case_terastallize_def returns_simps split: option.splits)

lemma returns3:
  "2 < length parts \<Longrightarrow> \<not> isl (case_move ctx parts)"
  "2 < length parts \<Longrightarrow> \<not> isl (case_damage ctx parts)"
  "2 < length parts \<Longrightarrow> \<not> isl (case_status ctx parts)"
  "2 < length parts \<Longrightarrow> \<not> isl (case_curestatus ctx parts)"
  "2 < length parts \<Longrightarrow> \<not> isl (case_singleturn ctx parts)"
  "2 < length parts \<Longrightarrow> \<not> isl (case_activate ctx parts)"
  "2 < length parts \<Longrightarrow> \<not> isl (case_formechange ctx parts)"
  by (simp_all add: case_move_def case_damage_def case_status_def case_curestatus_def case_singleturn_def case_activate_def case_formechange_def returns_simps split: option.splits)

lemma returns_poke:
  "completeRecord parts \<Longrightarrow> tagOf parts = ''poke'' \<Longrightarrow> \<not> isl (case_poke ctx parts)"
  by (auto simp: completeRecord_def fieldsNeeded_def case_poke_def returns_simps addSpecies_returns)

lemma returns_boost:
  "2 < length parts \<Longrightarrow> jsNumber (part parts 3) \<noteq> Inl OutsideModel
   \<Longrightarrow> \<not> isl (case_boost tag ctx parts)"
  by (simp add: case_boost_def returns_simps jsNumber_returns split: option.splits)

lemma short2:
  "length parts \<le> 1 \<Longrightarrow> case_switch ctx parts = Inl TypeError"
  "length parts \<le> 1 \<Longrightarrow> case_cant ctx parts = Inl TypeError"
  "length parts \<le> 1 \<Longrightarrow> case_ability ctx parts = Inl TypeError"
  "length parts \<le> 1 \<Longrightarrow> case_item w ctx parts = Inl TypeError"
  "length parts \<le> 1 \<Longrightarrow> case_fieldstart ctx parts = Inl TypeError"
  "length parts \<le> 1 \<Longrightarrow> case_fieldend ctx parts = Inl TypeError"
  "length parts \<le> 1 \<Longrightarrow> case_weather ctx parts = Inl TypeError"
  "length parts \<le> 1 \<Longrightarrow> case_sidestart ctx parts = Inl TypeError"
  "length parts \<le> 1 \<Longrightarrow> case_sideend ctx parts = Inl TypeError"
  "length parts \<le> 1 \<Longrightarrow> case_fail ctx parts = Inl TypeError"
  "length parts \<le> 1 \<Longrightarrow> case_miss ctx parts = Inl TypeError"
  "length parts \<le> 1 \<Longrightarrow> case_immune ctx parts = Inl TypeError"
  "length parts \<le> 1 \<Longrightarrow> case_faint ctx parts = Inl TypeError"
  "length parts \<le> 1 \<Longrightarrow> case_terastallize ctx parts = Inl TypeError"
  "length parts \<le> 1 \<Longrightarrow> case_move ctx parts = Inl TypeError"
  "length parts \<le> 1 \<Longrightarrow> case_damage ctx parts = Inl TypeError"
  "length parts \<le> 1 \<Longrightarrow> case_status ctx parts = Inl TypeError"
  "length parts \<le> 1 \<Longrightarrow> case_curestatus ctx parts = Inl TypeError"
  "length parts \<le> 1 \<Longrightarrow> case_singleturn ctx parts = Inl TypeError"
  "length parts \<le> 1 \<Longrightarrow> case_activate ctx parts = Inl TypeError"
  "length parts \<le> 1 \<Longrightarrow> case_formechange ctx parts = Inl TypeError"
  "length parts \<le> 1 \<Longrightarrow> case_boost tag ctx parts = Inl TypeError"
  by (simp_all add: case_switch_def case_cant_def case_ability_def case_item_def case_fieldstart_def case_fieldend_def case_weather_def case_sidestart_def case_sideend_def case_fail_def case_miss_def case_immune_def case_faint_def case_terastallize_def case_move_def case_damage_def case_status_def case_curestatus_def case_singleturn_def case_activate_def case_formechange_def case_boost_def withPart_def Let_def)

lemma short3:
  "length parts \<le> 2 \<Longrightarrow> case_move ctx parts = Inl TypeError"
  "length parts \<le> 2 \<Longrightarrow> case_damage ctx parts = Inl TypeError"
  "length parts \<le> 2 \<Longrightarrow> case_status ctx parts = Inl TypeError"
  "length parts \<le> 2 \<Longrightarrow> case_curestatus ctx parts = Inl TypeError"
  "length parts \<le> 2 \<Longrightarrow> case_singleturn ctx parts = Inl TypeError"
  "length parts \<le> 2 \<Longrightarrow> case_activate ctx parts = Inl TypeError"
  "length parts \<le> 2 \<Longrightarrow> case_formechange ctx parts = Inl TypeError"
  "length parts \<le> 2 \<Longrightarrow> case_boost tag ctx parts = Inl TypeError"
  "length parts \<le> 2 \<Longrightarrow> case_poke ctx parts = Inl TypeError"
  by (simp_all add: case_move_def case_damage_def case_status_def case_curestatus_def case_singleturn_def case_activate_def case_formechange_def case_boost_def case_poke_def withPart_def Let_def split_beta bindE_def
      isProtect_absent split: option.splits)

lemma dispatch:
  "tagOf parts = ''player'' \<Longrightarrow> processRecord ctx parts = case_player ctx parts"
  "tagOf parts = ''gen'' \<Longrightarrow> processRecord ctx parts = case_format ctx parts"
  "tagOf parts = ''tier'' \<Longrightarrow> processRecord ctx parts = case_format ctx parts"
  "tagOf parts = ''format'' \<Longrightarrow> processRecord ctx parts = case_format ctx parts"
  "tagOf parts = ''win'' \<Longrightarrow> processRecord ctx parts = case_win ctx parts"
  "tagOf parts = ''l'' \<Longrightarrow> processRecord ctx parts = case_l ctx parts"
  "tagOf parts = ''turn'' \<Longrightarrow> processRecord ctx parts = case_turn ctx parts"
  "tagOf parts = ''poke'' \<Longrightarrow> processRecord ctx parts = case_poke ctx parts"
  "tagOf parts = ''switch'' \<Longrightarrow> processRecord ctx parts = case_switch ctx parts"
  "tagOf parts = ''drag'' \<Longrightarrow> processRecord ctx parts = case_switch ctx parts"
  "tagOf parts = ''replace'' \<Longrightarrow> processRecord ctx parts = case_switch ctx parts"
  "tagOf parts = ''move'' \<Longrightarrow> processRecord ctx parts = case_move ctx parts"
  "tagOf parts = ''cant'' \<Longrightarrow> processRecord ctx parts = case_cant ctx parts"
  "tagOf parts = ''-damage'' \<Longrightarrow> processRecord ctx parts = case_damage ctx parts"
  "tagOf parts = ''-heal'' \<Longrightarrow> processRecord ctx parts = case_damage ctx parts"
  "tagOf parts = ''-boost'' \<Longrightarrow> processRecord ctx parts = case_boost ''-boost'' ctx parts"
  "tagOf parts = ''-unboost'' \<Longrightarrow> processRecord ctx parts = case_boost ''-unboost'' ctx parts"
  "tagOf parts = ''-status'' \<Longrightarrow> processRecord ctx parts = case_status ctx parts"
  "tagOf parts = ''-curestatus'' \<Longrightarrow> processRecord ctx parts = case_curestatus ctx parts"
  "tagOf parts = ''-ability'' \<Longrightarrow> processRecord ctx parts = case_ability ctx parts"
  "tagOf parts = ''-item'' \<Longrightarrow> processRecord ctx parts = case_item ''Item gained: '' ctx parts"
  "tagOf parts = ''-enditem'' \<Longrightarrow> processRecord ctx parts = case_item ''Item lost: '' ctx parts"
  "tagOf parts = ''-fieldstart'' \<Longrightarrow> processRecord ctx parts = case_fieldstart ctx parts"
  "tagOf parts = ''-fieldend'' \<Longrightarrow> processRecord ctx parts = case_fieldend ctx parts"
  "tagOf parts = ''-weather'' \<Longrightarrow> processRecord ctx parts = case_weather ctx parts"
  "tagOf parts = ''-sidestart'' \<Longrightarrow> processRecord ctx parts = case_sidestart ctx parts"
  "tagOf parts = ''-sideend'' \<Longrightarrow> processRecord ctx parts = case_sideend ctx parts"
  "tagOf parts = ''-terrain'' \<Longrightarrow> processRecord ctx parts = case_terrain ctx parts"
  "tagOf parts = ''-message'' \<Longrightarrow> processRecord ctx parts = case_message ctx parts"
  "tagOf parts = ''-singleturn'' \<Longrightarrow> processRecord ctx parts = case_singleturn ctx parts"
  "tagOf parts = ''-activate'' \<Longrightarrow> processRecord ctx parts = case_activate ctx parts"
  "tagOf parts = ''-fail'' \<Longrightarrow> processRecord ctx parts = case_fail ctx parts"
  "tagOf parts = ''-miss'' \<Longrightarrow> processRecord ctx parts = case_miss ctx parts"
  "tagOf parts = ''-immune'' \<Longrightarrow> processRecord ctx parts = case_immune ctx parts"
  "tagOf parts = ''faint'' \<Longrightarrow> processRecord ctx parts = case_faint ctx parts"
  "tagOf parts = ''-terastallize'' \<Longrightarrow> processRecord ctx parts = case_terastallize ctx parts"
  "tagOf parts = ''detailschange'' \<Longrightarrow> processRecord ctx parts = case_formechange ctx parts"
  "tagOf parts = ''formechange'' \<Longrightarrow> processRecord ctx parts = case_formechange ctx parts"
  by (simp_all add: processRecord_def Let_def)

lemma unknown_tag: "tagOf parts \<notin> set knownTags \<Longrightarrow> processRecord ctx parts = Inr ctx"
  by (simp add: processRecord_def knownTags_def)

lemma known_tag:
  "tagOf parts \<in> set knownTags \<Longrightarrow>
   tagOf parts = ''player'' \<or> tagOf parts = ''gen'' \<or> tagOf parts = ''tier'' \<or> tagOf parts = ''format'' \<or> tagOf parts = ''win'' \<or> tagOf parts = ''l''
   \<or> tagOf parts = ''turn'' \<or> tagOf parts = ''poke'' \<or> tagOf parts = ''switch'' \<or> tagOf parts = ''drag'' \<or> tagOf parts = ''replace'' \<or> tagOf parts = ''move'' \<or> tagOf parts = ''cant''
   \<or> tagOf parts = ''-damage'' \<or> tagOf parts = ''-heal'' \<or> tagOf parts = ''-boost'' \<or> tagOf parts = ''-unboost'' \<or> tagOf parts = ''-status'' \<or> tagOf parts = ''-curestatus'' \<or> tagOf parts = ''-ability'' \<or> tagOf parts = ''-item'' \<or> tagOf parts = ''-enditem''
   \<or> tagOf parts = ''-fieldstart'' \<or> tagOf parts = ''-fieldend'' \<or> tagOf parts = ''-weather'' \<or> tagOf parts = ''-sidestart'' \<or> tagOf parts = ''-sideend'' \<or> tagOf parts = ''-terrain'' \<or> tagOf parts = ''-message''
   \<or> tagOf parts = ''-singleturn'' \<or> tagOf parts = ''-activate'' \<or> tagOf parts = ''-fail'' \<or> tagOf parts = ''-miss'' \<or> tagOf parts = ''-immune'' \<or> tagOf parts = ''faint'' \<or> tagOf parts = ''-terastallize'' \<or> tagOf parts = ''detailschange'' \<or> tagOf parts = ''formechange''"
  by (simp add: knownTags_def)

lemma processRecord_returns:
  assumes "completeRecord parts"
  shows "\<not> isl (processRecord ctx parts)"
proof (cases "tagOf parts \<in> set knownTags")
  case False
  then show ?thesis by (simp add: unknown_tag)
next
  case True
  from known_tag[OF True] assms show ?thesis
    by (elim disjE)
      (simp_all add: completeRecord_def fieldsNeeded_def dispatch returns1 returns2 returns3
        returns_turn returns_poke[OF assms] returns_boost)
qed

lemma processRecord_short:
  assumes "length parts < fieldsNeeded (tagOf parts)"
  shows "processRecord ctx parts = Inl TypeError"
proof (cases "tagOf parts \<in> set knownTags")
  case False
  then have "fieldsNeeded (tagOf parts) = 0" by (auto simp: fieldsNeeded_def knownTags_def)
  with assms show ?thesis by simp
next
  case True
  from known_tag[OF True] assms show ?thesis
    by (elim disjE) (simp_all add: fieldsNeeded_def dispatch short2 short3)
qed

lemma processLine_returns: "completeLine l \<Longrightarrow> \<not> isl (processLine ctx l)"
  by (auto simp: completeLine_def processLine_def Let_def processRecord_returns)

lemma processLines_returns: "list_all completeLine ls \<Longrightarrow> \<not> isl (processLines ctx ls)"
proof (induction ls arbitrary: ctx)
  case Nil
  then show ?case by simp
next
  case (Cons l ls)
  then have "\<not> isl (processLine ctx l)" by (simp add: processLine_returns)
  then obtain c where "processLine ctx l = Inr c" by (cases "processLine ctx l") auto
  with Cons show ?case by simp
qed

section \<open>Rendering fails only when the engine rejects a name\<close>

lemma rr_Inr [simp]: "returnsOrRejects re (Inr x)"
  by (simp add: returnsOrRejects_def)

lemma bindE_rr:
  "returnsOrRejects re m \<Longrightarrow> (\<And>x. returnsOrRejects re (f x)) \<Longrightarrow> returnsOrRejects re (bindE m f)"
  by (cases m) (auto simp: bindE_def returnsOrRejects_def)

lemma stripTarget_rr: "returnsOrRejects re (stripTarget re a c)"
  by (auto simp: stripTarget_def Let_def returnsOrRejects_def rejects_def split: option.splits)

lemma formatAction_rr: "returnsOrRejects re (formatAction re a)"
  by (simp add: formatAction_def Let_def bindE_rr stripTarget_rr split: option.splits)

lemma formatActions_rr: "returnsOrRejects re (formatActions re as)"
  by (induction as) (simp_all add: bindE_rr formatAction_rr)

lemma formatTurn_rr: "returnsOrRejects re (formatTurn re t)"
  by (simp add: formatTurn_def Let_def bindE_rr formatActions_rr)

lemma renderTurns_rr: "returnsOrRejects re (renderTurns re ts)"
  by (induction ts) (simp_all add: bindE_rr formatTurn_rr)

lemma renderSummary_rr: "returnsOrRejects re (renderSummary re ctx)"
  by (simp add: renderSummary_def Let_def bindE_rr renderTurns_rr)






end
